theory Spec2Isabelle
  imports Main
begin

section \<open>The spreadsheet library as the scripts use it\<close>

text \<open>
  The five scripts of the repository are straight-line programs over one mutable
  workbook of the openpyxl library. The library object model is kept as the scripts
  see it: a workbook is the ordered list of its sheets, a sheet holds a dictionary of
  cells keyed by (row, column), and a cell holds a value and its style attributes.
  A Python \<open>str\<close> is modelled by the bytes of its UTF-8 encoding, so equality,
  \<open>startswith\<close> and the substring test \<open>in\<close> with an ASCII needle agree with Python.
\<close>

subsection \<open>Cell values and styles\<close>

datatype cell_value =
    StrV string
  | IntV int
  | FloatV string

record font =
  font_name :: "string option"
  font_size :: "nat option"
  font_bold :: bool
  font_color :: "string option"

record pattern_fill =
  start_color :: string
  end_color :: string
  fill_type :: "string option"

record alignment =
  horizontal :: "string option"
  vertical :: "string option"
  wrap_text :: bool

record side =
  side_style :: "string option"
  side_color :: "string option"

record border =
  b_left :: side
  b_right :: side
  b_top :: side
  b_bottom :: side

text \<open>The style attributes of a cell, and the cell: its value and its style. The
  attribute assignments of the scripts (\<open>cell.font = ...\<close>, \<open>cell.fill = ...\<close>) change
  the style only; the value is set by \<open>ws.cell\<close> and by subscript assignment.\<close>

record style =
  s_font :: font
  s_fill :: pattern_fill
  s_alignment :: alignment
  s_border :: border
  s_number_format :: string

record cell =
  c_value :: "cell_value option"
  c_style :: style

definition Font :: "string option \<Rightarrow> nat option \<Rightarrow> bool \<Rightarrow> string option \<Rightarrow> font" where
  "Font nm sz bd col =
     \<lparr>font_name = nm, font_size = sz, font_bold = bd, font_color = col\<rparr>"

definition PatternFill :: "string \<Rightarrow> string \<Rightarrow> string \<Rightarrow> pattern_fill" where
  "PatternFill sc ec ft = \<lparr>start_color = sc, end_color = ec, fill_type = Some ft\<rparr>"

definition Alignment :: "string option \<Rightarrow> string option \<Rightarrow> bool \<Rightarrow> alignment" where
  "Alignment h v w = \<lparr>horizontal = h, vertical = v, wrap_text = w\<rparr>"

definition Side :: "string option \<Rightarrow> string option \<Rightarrow> side" where
  "Side st col = \<lparr>side_style = st, side_color = col\<rparr>"

definition Border :: "side \<Rightarrow> side \<Rightarrow> side \<Rightarrow> side \<Rightarrow> border" where
  "Border l r t b = \<lparr>b_left = l, b_right = r, b_top = t, b_bottom = b\<rparr>"

text \<open>The style every cell starts with: the library's default font, an empty pattern
  fill whose colour reads \<open>00000000\<close>, no alignment, no border sides, format General.\<close>

definition default_font :: font where
  "default_font = Font (Some ''Calibri'') (Some 11) False None"

definition default_fill :: pattern_fill where
  "default_fill = \<lparr>start_color = ''00000000'', end_color = ''00000000'', fill_type = None\<rparr>"

definition default_alignment :: alignment where
  "default_alignment = Alignment None None False"

definition default_border :: border where
  "default_border = Border (Side None None) (Side None None) (Side None None) (Side None None)"

definition default_style :: style where
  "default_style =
     \<lparr>s_font = default_font, s_fill = default_fill, s_alignment = default_alignment,
      s_border = default_border, s_number_format = ''General''\<rparr>"

definition default_cell :: cell where
  "default_cell = \<lparr>c_value = None, c_style = default_style\<rparr>"

subsection \<open>Charts, sheets and workbooks\<close>

text \<open>\<open>Reference(ws, min_col, min_row, max_col, max_row)\<close>: a rectangle of cells of a
  sheet. A bound that is left out defaults to the matching minimum.\<close>

record reference =
  ref_sheet :: string
  min_col :: nat
  min_row :: nat
  max_col :: nat
  max_row :: nat

definition Reference :: "string \<Rightarrow> nat \<Rightarrow> nat \<Rightarrow> nat option \<Rightarrow> nat option \<Rightarrow> reference" where
  "Reference ws mc mr xc xr =
     \<lparr>ref_sheet = ws, min_col = mc, min_row = mr,
      max_col = (case xc of None \<Rightarrow> mc | Some c \<Rightarrow> c),
      max_row = (case xr of None \<Rightarrow> mr | Some r \<Rightarrow> r)\<rparr>"

datatype chart_kind = BarChart | LineChart | PieChart

text \<open>A chart keeps what the script hands to it: each \<open>add_data\<close> reference with its
  \<open>titles_from_data\<close> flag, the categories reference, the anchor, and the display
  options (title, style, axis titles, size, ...) as the list of the attribute assignments
  in the order of the source, each value in its Python notation.\<close>

record chart =
  ch_kind :: chart_kind
  ch_data :: "(reference \<times> bool) list"
  ch_cats :: "reference option"
  ch_anchor :: string
  ch_options :: "(string \<times> string) list"

definition new_chart :: "chart_kind \<Rightarrow> chart" where
  "new_chart k =
     \<lparr>ch_kind = k, ch_data = [], ch_cats = None, ch_anchor = ''E15'', ch_options = []\<rparr>"

definition add_data :: "reference \<Rightarrow> bool \<Rightarrow> chart \<Rightarrow> chart" where
  "add_data r titles_from_data ch = ch\<lparr>ch_data := ch_data ch @ [(r, titles_from_data)]\<rparr>"

definition set_categories :: "reference \<Rightarrow> chart \<Rightarrow> chart" where
  "set_categories r ch = ch\<lparr>ch_cats := Some r\<rparr>"

definition set_option :: "string \<Rightarrow> string \<Rightarrow> chart \<Rightarrow> chart" where
  "set_option k v ch = ch\<lparr>ch_options := ch_options ch @ [(k, v)]\<rparr>"

record sheet =
  sh_title :: string
  cells :: "nat \<times> nat \<rightharpoonup> cell"
  charts :: "chart list"
  merged_cells :: "string list"
  column_widths :: "string \<rightharpoonup> nat"
  freeze_panes :: "string option"

definition new_sheet :: "string \<Rightarrow> sheet" where
  "new_sheet t =
     \<lparr>sh_title = t, cells = Map.empty, charts = [], merged_cells = [],
      column_widths = Map.empty, freeze_panes = None\<rparr>"

record workbook =
  sheets :: "sheet list"

text \<open>The exceptions a script can end with: a bad coordinate, column index or sheet
  title (ValueError), the library missing (ImportError), its installation failing
  (CalledProcessError), and the output file not writable (OSError).\<close>

datatype error = ValueError | ImportError | CalledProcessError | OSError

subsection \<open>Statements and loops\<close>

text \<open>A statement changes the state or raises. A block runs its statements in order and
  stops at the first one that raises; \<open>if c: A else: B\<close> is \<open>cond c A B\<close> (with \<open>Inr\<close> for
  a missing \<open>else\<close> of statements and \<open>id\<close> for one of attribute assignments);
  \<open>for i, x in enumerate(xs, start)\<close> runs its body once per element with the running
  index, and \<open>for i in range(a, b)\<close> once per number from \<open>a\<close> up to \<open>b - 1\<close>.\<close>

fun run_steps :: "('s \<Rightarrow> error + 's) list \<Rightarrow> 's \<Rightarrow> error + 's" where
  "run_steps [] s = Inr s"
| "run_steps (f # fs) s = (case f s of Inl e \<Rightarrow> Inl e | Inr s' \<Rightarrow> run_steps fs s')"

definition cond :: "bool \<Rightarrow> ('a \<Rightarrow> 'b) \<Rightarrow> ('a \<Rightarrow> 'b) \<Rightarrow> 'a \<Rightarrow> 'b" where
  "cond c f g s = (if c then f s else g s)"

fun for_enumerate :: "(nat \<Rightarrow> 'a \<Rightarrow> 's \<Rightarrow> error + 's) \<Rightarrow> nat \<Rightarrow> 'a list \<Rightarrow> 's \<Rightarrow> error + 's" where
  "for_enumerate body start [] s = Inr s"
| "for_enumerate body start (x # xs) s =
     (case body start x s of Inl e \<Rightarrow> Inl e | Inr s' \<Rightarrow> for_enumerate body (Suc start) xs s')"

definition for_range :: "(nat \<Rightarrow> 's \<Rightarrow> error + 's) \<Rightarrow> nat \<Rightarrow> nat \<Rightarrow> 's \<Rightarrow> error + 's" where
  "for_range body a b = for_enumerate (\<lambda>i (_::nat). body i) a [a..<b]"

subsection \<open>Cell access\<close>

definition get_cell :: "sheet \<Rightarrow> nat \<times> nat \<Rightarrow> cell" where
  "get_cell ws rc = (case cells ws rc of None \<Rightarrow> default_cell | Some c \<Rightarrow> c)"

text \<open>\<open>ws.cell(row, column, value)\<close>: raises ValueError below row 1 or column 1; creates
  the cell when the sheet has none there, keeps an existing cell with its style, and
  assigns the value when one is given.\<close>

definition ws_cell :: "nat \<Rightarrow> nat \<Rightarrow> cell_value option \<Rightarrow> sheet \<Rightarrow> error + sheet" where
  "ws_cell row column v ws =
     (if row < 1 \<or> column < 1 then Inl ValueError
      else Inr (ws\<lparr>cells := (cells ws)((row, column) \<mapsto>
             (case v of None \<Rightarrow> get_cell ws (row, column)
              | Some x \<Rightarrow> (get_cell ws (row, column))\<lparr>c_value := Some x\<rparr>))\<rparr>))"

text \<open>Attribute assignments through the handle that \<open>ws.cell\<close> returned.\<close>

definition upd_cell :: "nat \<times> nat \<Rightarrow> (style \<Rightarrow> style) \<Rightarrow> sheet \<Rightarrow> sheet" where
  "upd_cell rc f ws =
     ws\<lparr>cells := (cells ws)(rc \<mapsto> (get_cell ws rc)\<lparr>c_style := f (c_style (get_cell ws rc))\<rparr>)\<rparr>"

definition cell_set :: "nat \<times> nat \<Rightarrow> (style \<Rightarrow> style) \<Rightarrow> sheet \<Rightarrow> error + sheet" where
  "cell_set rc f ws = Inr (upd_cell rc f ws)"

text \<open>The statement pattern of every table loop: fetch the cell with its value, then
  run the attribute assignments \<open>sty\<close> on it.\<close>

definition cell_stmt :: "(style \<Rightarrow> style) \<Rightarrow> nat \<Rightarrow> nat \<Rightarrow> cell_value \<Rightarrow> sheet \<Rightarrow> error + sheet" where
  "cell_stmt sty row column v ws =
     (case ws_cell row column (Some v) ws of
        Inl e \<Rightarrow> Inl e
      | Inr ws' \<Rightarrow> Inr (upd_cell (row, column) sty ws'))"

subsection \<open>Table loops\<close>

text \<open>The loop over one row, \<open>for col, value in enumerate(row_data, c0)\<close>, with the
  attribute assignments \<open>sty row col value\<close> of its body; the loop over the rows,
  \<open>for row, row_data in enumerate(rows, r0)\<close>; and a table: the header loop at the
  anchor row followed by the data loop one row below, as each script writes it.\<close>

definition write_row ::
  "(nat \<Rightarrow> nat \<Rightarrow> cell_value \<Rightarrow> style \<Rightarrow> style) \<Rightarrow> nat \<Rightarrow> nat \<Rightarrow> cell_value list \<Rightarrow> sheet \<Rightarrow> error + sheet" where
  "write_row sty row c0 vs =
     for_enumerate (\<lambda>col v. cell_stmt (sty row col v) row col v) c0 vs"

definition write_rows ::
  "(nat \<Rightarrow> nat \<Rightarrow> cell_value \<Rightarrow> style \<Rightarrow> style) \<Rightarrow> nat \<Rightarrow> nat \<Rightarrow> cell_value list list \<Rightarrow> sheet \<Rightarrow> error + sheet" where
  "write_rows sty r0 c0 rows =
     for_enumerate (\<lambda>row row_data. write_row sty row c0 row_data) r0 rows"

definition write_table ::
  "(style \<Rightarrow> style) \<Rightarrow> (nat \<Rightarrow> nat \<Rightarrow> cell_value \<Rightarrow> style \<Rightarrow> style) \<Rightarrow> nat \<times> nat \<Rightarrow>
     cell_value list \<Rightarrow> cell_value list list \<Rightarrow> sheet \<Rightarrow> error + sheet" where
  "write_table hsty bsty anchor headers rows =
     run_steps
       [write_row (\<lambda>_ _ _. hsty) (fst anchor) (snd anchor) headers,
        write_rows bsty (Suc (fst anchor)) (snd anchor) rows]"

text \<open>The cell a table loop leaves at a position: the cell found there (or a fresh one)
  with the new value, then styled.\<close>

definition written :: "(style \<Rightarrow> style) \<Rightarrow> cell_value \<Rightarrow> sheet \<Rightarrow> nat \<times> nat \<Rightarrow> cell" where
  "written sty v ws rc =
     (get_cell ws rc)\<lparr>c_value := Some v, c_style := sty (c_style (get_cell ws rc))\<rparr>"

text \<open>What a sheet holds at a position, and whether the \<open>n\<close> columns from \<open>c0\<close> of a row
  all hold a cell.\<close>

definition value_at :: "sheet \<Rightarrow> nat \<times> nat \<Rightarrow> cell_value option" where
  "value_at ws rc = (case cells ws rc of None \<Rightarrow> None | Some c \<Rightarrow> c_value c)"

definition style_at :: "sheet \<Rightarrow> nat \<times> nat \<Rightarrow> style option" where
  "style_at ws rc = map_option c_style (cells ws rc)"

definition row_populated :: "sheet \<Rightarrow> nat \<Rightarrow> nat \<Rightarrow> nat \<Rightarrow> bool" where
  "row_populated ws r c0 n = list_all (\<lambda>j. cells ws (r, c0 + j) \<noteq> None) [0..<n]"

text \<open>The cells a row loop and a rows loop leave, in closed form.\<close>

definition row_cells ::
  "(nat \<Rightarrow> nat \<Rightarrow> cell_value \<Rightarrow> style \<Rightarrow> style) \<Rightarrow> nat \<Rightarrow> nat \<Rightarrow> cell_value list \<Rightarrow> sheet \<Rightarrow> nat \<times> nat \<rightharpoonup> cell" where
  "row_cells sty r c0 vs ws rc =
     (if fst rc = r \<and> c0 \<le> snd rc \<and> snd rc < c0 + length vs
      then Some (written (sty r (snd rc) (vs ! (snd rc - c0))) (vs ! (snd rc - c0)) ws rc)
      else cells ws rc)"

definition rows_cells ::
  "(nat \<Rightarrow> nat \<Rightarrow> cell_value \<Rightarrow> style \<Rightarrow> style) \<Rightarrow> nat \<Rightarrow> nat \<Rightarrow> cell_value list list \<Rightarrow> sheet \<Rightarrow> nat \<times> nat \<rightharpoonup> cell" where
  "rows_cells sty r0 c0 rows ws rc =
     (if r0 \<le> fst rc \<and> fst rc < r0 + length rows \<and> c0 \<le> snd rc \<and>
         snd rc < c0 + length (rows ! (fst rc - r0))
      then Some (written (sty (fst rc) (snd rc) (rows ! (fst rc - r0) ! (snd rc - c0)))
                   (rows ! (fst rc - r0) ! (snd rc - c0)) ws rc)
      else cells ws rc)"

subsection \<open>Strings, numbers and coordinates\<close>

text \<open>\<open>str(n)\<close> of a non-negative integer, as the f-strings of the scripts format row
  numbers; \<open>s.startswith(p)\<close>; and the substring test \<open>sub in s\<close>.\<close>

definition digit_char :: "nat \<Rightarrow> char" where
  "digit_char d = ''0123456789'' ! d"

function str_nat :: "nat \<Rightarrow> string" where
  "str_nat n = (if n < 10 then [digit_char n] else str_nat (n div 10) @ [digit_char (n mod 10)])"
  by pat_completeness auto
termination
  by (relation "measure id") auto

declare str_nat.simps [simp del]

fun startswith :: "string \<Rightarrow> string \<Rightarrow> bool" where
  "startswith s [] = True"
| "startswith [] (p # ps) = False"
| "startswith (c # cs) (p # ps) = (c = p \<and> startswith cs ps)"

fun py_in :: "string \<Rightarrow> string \<Rightarrow> bool" where
  "py_in sub [] = (sub = [])"
| "py_in sub (c # cs) = (startswith (c # cs) sub \<or> py_in sub cs)"

text \<open>Tests on a value: \<open>isinstance(v, int)\<close>, \<open>isinstance(v, str)\<close>, the truth value of
  \<open>v\<close> in a condition, the text of a string value, and \<open>str(v)\<close> as an f-string formats
  it.\<close>

definition is_int :: "cell_value \<Rightarrow> bool" where
  "is_int v = (case v of IntV _ \<Rightarrow> True | StrV _ \<Rightarrow> False | FloatV _ \<Rightarrow> False)"

definition is_str :: "cell_value \<Rightarrow> bool" where
  "is_str v = (case v of StrV _ \<Rightarrow> True | IntV _ \<Rightarrow> False | FloatV _ \<Rightarrow> False)"

definition truthy :: "cell_value \<Rightarrow> bool" where
  "truthy v = (case v of StrV s \<Rightarrow> s \<noteq> [] | IntV n \<Rightarrow> n \<noteq> 0 | FloatV s \<Rightarrow> s \<noteq> ''0.0'')"

definition str_of :: "cell_value \<Rightarrow> string" where
  "str_of v = (case v of StrV s \<Rightarrow> s | IntV _ \<Rightarrow> [] | FloatV _ \<Rightarrow> [])"

definition str_int :: "int \<Rightarrow> string" where
  "str_int n = (if n < 0 then ''-'' @ str_nat (nat (- n)) else str_nat (nat n))"

definition py_str :: "cell_value \<Rightarrow> string" where
  "py_str v = (case v of StrV s \<Rightarrow> s | IntV n \<Rightarrow> str_int n | FloatV s \<Rightarrow> s)"

definition is_digit :: "char \<Rightarrow> bool" where
  "is_digit c = (c \<in> set ''0123456789'')"

definition is_upper :: "char \<Rightarrow> bool" where
  "is_upper c = (c \<in> set ''ABCDEFGHIJKLMNOPQRSTUVWXYZ'')"

definition digit_val :: "char \<Rightarrow> nat" where
  "digit_val c = length (takeWhile (\<lambda>d. d \<noteq> c) ''0123456789'')"

definition int_of_digits :: "string \<Rightarrow> nat" where
  "int_of_digits ds = foldl (\<lambda>n c. 10 * n + digit_val c) 0 ds"

text \<open>Column letters: \<open>get_column_letter\<close> (1 is A, 26 is Z, 27 is AA; ValueError outside
  1..18278) and \<open>column_index_from_string\<close>.\<close>

function col_letters :: "nat \<Rightarrow> string" where
  "col_letters n =
     (if n = 0 then []
      else col_letters ((n - 1) div 26) @ [''ABCDEFGHIJKLMNOPQRSTUVWXYZ'' ! ((n - 1) mod 26)])"
  by pat_completeness auto
termination
  by (relation "measure id") (auto simp: div_le_dividend le_imp_less_Suc)

declare col_letters.simps [simp del]

definition get_column_letter :: "nat \<Rightarrow> error + string" where
  "get_column_letter idx =
     (if 1 \<le> idx \<and> idx \<le> 18278 then Inr (col_letters idx) else Inl ValueError)"

definition column_index_from_string :: "string \<Rightarrow> nat" where
  "column_index_from_string ls =
     foldl (\<lambda>n c. 26 * n + Suc (length (takeWhile (\<lambda>d. d \<noteq> c) ''ABCDEFGHIJKLMNOPQRSTUVWXYZ''))) 0 ls"

text \<open>A cell key such as \<open>B5\<close>: one to three capital letters and a row number of at least
  1 give (row, column). The scripts use no key of another shape; such a key is
  modelled as a failure.\<close>

definition coordinate :: "string \<Rightarrow> (nat \<times> nat) option" where
  "coordinate key =
     (let ls = takeWhile is_upper key; ds = dropWhile is_upper key
      in if ls \<noteq> [] \<and> length ls \<le> 3 \<and> ds \<noteq> [] \<and> list_all is_digit ds \<and> 1 \<le> int_of_digits ds
         then Some (int_of_digits ds, column_index_from_string ls)
         else None)"

subsection \<open>Sheet statements\<close>

text \<open>\<open>ws[key] = v\<close> and an attribute assignment \<open>ws[key].attr = x\<close>; both create the cell
  when it is missing.\<close>

definition ws_setitem :: "string \<Rightarrow> cell_value \<Rightarrow> sheet \<Rightarrow> error + sheet" where
  "ws_setitem key v ws =
     (case coordinate key of
        None \<Rightarrow> Inl ValueError
      | Some rc \<Rightarrow> Inr (ws\<lparr>cells := (cells ws)(rc \<mapsto> (get_cell ws rc)\<lparr>c_value := Some v\<rparr>)\<rparr>))"

definition ws_item_style :: "string \<Rightarrow> (style \<Rightarrow> style) \<Rightarrow> sheet \<Rightarrow> error + sheet" where
  "ws_item_style key f ws =
     (case coordinate key of
        None \<Rightarrow> Inl ValueError
      | Some rc \<Rightarrow> Inr (upd_cell rc f ws))"

text \<open>Attribute assignments on a cell fetched again with \<open>ws.cell(row, column)\<close>.\<close>

definition ws_cell_style :: "nat \<Rightarrow> nat \<Rightarrow> (style \<Rightarrow> style) \<Rightarrow> sheet \<Rightarrow> error + sheet" where
  "ws_cell_style row column f ws =
     (case ws_cell row column None ws of
        Inl e \<Rightarrow> Inl e
      | Inr ws' \<Rightarrow> Inr (upd_cell (row, column) f ws'))"

definition set_font :: "font \<Rightarrow> style \<Rightarrow> style" where
  "set_font x s = s\<lparr>s_font := x\<rparr>"

definition set_fill :: "pattern_fill \<Rightarrow> style \<Rightarrow> style" where
  "set_fill x s = s\<lparr>s_fill := x\<rparr>"

definition set_alignment :: "alignment \<Rightarrow> style \<Rightarrow> style" where
  "set_alignment x s = s\<lparr>s_alignment := x\<rparr>"

definition set_border :: "border \<Rightarrow> style \<Rightarrow> style" where
  "set_border x s = s\<lparr>s_border := x\<rparr>"

definition set_number_format :: "string \<Rightarrow> style \<Rightarrow> style" where
  "set_number_format x s = s\<lparr>s_number_format := x\<rparr>"

text \<open>A run of attribute assignments on one object (a cell style, a chart), in the order
  of the source.\<close>

definition assigns :: "('a \<Rightarrow> 'a) list \<Rightarrow> 'a \<Rightarrow> 'a" where
  "assigns fs s = foldl (\<lambda>s f. f s) s fs"

text \<open>\<open>cell.fill.start_color.rgb\<close> of the cell at a position.\<close>

definition rgb_at :: "sheet \<Rightarrow> nat \<times> nat \<Rightarrow> string" where
  "rgb_at ws rc = start_color (s_fill (c_style (get_cell ws rc)))"

definition merge_cells :: "string \<Rightarrow> sheet \<Rightarrow> error + sheet" where
  "merge_cells rng ws = Inr (ws\<lparr>merged_cells := merged_cells ws @ [rng]\<rparr>)"

definition set_column_width :: "string \<Rightarrow> nat \<Rightarrow> sheet \<Rightarrow> error + sheet" where
  "set_column_width letter w ws = Inr (ws\<lparr>column_widths := (column_widths ws)(letter \<mapsto> w)\<rparr>)"

definition set_column_width_idx :: "nat \<Rightarrow> nat \<Rightarrow> sheet \<Rightarrow> error + sheet" where
  "set_column_width_idx idx w ws =
     (case get_column_letter idx of Inl e \<Rightarrow> Inl e | Inr l \<Rightarrow> set_column_width l w ws)"

definition set_freeze_panes :: "string \<Rightarrow> sheet \<Rightarrow> error + sheet" where
  "set_freeze_panes key ws = Inr (ws\<lparr>freeze_panes := Some key\<rparr>)"

text \<open>\<open>ws.add_chart(chart, anchor)\<close>: the chart takes the anchor and joins the charts of
  the sheet; no cell is read or written.\<close>

definition add_chart :: "chart \<Rightarrow> string \<Rightarrow> sheet \<Rightarrow> error + sheet" where
  "add_chart ch anchor ws = Inr (ws\<lparr>charts := charts ws @ [ch\<lparr>ch_anchor := anchor\<rparr>]\<rparr>)"

subsection \<open>Workbook statements\<close>

text \<open>Sheet titles. A title holding a backslash or one of the characters \<open>* ? : / [ ]\<close> raises
  ValueError. A title that matches an existing one (ignoring case) is not refused: the
  library appends the next free number to it (\<open>avoid_duplicate_name\<close>: the highest number
  that follows an occurrence of the title in the comma-joined sheet names, plus one).\<close>

definition invalid_title :: "string \<Rightarrow> bool" where
  "invalid_title t = (\<exists>c \<in> set t. c \<in> set [CHR 0x5C, CHR ''*'', CHR ''?'', CHR '':'', CHR ''/'', CHR ''['', CHR '']''])"

definition lower_char :: "char \<Rightarrow> char" where
  "lower_char c =
     (case map_of (zip ''ABCDEFGHIJKLMNOPQRSTUVWXYZ'' ''abcdefghijklmnopqrstuvwxyz'') c of
        None \<Rightarrow> c | Some d \<Rightarrow> d)"

definition lower :: "string \<Rightarrow> string" where
  "lower s = map lower_char s"

fun join_comma :: "string list \<Rightarrow> string" where
  "join_comma [] = []"
| "join_comma [n] = n"
| "join_comma (n # m # ns) = n @ '','' @ join_comma (m # ns)"

definition skip_comma :: "string \<Rightarrow> string" where
  "skip_comma s = (case s of [] \<Rightarrow> [] | c # r \<Rightarrow> if c = CHR '','' then r else s)"

function title_counts :: "string \<Rightarrow> string \<Rightarrow> string list" where
  "title_counts v s =
     (if v = [] \<or> s = [] then []
      else if startswith (lower s) (lower v)
      then takeWhile is_digit (drop (length v) s)
             # title_counts v (skip_comma (dropWhile is_digit (drop (length v) s)))
      else title_counts v (tl s))"
  by pat_completeness auto
termination
proof (relation "measure (\<lambda>(v, s). length s)")
  show "wf (measure (\<lambda>(v, s). length s))" by simp
next
  fix v s :: string
  assume a: "\<not> (v = [] \<or> s = [])"
  have "length (skip_comma t) \<le> length t" for t
    by (cases t) (simp_all add: skip_comma_def)
  then have "length (skip_comma (dropWhile is_digit (drop (length v) s)))
      \<le> length (dropWhile is_digit (drop (length v) s))" .
  also have "\<dots> \<le> length (drop (length v) s)" by (rule length_dropWhile_le)
  also have "\<dots> < length s" using a by (cases v; cases s) simp_all
  finally show "((v, skip_comma (dropWhile is_digit (drop (length v) s))), (v, s))
      \<in> measure (\<lambda>(v, s). length s)" by simp
next
  fix v s :: string
  assume "\<not> (v = [] \<or> s = [])"
  then show "((v, tl s), (v, s)) \<in> measure (\<lambda>(v, s). length s)" by (cases s) simp_all
qed

declare title_counts.simps [simp del]

definition avoid_duplicate_name :: "string list \<Rightarrow> string \<Rightarrow> string" where
  "avoid_duplicate_name names v =
     (if \<exists>n \<in> set names. lower n = lower v
      then (let ms = title_counts v (join_comma names);
                counts = map int_of_digits (filter (\<lambda>d. d \<noteq> []) ms);
                highest = foldl max 0 counts
            in if ms = [] then v else v @ str_nat (highest + 1))
      else v)"

definition sheetnames :: "workbook \<Rightarrow> string list" where
  "sheetnames wb = map sh_title (sheets wb)"

text \<open>\<open>Workbook()\<close> starts with one sheet titled Sheet, which \<open>wb.active\<close> returns. A
  sheet handle is the position of the sheet in the workbook.\<close>

definition Workbook :: workbook where
  "Workbook = \<lparr>sheets = [new_sheet ''Sheet'']\<rparr>"

definition active :: nat where
  "active = 0"

text \<open>\<open>wb.create_sheet(title)\<close>: a new sheet after all existing ones, returned with its
  handle. An empty title stands for the default title Sheet.\<close>

definition create_sheet :: "string \<Rightarrow> workbook \<Rightarrow> error + (workbook \<times> nat)" where
  "create_sheet t wb =
     (let v = (if t = [] then ''Sheet'' else t)
      in if invalid_title v then Inl ValueError
         else Inr (wb\<lparr>sheets := sheets wb @ [new_sheet (avoid_duplicate_name (sheetnames wb) v)]\<rparr>,
                   length (sheets wb)))"

text \<open>\<open>ws.title = t\<close> on a sheet of the workbook.\<close>

definition set_title :: "nat \<Rightarrow> string \<Rightarrow> workbook \<Rightarrow> error + workbook" where
  "set_title h t wb =
     (if length (sheets wb) \<le> h then Inr wb
      else if t = [] \<or> invalid_title t then Inl ValueError
      else Inr (wb\<lparr>sheets := (sheets wb)[h :=
             (sheets wb ! h)\<lparr>sh_title :=
                (if sh_title (sheets wb ! h) \<noteq> t then avoid_duplicate_name (sheetnames wb) t
                 else t)\<rparr>]\<rparr>))"

text \<open>Statements on a sheet through its handle change that sheet of the workbook; through
  a handle of no sheet of the workbook they leave the workbook as it is.\<close>

definition on_sheet :: "nat \<Rightarrow> (sheet \<Rightarrow> error + sheet) \<Rightarrow> workbook \<Rightarrow> error + workbook" where
  "on_sheet h f wb =
     (if length (sheets wb) \<le> h then Inr wb
      else case f (sheets wb ! h) of
             Inl e \<Rightarrow> Inl e
           | Inr s \<Rightarrow> Inr (wb\<lparr>sheets := (sheets wb)[h := s]\<rparr>))"

text \<open>\<open>ws = wb.create_sheet(title)\<close> followed by the statements that use the handle.\<close>

definition with_new_sheet ::
  "string \<Rightarrow> (nat \<Rightarrow> workbook \<Rightarrow> error + workbook) \<Rightarrow> workbook \<Rightarrow> error + workbook" where
  "with_new_sheet t body wb =
     (case create_sheet t wb of Inl e \<Rightarrow> Inl e | Inr (wb', h) \<Rightarrow> body h wb')"

subsection \<open>The process environment\<close>

text \<open>What can differ between two runs of a script: whether the library can be imported,
  whether installing it succeeds, and which paths can be written. \<open>wb.save(path)\<close> hands
  the finished workbook to the library and raises when the path cannot be written.\<close>

record proc_env =
  openpyxl_installed :: bool
  pip_install_ok :: bool
  writable :: "string \<Rightarrow> bool"

definition import_openpyxl :: "proc_env \<Rightarrow> error + unit" where
  "import_openpyxl env = (if openpyxl_installed env then Inr () else Inl ImportError)"

definition import_or_install :: "proc_env \<Rightarrow> error + unit" where
  "import_or_install env =
     (if openpyxl_installed env then Inr ()
      else if pip_install_ok env then Inr ()
      else Inl CalledProcessError)"

definition save :: "proc_env \<Rightarrow> string \<Rightarrow> workbook \<Rightarrow> error + workbook" where
  "save env path wb = (if writable env path then Inr wb else Inl OSError)"

section \<open>The Cyber Essentials question set (create-cyber-essentials-excel.py)\<close>

subsection \<open>Styles\<close>

definition ce_header_font :: font where
  "ce_header_font = Font None (Some 11) True (Some ''FFFFFF'')"

definition ce_header_fill :: pattern_fill where
  "ce_header_fill = PatternFill ''4472C4'' ''4472C4'' ''solid''"

definition ce_section_fill :: pattern_fill where
  "ce_section_fill = PatternFill ''D9E2F3'' ''D9E2F3'' ''solid''"

definition ce_section_font :: font where
  "ce_section_font = Font None (Some 11) True None"

definition wrap_alignment :: alignment where
  "wrap_alignment = Alignment None (Some ''top'') True"

definition thin_border :: border where
  "thin_border =
     Border (Side (Some ''thin'') None) (Side (Some ''thin'') None)
       (Side (Some ''thin'') None) (Side (Some ''thin'') None)"

subsection \<open>Headers and data\<close>

definition ce_headers :: "cell_value list" where
  "ce_headers =
     [StrV ''Section'', StrV ''Q No.'', StrV ''Question'', StrV ''Guidance'', StrV ''Answer Type'',
      StrV ''Draft Answer'', StrV ''Status'']"

definition ce_data :: "cell_value list list" where
  "ce_data =
     [[StrV ''A1 - Organisation'', StrV ''A1.1'', StrV ''What is your organisation's name?'', StrV ''Name displayed on certificate (max 150 chars)'', StrV ''Notes'', StrV ''TBC'', StrV ''Pending''],
      [StrV ''A1 - Organisation'', StrV ''A1.2'', StrV ''What type of organisation are you?'', StrV ''LTD/LLP/CIC/COP/MTL/CHA/GOV/SOL/PRT/SOC/OTH'', StrV ''Multiple choice'', StrV ''TBC'', StrV ''Pending''],
      [StrV ''A1 - Organisation'', StrV ''A1.3'', StrV ''What is your organisation's registration number?'', StrV (''Companies House number or 'none'' @ [CHR 0x27]), StrV ''Notes'', StrV ''TBC'', StrV ''Pending''],
      [StrV ''A1 - Organisation'', StrV ''A1.4'', StrV ''What is your organisation's address?'', StrV ''Legal registered address'', StrV ''Notes'', StrV ''TBC'', StrV ''Pending''],
      [StrV ''A1 - Organisation'', StrV ''A1.5'', StrV ''What is your main business?'', StrV ''Select from list - likely Finance or IT'', StrV ''Multiple choice'', StrV ''TBC'', StrV ''Pending''],
      [StrV ''A1 - Organisation'', StrV ''A1.6'', StrV ''What is your website address?'', StrV ''Website or LinkedIn/Facebook page'', StrV ''Notes'', StrV ''https://plannetic.com'', StrV ''Confirm''],
      [StrV ''A1 - Organisation'', StrV ''A1.7'', StrV ''Is this application a renewal or first time?'', StrV ''Renewal or First Time Application'', StrV ''Select'', StrV ''First Time Application'', StrV ''Confirm''],
      [StrV ''A1 - Organisation'', StrV ''A1.8'', StrV ''What are the two main reasons for applying?'', StrV ''Select two reasons'', StrV ''Multiple choice'', StrV (''TBC - likely 'to give confidence to our customers' + 'to generally improve our security'' @ [CHR 0x27]), StrV ''Pending''],
      [StrV ''A1 - Organisation'', StrV ''A1.9'', StrV ''Have you read the CE Requirements document?'', StrV '''', StrV ''Yes/No'', StrV ''Yes'', StrV ''Ready''],
      [StrV ''A1 - Organisation'', StrV ''A1.10'', StrV ''Can IASME contact you if you experience a breach?'', StrV '''', StrV ''Yes/No'', StrV ''TBC'', StrV ''Pending''],
      [StrV ''A1 - Organisation'', StrV ''A1.11'', StrV ''Can IASME contact you for research purposes?'', StrV '''', StrV ''Yes/No'', StrV ''TBC'', StrV ''Pending''],
      [StrV ''A2 - Scope'', StrV ''A2.1'', StrV ''Does the scope cover your whole organisation?'', StrV ''Whole org = eligible for free insurance'', StrV ''Yes/No'', StrV ''Yes'', StrV ''Confirm''],
      [StrV ''A2 - Scope'', StrV ''A2.2'', StrV ''Scope description (if not whole org)'', StrV ''Only if A2.1 = No'', StrV ''Notes'', StrV ''N/A'', StrV ''N/A''],
      [StrV ''A2 - Scope'', StrV ''A2.3'', StrV ''Geographical locations in scope'', StrV (''List locations or 'All UK offices'' @ [CHR 0x27]), StrV ''Notes'', StrV ''All UK locations including home/remote working locations for all staff.'', StrV ''Ready''],
      [StrV ''A2 - Scope'', StrV ''A2.4'', StrV ''Laptops/desktops/virtual desktops (qty + make + OS)'', StrV ''Must include make and OS version'', StrV ''Notes'', StrV ''1 x Apple Mac laptop running macOS 26.1 (Build 25B78)'', StrV ''Ready - add more if needed''],
      [StrV ''A2 - Scope'', StrV ''A2.4.1'', StrV ''Thin clients (qty + make + OS)'', StrV '''', StrV ''Notes'', StrV ''None'', StrV ''Ready''],
      [StrV ''A2 - Scope'', StrV ''A2.5'', StrV ''Servers/virtual servers/hypervisors/VDI'', StrV '''', StrV ''Notes'', StrV ''None - all infrastructure is cloud-hosted via Vercel (PaaS) and Supabase (PaaS).'', StrV ''Ready''],
      [StrV ''A2 - Scope'', StrV ''A2.6'', StrV ''Tablets and mobile devices (qty + make + OS)'', StrV '''', StrV ''Notes'', StrV ''TBC'', StrV ''Pending''],
      [StrV ''A2 - Scope'', StrV ''A2.7'', StrV ''Networks in scope (name + location + purpose)'', StrV '''', StrV ''Notes'', StrV ''Home/Remote Worker Networks - staff work from home using domestic broadband connections. All devices secured by software firewalls.'', StrV ''Ready''],
      [StrV ''A2 - Scope'', StrV ''A2.7.1'', StrV ''How many staff are home or remote workers?'', StrV '''', StrV ''Notes'', StrV ''TBC'', StrV ''Pending''],
      [StrV ''A2 - Scope'', StrV ''A2.8'', StrV ''Network equipment in scope (firewalls/routers - make + model)'', StrV ''Must include make and model'', StrV ''Notes'', StrV ''All staff are remote workers using home broadband routers (various makes/models managed by ISPs). Software firewalls enabled on all endpoint devices. Staff do not have admin access to home routers.'', StrV ''Ready''],
      [StrV ''A2 - Scope'', StrV ''A2.9'', StrV ''Cloud services (third party - SaaS/PaaS/IaaS)'', StrV '''', StrV ''Notes'', StrV ''Supabase (PaaS), Vercel (PaaS), GitHub (SaaS), Resend (SaaS), OpenSign (SaaS), Ordnance Survey (SaaS), DeepSeek (SaaS), Alpha Vantage (SaaS). [TBC: Add email/collab suite, password manager]'', StrV ''Partial''],
      [StrV ''A2 - Scope'', StrV ''A2.10'', StrV ''Person responsible for managing IT (name + role)'', StrV ''Must be org employee, not outsourced IT'', StrV ''Notes'', StrV ''TBC'', StrV ''Pending''],
      [StrV ''A3 - Insurance'', StrV ''A3.1'', StrV (''UK/Crown Dependencies HQ and turnover < '' @ [CHR 0xC3, CHR 0x82, CHR 0xC2, CHR 0xA3] @ ''20m?''), StrV ''Eligibility for free insurance'', StrV ''Yes/No'', StrV ''Yes'', StrV ''Confirm''],
      [StrV ''A3 - Insurance'', StrV ''A3.2'', StrV ''Opt out of insurance? (if A3.1 = Yes)'', StrV '''', StrV ''Yes/No'', StrV ''No - we wish to receive the included cyber insurance'', StrV ''Ready''],
      [StrV ''A3 - Insurance'', StrV ''A3.3'', StrV ''Insurance contact email (if not opted out)'', StrV '''', StrV ''Notes'', StrV ''TBC'', StrV ''Pending''],
      [StrV ''A4 - Firewalls'', StrV ''A4.1'', StrV ''Do you have firewalls at internet boundaries?'', StrV '''', StrV ''Yes/No'', StrV ''Yes'', StrV ''Ready''],
      [StrV ''A4 - Firewalls'', StrV ''A4.1.1'', StrV ''Software firewalls enabled on all computers/laptops/servers?'', StrV '''', StrV ''Yes/No'', StrV ''Yes - we use the built-in macOS Application Firewall; it is enabled and kept enabled at all times, including on untrusted networks (home/public Wi-Fi).'', StrV ''Ready''],
      [StrV ''A4 - Firewalls'', StrV ''A4.1.2'', StrV ''If A4.1.1 = No: list OS without firewall'', StrV '''', StrV ''Notes'', StrV ''N/A'', StrV ''N/A''],
      [StrV ''A4 - Firewalls'', StrV ''A4.2'', StrV ''Default admin passwords changed on boundary firewalls?'', StrV '''', StrV ''Yes/No'', StrV ''Yes - for home workers, domestic routers managed by ISPs with unique passwords. Software firewalls protected by device credentials.'', StrV ''Ready''],
      [StrV ''A4 - Firewalls'', StrV ''A4.2.1'', StrV ''Process for changing firewall password'', StrV '''', StrV ''Notes'', StrV ''Software firewalls protected by device login credentials. Password changes via System Settings > Users & Groups. Follows password policy (min 12 chars or MFA + 8 chars).'', StrV ''Ready''],
      [StrV ''A4 - Firewalls'', StrV ''A4.3'', StrV ''Firewall password configuration option (A-E)'', StrV ''A=MFA+8, B=Block common+8, C=12 chars, D=Passwordless, E=Other'', StrV ''Select'', StrV ''Option C - Minimum 12 characters, no maximum length'', StrV ''Ready''],
      [StrV ''A4 - Firewalls'', StrV ''A4.4'', StrV ''Change firewall password when compromised?'', StrV '''', StrV ''Yes/No'', StrV ''Yes'', StrV ''Ready''],
      [StrV ''A4 - Firewalls'', StrV ''A4.5'', StrV ''Process to manage firewall?'', StrV '''', StrV ''Yes/No'', StrV ''Yes'', StrV ''Ready''],
      [StrV ''A4 - Firewalls'', StrV ''A4.6'', StrV ''Firewall rules reviewed in last 12 months?'', StrV '''', StrV ''Notes'', StrV ''Software firewalls use default secure settings blocking all incoming connections. No custom inbound rules. Verified during device setup and periodically checked. Cloud services manage own infrastructure firewalls.'', StrV ''Ready''],
      [StrV ''A4 - Firewalls'', StrV ''A4.7'', StrV ''Firewall allows unauthenticated inbound connections?'', StrV '''', StrV ''Yes/No'', StrV ''No - all inbound blocked by default'', StrV ''Ready''],
      [StrV ''A4 - Firewalls'', StrV ''A4.8'', StrV ''How inbound connections approved & documented'', StrV '''', StrV ''Notes'', StrV ''No inbound connections permitted to endpoints. All services via outbound to cloud. Any exception requires documented written approval from IT manager with business justification.'', StrV ''Ready''],
      [StrV ''A4 - Firewalls'', StrV ''A4.9'', StrV ''Firewall admin interface accessible from internet?'', StrV '''', StrV ''Yes/No'', StrV ''No - only accessible locally via System Settings'', StrV ''Ready''],
      [StrV ''A4 - Firewalls'', StrV ''A4.10'', StrV ''If A4.9 = Yes: documented business requirement?'', StrV '''', StrV ''Yes/No'', StrV ''N/A'', StrV ''N/A''],
      [StrV ''A4 - Firewalls'', StrV ''A4.11'', StrV ''If A4.9 = Yes: MFA or IP allow list protection?'', StrV '''', StrV ''Notes'', StrV ''N/A'', StrV ''N/A''],
      [StrV ''A5 - Secure Config'', StrV ''A5.1'', StrV ''Removed/disabled unnecessary software? (describe)'', StrV '''', StrV ''Notes'', StrV ''All devices configured with only business-required software. Staff instructed not to install unnecessary apps. macOS Gatekeeper prevents unsigned apps. Regular reviews to remove unused software.'', StrV ''Ready''],
      [StrV ''A5 - Secure Config'', StrV ''A5.2'', StrV ''Only necessary user accounts exist?'', StrV '''', StrV ''Yes/No'', StrV ''Yes - only required accounts. Guest accounts disabled. Unused accounts removed promptly.'', StrV ''Ready''],
      [StrV ''A5 - Secure Config'', StrV ''A5.3'', StrV ''Default/guessable passwords changed?'', StrV '''', StrV ''Yes/No'', StrV ''Yes - all default passwords changed to strong, unique passwords per password policy.'', StrV ''Ready''],
      [StrV ''A5 - Secure Config'', StrV ''A5.4'', StrV ''Run/host external services with non-public data?'', StrV '''', StrV ''Yes/No'', StrV ''Yes - Plannetic platform accessed by authenticated users over internet, handles client financial data.'', StrV ''Ready''],
      [StrV ''A5 - Secure Config'', StrV ''A5.5'', StrV ''If A5.4 = Yes: authentication option (A-E)'', StrV '''', StrV ''Select'', StrV ''Option A - MFA with min 8 char password. Plannetic uses Supabase Auth with MFA (TOTP).'', StrV ''Ready''],
      [StrV ''A5 - Secure Config'', StrV ''A5.6'', StrV ''If A5.4 uses passwords: process to change on compromise'', StrV '''', StrV ''Notes'', StrV ''1) User notified, must change password; 2) Sessions terminated via Supabase admin; 3) MFA verified/re-enrolled; 4) Incident logged and reviewed.'', StrV ''Ready''],
      [StrV ''A5 - Secure Config'', StrV ''A5.7'', StrV ''If A5.4 = Yes and not MFA: brute force protection (A-C)'', StrV '''', StrV ''Select'', StrV ''Option A - Throttling. Supabase Auth rate limiting + account lockout after failed attempts.'', StrV ''Ready''],
      [StrV ''A5 - Secure Config'', StrV ''A5.8'', StrV ''Auto-run/execute disabled?'', StrV '''', StrV ''Yes/No'', StrV ''Yes - macOS doesn't auto-run from external media. Users prompted before opening downloads. Gatekeeper prevents unsigned auto-run.'', StrV ''Ready''],
      [StrV ''A5 - Secure Config'', StrV ''A5.9'', StrV ''Device locking enabled?'', StrV '''', StrV ''Yes/No'', StrV ''Yes - all devices require authentication'', StrV ''Ready''],
      [StrV ''A5 - Secure Config'', StrV ''A5.10'', StrV ''If A5.9 = Yes: device unlock method(s)'', StrV '''', StrV ''Notes'', StrV ''macOS: Touch ID biometric with password fallback (min 8 chars). Auto-lock after inactivity. Password/biometric on wake.'', StrV ''Ready''],
      [StrV ''A6 - Updates'', StrV ''A6.1'', StrV ''All OS supported and receiving updates?'', StrV '''', StrV ''Yes/No'', StrV ''Yes - macOS 26.1 (Tahoe) fully supported by Apple.'', StrV ''Ready''],
      [StrV ''A6 - Updates'', StrV ''A6.2'', StrV ''All software supported with vulnerability fixes?'', StrV '''', StrV ''Yes/No'', StrV ''Yes - all software licensed and receiving updates.'', StrV ''Ready''],
      [StrV ''A6 - Updates'', StrV ''A6.2.1'', StrV ''Browsers (name + version)'', StrV '''', StrV ''Notes'', StrV ''Google Chrome 143.0.7499.110, Mozilla Firefox 146.0, Microsoft Edge 143.0.3650.80, Safari 26.1'', StrV ''Ready''],
      [StrV ''A6 - Updates'', StrV ''A6.2.2'', StrV ''Malware protection software (name + version)'', StrV '''', StrV ''Notes'', StrV ''macOS: XProtect (built-in, auto-updating) + Gatekeeper + MRT'', StrV ''Ready''],
      [StrV ''A6 - Updates'', StrV ''A6.2.3'', StrV ''Email applications (name + version)'', StrV '''', StrV ''Notes'', StrV ''Apple Mail 16.0, web-based email via browser'', StrV ''Ready''],
      [StrV ''A6 - Updates'', StrV ''A6.2.4'', StrV ''Office applications (name + version)'', StrV '''', StrV ''Notes'', StrV ''Apple Pages 14.4, Apple Numbers 14.4, Apple Keynote 14.4, Microsoft OneNote 16.104'', StrV ''Ready''],
      [StrV ''A6 - Updates'', StrV ''A6.3'', StrV ''Any unlicensed/unsupported software?'', StrV '''', StrV ''Yes/No'', StrV ''No'', StrV ''Ready''],
      [StrV ''A6 - Updates'', StrV ''A6.3.1'', StrV ''If A6.3 = Yes: list unsupported/unlicensed'', StrV '''', StrV ''Notes'', StrV ''N/A'', StrV ''N/A''],
      [StrV ''A6 - Updates'', StrV ''A6.4'', StrV ''Critical OS/firmware updates within 14 days?'', StrV '''', StrV ''Yes/No'', StrV ''Yes - all high/critical updates applied within 14 days. Auto-updates enabled.'', StrV ''Ready''],
      [StrV ''A6 - Updates'', StrV ''A6.4.1'', StrV ''OS updates via auto-updates?'', StrV '''', StrV ''Yes/No'', StrV ''Yes - macOS automatic updates enabled'', StrV ''Ready''],
      [StrV ''A6 - Updates'', StrV ''A6.4.2'', StrV ''If not auto: how ensure within 14 days'', StrV '''', StrV ''Notes'', StrV ''Auto-updates primary mechanism. Monitor vendor release notes, manually trigger if not auto-applied within 7 days.'', StrV ''Ready''],
      [StrV ''A6 - Updates'', StrV ''A6.5'', StrV ''Critical application updates within 14 days?'', StrV '''', StrV ''Yes/No'', StrV ''Yes'', StrV ''Ready''],
      [StrV ''A6 - Updates'', StrV ''A6.5.1'', StrV ''App updates via auto-updates?'', StrV '''', StrV ''Yes/No'', StrV ''Yes - App Store auto-updates, browser auto-updates, Microsoft AutoUpdate'', StrV ''Ready''],
      [StrV ''A6 - Updates'', StrV ''A6.5.2'', StrV ''If not auto: how ensure within 14 days'', StrV '''', StrV ''Notes'', StrV ''Auto-updates primary. Staff trained to accept prompts. Periodic compliance checks.'', StrV ''Ready''],
      [StrV ''A6 - Updates'', StrV ''A6.6'', StrV ''Remove unsupported software when EOL?'', StrV '''', StrV ''Yes/No'', StrV ''Yes'', StrV ''Ready''],
      [StrV ''A6 - Updates'', StrV ''A6.7'', StrV ''If unsupported needed: moved out of scope?'', StrV '''', StrV ''Notes'', StrV ''Not applicable - no unsupported software used.'', StrV ''Ready''],
      [StrV ''A7 - Access Control'', StrV ''A7.1'', StrV ''User account creation approval process'', StrV '''', StrV ''Notes'', StrV ''1) Manager requests; 2) IT verifies & determines role; 3) Account created with min permissions; 4) User receives password setup link; 5) MFA mandatory before first access.'', StrV ''Ready''],
      [StrV ''A7 - Access Control'', StrV ''A7.2'', StrV ''Unique credentials for all accounts?'', StrV '''', StrV ''Yes/No'', StrV ''Yes - all users have unique credentials. Sharing prohibited.'', StrV ''Ready''],
      [StrV ''A7 - Access Control'', StrV ''A7.3'', StrV ''Leaver process (disable/delete accounts)'', StrV '''', StrV ''Notes'', StrV ''1) HR notifies IT of leaving date; 2) On leaving: accounts disabled, access revoked, device wiped; 3) Confirmed within 24 hours.'', StrV ''Ready''],
      [StrV ''A7 - Access Control'', StrV ''A7.4'', StrV ''Least privilege process'', StrV '''', StrV ''Notes'', StrV ''RBAC in Plannetic: Admin, Advisor, Compliance, Support, Client roles. Access reviewed on role change. Periodic access reviews.'', StrV ''Ready''],
      [StrV ''A7 - Access Control'', StrV ''A7.5'', StrV ''Admin access granting process'', StrV '''', StrV ''Notes'', StrV ''1) Written request with justification; 2) Director approval; 3) Separate admin account; 4) Documented in register; 5) Quarterly review.'', StrV ''Ready''],
      [StrV ''A7 - Access Control'', StrV ''A7.6'', StrV ''Separate admin accounts for admin tasks'', StrV '''', StrV ''Notes'', StrV ''Admin tasks use dedicated accounts. Cloud: separate admin with MFA. Devices: standard user for daily work, separate admin for config.'', StrV ''Ready''],
      [StrV ''A7 - Access Control'', StrV ''A7.7'', StrV ''Prevent admin accounts for web/email'', StrV '''', StrV ''Notes'', StrV ''Admin accounts not configured with email. Training that admin not for browsing. Cloud admin logged out after use.'', StrV ''Ready''],
      [StrV ''A7 - Access Control'', StrV ''A7.8'', StrV ''Track who has admin accounts?'', StrV '''', StrV ''Yes/No'', StrV ''Yes - admin access register maintained'', StrV ''Ready''],
      [StrV ''A7 - Access Control'', StrV ''A7.9'', StrV ''Review admin access regularly?'', StrV '''', StrV ''Yes/No'', StrV ''Yes - quarterly review. Unused privileges removed.'', StrV ''Ready''],
      [StrV ''A7 - Access Control'', StrV ''A7.10'', StrV ''Brute-force protection for passwords'', StrV '''', StrV ''Notes'', StrV ''Supabase: rate limiting + lockout. macOS: throttling. Cloud services: vendor protection + MFA.'', StrV ''Ready''],
      [StrV ''A7 - Access Control'', StrV ''A7.11'', StrV ''Technical controls for password quality'', StrV '''', StrV ''Notes'', StrV ''Min 8 chars with MFA (Supabase). Min 12 chars without MFA. No max length. Common password blocking where supported.'', StrV ''Ready''],
      [StrV ''A7 - Access Control'', StrV ''A7.12'', StrV ''How support unique/strong passwords'', StrV '''', StrV ''Notes'', StrV ''Password manager recommended. Three random words training. No regular expiry. No complexity requirements. No reuse training.'', StrV ''Ready''],
      [StrV ''A7 - Access Control'', StrV ''A7.13'', StrV ''Compromised password/account process?'', StrV '''', StrV ''Yes/No'', StrV ''Yes - report, force reset, terminate sessions, re-verify MFA, review incident.'', StrV ''Ready''],
      [StrV ''A7 - Access Control'', StrV ''A7.14'', StrV ''All cloud services have MFA available?'', StrV '''', StrV ''Yes/No'', StrV ''Yes - Supabase, Vercel, GitHub, Resend all have MFA. [Confirm: OpenSign, Alpha Vantage, Ordnance Survey]'', StrV ''Partial''],
      [StrV ''A7 - Access Control'', StrV ''A7.15'', StrV ''If A7.14 = No: list services without MFA'', StrV '''', StrV ''Notes'', StrV ''N/A'', StrV ''N/A''],
      [StrV ''A7 - Access Control'', StrV ''A7.16'', StrV ''MFA applied to all cloud admins?'', StrV '''', StrV ''Yes/No'', StrV ''Yes - MFA mandatory for all admin accounts'', StrV ''Ready''],
      [StrV ''A7 - Access Control'', StrV ''A7.17'', StrV ''MFA applied to all cloud users?'', StrV '''', StrV ''Yes/No'', StrV ''Yes - MFA mandatory for all users'', StrV ''Ready''],
      [StrV ''A8 - Malware'', StrV ''A8.1'', StrV ''Malware protection method(s) (A/B/C)'', StrV ''A=Anti-malware, B=Allow-listing, C=Other'', StrV ''Select'', StrV ''Both A and B: Anti-malware (XProtect, Gatekeeper) + Allow-listing (Gatekeeper code signing, App Store)'', StrV ''Ready''],
      [StrV ''A8 - Malware'', StrV ''A8.2'', StrV ''If Option A: anti-malware updates + blocks malware?'', StrV '''', StrV ''Yes/No'', StrV ''Yes - XProtect auto-updates. Gatekeeper prevents execution. MRT removes detected malware.'', StrV ''Ready''],
      [StrV ''A8 - Malware'', StrV ''A8.3'', StrV ''If Option A: scans/warns on malicious sites?'', StrV '''', StrV ''Yes/No'', StrV ''Yes - Safari Fraudulent Warning, Chrome Safe Browsing, Firefox protection, Edge SmartScreen'', StrV ''Ready''],
      [StrV ''A8 - Malware'', StrV ''A8.4'', StrV ''If Option B: users restricted from unsigned apps?'', StrV '''', StrV ''Yes/No'', StrV ''Yes - Gatekeeper blocks unsigned apps. Cannot run without admin intervention.'', StrV ''Ready''],
      [StrV ''A8 - Malware'', StrV ''A8.5'', StrV ''If Option B: only approved apps + list maintained?'', StrV '''', StrV ''Yes/No'', StrV ''Yes - staff instructed on approved apps. List maintained. New requests need approval.'', StrV ''Ready'']]"


subsection \<open>The write loops\<close>

text \<open>The header loop assigns font, fill, alignment and border to each header cell.\<close>

definition ce_header_style :: "style \<Rightarrow> style" where
  "ce_header_style =
     assigns [set_font ce_header_font, set_fill ce_header_fill, set_alignment wrap_alignment,
              set_border thin_border]"

definition ce_write_headers :: "cell_value list \<Rightarrow> sheet \<Rightarrow> error + sheet" where
  "ce_write_headers headers = write_row (\<lambda>_ _ _. ce_header_style) 1 1 headers"

text \<open>The status branch of the data loop: an \<open>if\<close>/\<open>elif\<close> chain on the value of a cell
  of column 7, each branch assigning one fill; a value that matches no branch leaves the
  fill as it is.\<close>

definition ce_status_fill :: "cell_value \<Rightarrow> style \<Rightarrow> style" where
  "ce_status_fill v s =
     (if v = StrV ''Ready'' then set_fill (PatternFill ''C6EFCE'' ''C6EFCE'' ''solid'') s
      else if v = StrV ''Pending'' then set_fill (PatternFill ''FFEB9C'' ''FFEB9C'' ''solid'') s
      else if v = StrV ''Confirm'' then set_fill (PatternFill ''BDD7EE'' ''BDD7EE'' ''solid'') s
      else if v = StrV ''Partial'' then set_fill (PatternFill ''FCE4D6'' ''FCE4D6'' ''solid'') s
      else s)"

definition ce_body_style :: "nat \<Rightarrow> nat \<Rightarrow> cell_value \<Rightarrow> style \<Rightarrow> style" where
  "ce_body_style row_num col_num v =
     assigns [set_alignment wrap_alignment, set_border thin_border,
              (\<lambda>s. if col_num = 1 then set_font ce_section_font s else s),
              (\<lambda>s. if col_num = 7 then ce_status_fill v s else s)]"

definition ce_write_data :: "cell_value list list \<Rightarrow> sheet \<Rightarrow> error + sheet" where
  "ce_write_data data = write_rows ce_body_style 2 1 data"

subsection \<open>Column widths, the summary sheet and the script\<close>

definition ce_column_widths :: "nat list" where
  "ce_column_widths = [18, 8, 50, 40, 15, 60, 12]"

definition ce_pending_items :: "string list" where
  "ce_pending_items =
     [''A1.1 - Organisation name'',
      ''A1.2 - Organisation type'',
      ''A1.3 - Registration number'',
      ''A1.4 - Registered address'',
      ''A1.5 - Main business'',
      ''A1.8 - Reasons for certification'',
      ''A1.10/A1.11 - Contact permissions'',
      ''A2.6 - Mobile devices'',
      ''A2.7.1 - Remote workers count'',
      ''A2.10 - IT responsible person'',
      ''A3.3 - Insurance contact email'']"


definition ce_question_sheet :: "sheet \<Rightarrow> error + sheet" where
  "ce_question_sheet =
     run_steps
       [ce_write_headers ce_headers,
        ce_write_data ce_data,
        for_enumerate (\<lambda>col_num width. set_column_width_idx col_num width) 1 ce_column_widths,
        set_freeze_panes ''A2'']"

definition ce_summary_sheet :: "sheet \<Rightarrow> error + sheet" where
  "ce_summary_sheet =
     run_steps
       [ws_setitem ''A1'' (StrV ''Cyber Essentials Certification - Status Summary''),
        ws_item_style ''A1'' (set_font (Font None (Some 14) True None)),
        ws_setitem ''A3'' (StrV ''Status Legend:''),
        ws_setitem ''A4'' (StrV ''Ready''),
        ws_item_style ''A4'' (set_fill (PatternFill ''C6EFCE'' ''C6EFCE'' ''solid'')),
        ws_setitem ''B4'' (StrV ''Answer complete and verified''),
        ws_setitem ''A5'' (StrV ''Confirm''),
        ws_item_style ''A5'' (set_fill (PatternFill ''BDD7EE'' ''BDD7EE'' ''solid'')),
        ws_setitem ''B5'' (StrV ''Needs your confirmation''),
        ws_setitem ''A6'' (StrV ''Pending''),
        ws_item_style ''A6'' (set_fill (PatternFill ''FFEB9C'' ''FFEB9C'' ''solid'')),
        ws_setitem ''B6'' (StrV ''Requires your input (TBC)''),
        ws_setitem ''A7'' (StrV ''Partial''),
        ws_item_style ''A7'' (set_fill (PatternFill ''FCE4D6'' ''FCE4D6'' ''solid'')),
        ws_setitem ''B7'' (StrV ''Partially complete, needs review''),
        ws_setitem ''A9'' (StrV ''Items Requiring Your Input:''),
        ws_item_style ''A9'' (set_font (Font None None True None)),
        for_enumerate (\<lambda>i item. ws_setitem (''A'' @ str_nat i) (StrV item)) 10 ce_pending_items,
        set_column_width ''A'' 40,
        set_column_width ''B'' 40]"

definition ce_output_path :: string where
  "ce_output_path = ''/Users/adeomosanya/Documents/ifa-professional-portal/cyber-essentials/Cyber-Essentials-Question-Set-Answers.xlsx''"

text \<open>The workbook the script builds in memory, and the whole run: import (installing
  the library when it is missing), build, save.\<close>

definition ce_build :: "error + workbook" where
  "ce_build =
     run_steps
       [set_title active ''CE Question Set'',
        on_sheet active ce_question_sheet,
        with_new_sheet ''Summary'' (\<lambda>ws2. on_sheet ws2 ce_summary_sheet)]
       Workbook"

definition ce_main :: "proc_env \<Rightarrow> error + workbook" where
  "ce_main env =
     (case import_or_install env of
        Inl e \<Rightarrow> Inl e
      | Inr _ \<Rightarrow> (case ce_build of Inl e \<Rightarrow> Inl e | Inr wb \<Rightarrow> save env ce_output_path wb))"

section \<open>The MEMA answers (create-mema-cyber-essentials.py)\<close>

subsection \<open>Styles\<close>

definition mema_header_font :: font where
  "mema_header_font = Font None (Some 11) True (Some ''FFFFFF'')"

definition mema_header_fill :: pattern_fill where
  "mema_header_fill = PatternFill ''2F5496'' ''2F5496'' ''solid''"

definition mema_section_font :: font where
  "mema_section_font = Font None (Some 11) True None"

definition ready_fill :: pattern_fill where
  "ready_fill = PatternFill ''C6EFCE'' ''C6EFCE'' ''solid''"

definition action_fill :: pattern_fill where
  "action_fill = PatternFill ''FFEB9C'' ''FFEB9C'' ''solid''"

subsection \<open>Headers and data\<close>

text \<open>Every entry of the MEMA table is a \<open>str\<close>; the rows are kept as lists of strings,
  since the status branch applies the substring test to the value.\<close>

definition mema_headers :: "string list" where
  "mema_headers =
     [''Section'',
      ''Q No.'',
      ''Question'',
      ''Your Answer'',
      ''Status'']"

definition mema_data :: "string list list" where
  "mema_data =
     [[''A1 Organisation'', ''A1.1'', ''Organisation name'', ''MEMA Financial Services Ltd'', ''Ready''],
      [''A1 Organisation'', ''A1.2'', ''Organisation type'', ''LTD - Limited Company'', ''Ready''],
      [''A1 Organisation'', ''A1.3'', ''Registration number'', ''15382445'', ''Ready''],
      [''A1 Organisation'', ''A1.4'', ''Registered address'', ''34-35 Hatton Garden, London, England, EC1N 8DX'', ''Ready''],
      [''A1 Organisation'', ''A1.5'', ''Main business'', ''IT'', ''Ready''],
      [''A1 Organisation'', ''A1.6'', ''Website address'', ''https://plannetic.com'', ''Ready''],
      [''A1 Organisation'', ''A1.7'', ''Renewal or first time'', ''First Time Application'', ''Ready''],
      [''A1 Organisation'', ''A1.8'', ''Two main reasons for applying'', (''Primary: To give confidence to our customers'' @ [CHR 0x0A] @ ''Secondary: To generally improve our security''), ''Ready''],
      [''A1 Organisation'', ''A1.9'', ''Read CE Requirements document?'', ''Yes'', ''Ready''],
      [''A1 Organisation'', ''A1.10'', ''IASME breach contact permission'', ''No'', ''Ready''],
      [''A1 Organisation'', ''A1.11'', ''IASME research contact permission'', ''No'', ''Ready''],
      [''A2 Scope'', ''A2.1'', ''Whole organisation in scope?'', ''Yes'', ''Ready''],
      [''A2 Scope'', ''A2.2'', ''Scope description (if not whole org)'', ''N/A - whole organisation in scope'', ''N/A''],
      [''A2 Scope'', ''A2.3'', ''Geographical locations in scope'', ''All UK locations. MEMA Financial Services operates fully remotely with 2 home-based employees.'', ''Ready''],
      [''A2 Scope'', ''A2.4'', ''Laptops/desktops (qty + make + OS)'', (''2 laptops:'' @ [CHR 0x0A] @ ''- 1 x Apple MacBook Pro running macOS 26.1'' @ [CHR 0x0A] @ ''- 1 x Dell laptop running Windows 11''), ''Ready''],
      [''A2 Scope'', ''A2.4.1'', ''Thin clients'', ''None'', ''Ready''],
      [''A2 Scope'', ''A2.5'', ''Servers/virtual servers/hypervisors/VDI'', ''None - all infrastructure is cloud-hosted via AWS (Vercel) and Supabase (PaaS).'', ''Ready''],
      [''A2 Scope'', ''A2.6'', ''Tablets and mobile devices'', ''1 x Samsung mobile phone running Android 15'', ''Ready''],
      [''A2 Scope'', ''A2.7'', ''Networks in scope'', ''Home/Remote Worker Networks - both employees work from home using domestic broadband connections. All devices are secured by software firewalls (macOS Application Firewall and Windows Defender Firewall).'', ''Ready''],
      [''A2 Scope'', ''A2.7.1'', ''Remote workers count'', ''2 - all employees are home/remote workers'', ''Ready''],
      [''A2 Scope'', ''A2.8'', ''Network equipment (firewalls/routers)'', ''All staff are remote workers using home broadband routers (various makes/models managed by ISPs). Software firewalls are enabled on all endpoint devices. Staff do not have administrative access to home routers.'', ''Ready''],
      [''A2 Scope'', ''A2.9'', ''Cloud services (third party)'', (''- Supabase (PaaS) - Database and authentication'' @ [CHR 0x0A] @ ''- Vercel/AWS (PaaS) - Application hosting'' @ [CHR 0x0A] @ ''- GitHub (SaaS) - Source code repository'' @ [CHR 0x0A] @ ''- Google Workspace (SaaS) - Email and collaboration'' @ [CHR 0x0A] @ ''- 1Password (SaaS) - Password management'' @ [CHR 0x0A] @ ''- Resend (SaaS) - Email delivery'' @ [CHR 0x0A] @ ''- OpenSign (SaaS) - Document signing'' @ [CHR 0x0A] @ ''- Ordnance Survey (SaaS) - UK address lookup API'' @ [CHR 0x0A] @ ''- DeepSeek (SaaS) - AI/LLM API'' @ [CHR 0x0A] @ ''- Alpha Vantage (SaaS) - Financial data API''), ''Ready''],
      [''A2 Scope'', ''A2.10'', ''Person responsible for IT'', ''Ade Omosanya, Director'', ''Ready''],
      [''A3 Insurance'', ''A3.1'', (''UK HQ and turnover < '' @ [CHR 0xC2, CHR 0xA3] @ ''20m?''), ''Yes'', ''Ready''],
      [''A3 Insurance'', ''A3.2'', ''Opt out of insurance?'', ''No - we wish to receive the included cyber insurance'', ''Ready''],
      [''A3 Insurance'', ''A3.3'', ''Insurance contact email'', ''info@memaconsultants.com'', ''Confirm email''],
      [''A4 Firewalls'', ''A4.1'', ''Firewalls at internet boundaries?'', ''Yes'', ''Ready''],
      [''A4 Firewalls'', ''A4.1.1'', ''Software firewalls enabled on all devices?'', ''Yes - we use the built-in macOS Application Firewall and Windows Defender Firewall; both are enabled and kept enabled at all times, including on untrusted networks (home/public Wi-Fi).'', ''ACTION: Verify both firewalls are ON''],
      [''A4 Firewalls'', ''A4.1.2'', ''If no software firewall: list OS'', ''N/A'', ''N/A''],
      [''A4 Firewalls'', ''A4.2'', ''Default passwords changed on firewalls?'', ''Yes - for home workers, domestic routers are managed by ISPs with unique per-device passwords. Software firewalls are protected by device login credentials following our password policy.'', ''Ready''],
      [''A4 Firewalls'', ''A4.2.1'', ''Process for changing firewall password'', ''Software firewalls are protected by device login credentials. Password changes are performed via System Settings (macOS) or Windows Settings when required. Device passwords follow our policy of minimum 12 characters.'', ''Ready''],
      [''A4 Firewalls'', ''A4.3'', ''Firewall password configuration (A-E)'', ''Option C - Minimum 12 characters, no maximum length'', ''Ready''],
      [''A4 Firewalls'', ''A4.4'', ''Change password when compromised?'', ''Yes - if we know or suspect a device password has been compromised, we immediately change it and review for unauthorised access.'', ''Ready''],
      [''A4 Firewalls'', ''A4.5'', ''Process to manage firewall?'', ''Yes'', ''Ready''],
      [''A4 Firewalls'', ''A4.6'', ''Firewall rules reviewed in last 12 months?'', ''Software firewalls use default secure settings blocking all incoming connections. No custom inbound rules configured. Configuration verified during device setup and periodically checked. Cloud services (Vercel, Supabase) manage their own infrastructure firewalls.'', ''Ready''],
      [''A4 Firewalls'', ''A4.7'', ''Allows unauthenticated inbound?'', ''No - all inbound connections blocked by default on endpoint devices.'', ''Ready''],
      [''A4 Firewalls'', ''A4.8'', ''How inbound connections approved?'', ''No inbound connections permitted to endpoint devices. All services accessed via outbound connections to cloud platforms. Any exception would require documented written approval from the Director with clear business justification.'', ''Ready''],
      [''A4 Firewalls'', ''A4.9'', ''Admin interface accessible from internet?'', ''No - firewall settings only accessible locally via device System Settings.'', ''Ready''],
      [''A4 Firewalls'', ''A4.10'', ''If yes: documented business need?'', ''N/A'', ''N/A''],
      [''A4 Firewalls'', ''A4.11'', ''If yes: MFA or IP allow list?'', ''N/A'', ''N/A''],
      [''A5 Secure Config'', ''A5.1'', ''Removed unnecessary software?'', ''All devices configured with only business-required software. Staff instructed not to install unnecessary applications. macOS Gatekeeper and Windows SmartScreen prevent unsigned/untrusted applications. Regular reviews conducted to remove unused software.'', ''Ready''],
      [''A5 Secure Config'', ''A5.2'', ''Only necessary user accounts?'', ''Yes - only required user accounts exist on devices and cloud services. Guest accounts disabled. Unused accounts removed promptly.'', ''Ready''],
      [''A5 Secure Config'', ''A5.3'', ''Default passwords changed?'', ''Yes - all default passwords changed to strong, unique passwords managed via 1Password.'', ''Ready''],
      [''A5 Secure Config'', ''A5.4'', ''Run external services with non-public data?'', ''Yes - Plannetic is a web application accessed by authenticated IFA clients over the internet. It handles client financial and compliance data.'', ''Ready''],
      [''A5 Secure Config'', ''A5.5'', ''Authentication option (A-E)'', ''Option A - Multi-factor authentication with minimum 8 character password. Plannetic uses Supabase Auth with MFA (TOTP) for all users.'', ''Ready''],
      [''A5 Secure Config'', ''A5.6'', ''Process to change password on compromise'', (''1) User notified immediately and required to change password'' @ [CHR 0x0A] @ ''2) All sessions terminated via Supabase admin dashboard'' @ [CHR 0x0A] @ ''3) MFA verified/re-enrolled'' @ [CHR 0x0A] @ ''4) Incident logged and reviewed''), ''Ready''],
      [''A5 Secure Config'', ''A5.7'', ''Brute force protection (A-C)'', ''Option A - Throttling. Supabase Auth provides rate limiting and account lockout after failed attempts.'', ''Ready''],
      [''A5 Secure Config'', ''A5.8'', ''Auto-run disabled?'', ''Yes - macOS doesn't auto-run from external media. Windows SmartScreen blocks untrusted apps. Users prompted before opening downloads.'', ''Ready''],
      [''A5 Secure Config'', ''A5.9'', ''Device locking enabled?'', ''Yes - all devices require authentication to access.'', ''Ready''],
      [''A5 Secure Config'', ''A5.10'', ''Device unlock method'', (''macOS: Touch ID biometric with password fallback (min 8 chars)'' @ [CHR 0x0A] @ ''Windows: Windows Hello or password (min 12 chars)'' @ [CHR 0x0A] @ ''Android: Fingerprint/PIN (min 6 digits)''), ''Ready''],
      [''A6 Updates'', ''A6.1'', ''All OS supported?'', (''Yes - all devices run supported operating systems:'' @ [CHR 0x0A] @ ''- macOS 26.1 (Tahoe) - supported'' @ [CHR 0x0A] @ ''- Windows 11 - supported'' @ [CHR 0x0A] @ ''- Android 15 - supported''), ''Ready''],
      [''A6 Updates'', ''A6.2'', ''All software supported?'', ''Yes - all software licensed and receiving security updates.'', ''Ready''],
      [''A6 Updates'', ''A6.2.1'', ''Browsers (name + version)'', (''Google Chrome 143.0.7499.110'' @ [CHR 0x0A] @ ''Mozilla Firefox 146.0'' @ [CHR 0x0A] @ ''Microsoft Edge 143.0.3650.80'' @ [CHR 0x0A] @ ''Safari 26.1''), ''Ready''],
      [''A6 Updates'', ''A6.2.2'', ''Malware protection'', (''macOS: XProtect (built-in, auto-updating) + Gatekeeper + MRT'' @ [CHR 0x0A] @ ''Windows: Microsoft Defender Antivirus (built-in, auto-updating)''), ''Ready''],
      [''A6 Updates'', ''A6.2.3'', ''Email applications'', (''Google Workspace Gmail (web-based via browser)'' @ [CHR 0x0A] @ ''Apple Mail 16.0 (macOS)''), ''Ready''],
      [''A6 Updates'', ''A6.2.4'', ''Office applications'', (''Google Workspace (Docs, Sheets, Slides - web-based)'' @ [CHR 0x0A] @ ''Apple Pages 14.4, Numbers 14.4, Keynote 14.4'' @ [CHR 0x0A] @ ''Microsoft OneNote 16.104''), ''Ready''],
      [''A6 Updates'', ''A6.3'', ''Any unlicensed/unsupported software?'', ''No'', ''Ready''],
      [''A6 Updates'', ''A6.3.1'', ''List unsupported/unlicensed'', ''N/A'', ''N/A''],
      [''A6 Updates'', ''A6.4'', ''Critical updates within 14 days?'', ''Yes - all high/critical security updates applied within 14 days. Automatic updates enabled on all devices.'', ''Ready''],
      [''A6 Updates'', ''A6.4.1'', ''OS auto-updates enabled?'', ''Yes - automatic updates enabled on both macOS and Windows devices.'', ''Ready''],
      [''A6 Updates'', ''A6.4.2'', ''If not auto: how ensure 14 days?'', ''Automatic updates are primary mechanism. Director monitors vendor release notes and manually triggers if not auto-applied within 7 days.'', ''Ready''],
      [''A6 Updates'', ''A6.5'', ''App updates within 14 days?'', ''Yes'', ''Ready''],
      [''A6 Updates'', ''A6.5.1'', ''App auto-updates enabled?'', ''Yes - App Store (macOS), Microsoft Store (Windows), Chrome/Firefox/Edge all have auto-updates enabled.'', ''Ready''],
      [''A6 Updates'', ''A6.5.2'', ''If not auto: how ensure 14 days?'', ''Auto-updates primary. Staff accept update prompts promptly. Periodic compliance checks by Director.'', ''Ready''],
      [''A6 Updates'', ''A6.6'', ''Remove unsupported when EOL?'', ''Yes - unsupported software removed when it reaches end-of-life.'', ''Ready''],
      [''A6 Updates'', ''A6.7'', ''Unsupported moved out of scope?'', ''Not applicable - no unsupported software used.'', ''Ready''],
      [''A7 Access Control'', ''A7.1'', ''Account creation approval process'', ''As a 2-person company, the Director (Ade Omosanya) approves all account creation. New accounts created with minimum necessary permissions. MFA enrollment mandatory before first access.'', ''Ready''],
      [''A7 Access Control'', ''A7.2'', ''Unique credentials?'', ''Yes - all users have unique credentials. Account sharing prohibited.'', ''Ready''],
      [''A7 Access Control'', ''A7.3'', ''Leaver process'', ''When an employee leaves: 1) All cloud service accounts immediately disabled/deleted 2) Device collected and wiped 3) Passwords to shared systems changed 4) Confirmed within 24 hours'', ''Ready''],
      [''A7 Access Control'', ''A7.4'', ''Least privilege'', ''Role-based access control (RBAC) implemented in Plannetic. Users granted minimum permissions for their role. Cloud service access limited to job requirements.'', ''Ready''],
      [''A7 Access Control'', ''A7.5'', ''Admin access process'', ''Director approval required for admin access. Separate admin accounts used. Access documented and reviewed quarterly.'', ''Ready''],
      [''A7 Access Control'', ''A7.6'', ''Separate admin accounts'', ''Admin tasks performed using dedicated accounts. Cloud platforms: separate admin accounts with MFA. Day-to-day work uses standard accounts.'', ''Ready''],
      [''A7 Access Control'', ''A7.7'', ''Prevent admin for email/browsing'', ''Admin accounts not used for email or browsing. Staff trained on this policy. Cloud admin sessions logged out after use.'', ''Ready''],
      [''A7 Access Control'', ''A7.8'', ''Track admin accounts?'', ''Yes - Director maintains record of all admin access.'', ''Ready''],
      [''A7 Access Control'', ''A7.9'', ''Review admin access regularly?'', ''Yes - reviewed quarterly. Unused privileges removed.'', ''Ready''],
      [''A7 Access Control'', ''A7.10'', ''Brute-force protection'', (''All systems protected:'' @ [CHR 0x0A] @ ''- 1Password: Account lockout'' @ [CHR 0x0A] @ ''- Google Workspace: Rate limiting + MFA'' @ [CHR 0x0A] @ ''- Supabase: Rate limiting + lockout'' @ [CHR 0x0A] @ ''- Device logins: Throttling after failed attempts''), ''Ready''],
      [''A7 Access Control'', ''A7.11'', ''Password quality controls'', (''Technical controls via 1Password and cloud providers:'' @ [CHR 0x0A] @ ''- Minimum 8 characters with MFA enabled'' @ [CHR 0x0A] @ ''- Minimum 12 characters where MFA not available'' @ [CHR 0x0A] @ ''- No maximum length'' @ [CHR 0x0A] @ ''- Common password blocking''), ''Ready''],
      [''A7 Access Control'', ''A7.12'', ''Support strong passwords'', ''1Password used for generating and storing unique passwords. Staff trained on three random words method. No regular password expiry. No complexity requirements.'', ''Ready''],
      [''A7 Access Control'', ''A7.13'', ''Compromised password process?'', ''Yes - report immediately, force reset, terminate sessions, re-verify MFA, review incident.'', ''Ready''],
      [''A7 Access Control'', ''A7.14'', ''All cloud services have MFA?'', (''Yes - all cloud services provide MFA:'' @ [CHR 0x0A] @ ''- Google Workspace '' @ [CHR 0xE2, CHR 0x9C, CHR 0x93, CHR 0x0A] @ ''- Supabase '' @ [CHR 0xE2, CHR 0x9C, CHR 0x93, CHR 0x0A] @ ''- Vercel '' @ [CHR 0xE2, CHR 0x9C, CHR 0x93, CHR 0x0A] @ ''- GitHub '' @ [CHR 0xE2, CHR 0x9C, CHR 0x93, CHR 0x0A] @ ''- 1Password '' @ [CHR 0xE2, CHR 0x9C, CHR 0x93]), ''Ready''],
      [''A7 Access Control'', ''A7.15'', ''Services without MFA option'', ''N/A - all services have MFA'', ''N/A''],
      [''A7 Access Control'', ''A7.16'', ''MFA on all cloud admins?'', ''Yes - MFA mandatory for all admin accounts.'', ''Ready''],
      [''A7 Access Control'', ''A7.17'', ''MFA on all cloud users?'', ''Yes - MFA mandatory for all users.'', ''Ready''],
      [''A8 Malware'', ''A8.1'', ''Malware protection method (A/B/C)'', (''Both A and B:'' @ [CHR 0x0A] @ ''A - Anti-malware: Windows Defender, macOS XProtect'' @ [CHR 0x0A] @ ''B - Allow-listing: Gatekeeper (macOS), SmartScreen (Windows), Google Play Protect (Android)''), ''Ready''],
      [''A8 Malware'', ''A8.2'', ''Anti-malware updates + blocks?'', ''Yes - Windows Defender and XProtect auto-update and block/quarantine detected malware.'', ''Ready''],
      [''A8 Malware'', ''A8.3'', ''Warns on malicious sites?'', (''Yes:'' @ [CHR 0x0A] @ ''- Chrome: Safe Browsing enabled'' @ [CHR 0x0A] @ ''- Firefox: Phishing protection enabled'' @ [CHR 0x0A] @ ''- Edge: SmartScreen enabled'' @ [CHR 0x0A] @ ''- Safari: Fraudulent Website Warning enabled''), ''Ready''],
      [''A8 Malware'', ''A8.4'', ''Users restricted from unsigned apps?'', ''Yes - Gatekeeper (macOS) and SmartScreen (Windows) block unsigned/untrusted apps. Users cannot bypass without admin intervention.'', ''Ready''],
      [''A8 Malware'', ''A8.5'', ''Only approved apps + list maintained?'', ''Yes - staff instructed to only install approved business applications. Director approves new app requests. Mobile: only official app stores used.'', ''Ready'']]"


subsection \<open>The write loops\<close>

definition mema_header_style :: "style \<Rightarrow> style" where
  "mema_header_style =
     assigns [set_font mema_header_font, set_fill mema_header_fill,
              set_alignment wrap_alignment, set_border thin_border]"

definition mema_write_headers :: "string list \<Rightarrow> sheet \<Rightarrow> error + sheet" where
  "mema_write_headers headers = write_row (\<lambda>_ _ _. mema_header_style) 1 1 (map StrV headers)"

text \<open>The status branch: equality with Ready first, then the substring tests.\<close>

definition mema_status_fill :: "string \<Rightarrow> style \<Rightarrow> style" where
  "mema_status_fill v s =
     (if v = ''Ready'' then set_fill ready_fill s
      else if py_in ''ACTION'' v \<or> py_in ''Confirm'' v then set_fill action_fill s
      else s)"

definition mema_body_style :: "nat \<Rightarrow> nat \<Rightarrow> cell_value \<Rightarrow> style \<Rightarrow> style" where
  "mema_body_style row_num col_num v =
     assigns [set_alignment wrap_alignment, set_border thin_border,
              (\<lambda>s. if col_num = 1 then set_font mema_section_font s else s),
              (\<lambda>s. if col_num = 5 then mema_status_fill (str_of v) s else s)]"

definition mema_write_data :: "string list list \<Rightarrow> sheet \<Rightarrow> error + sheet" where
  "mema_write_data data = write_rows mema_body_style 2 1 (map (map StrV) data)"

subsection \<open>Column widths, the actions sheet and the script\<close>

definition mema_widths :: "nat list" where
  "mema_widths = [18, 8, 45, 70, 25]"

definition mema_actions :: "string list" where
  "mema_actions =
     [''1. macOS Firewall is ENABLED (System Settings > Network > Firewall)'',
      ''2. Windows Defender Firewall is ENABLED (Settings > Privacy & security > Windows Security > Firewall)'',
      ''3. Confirm insurance email address is correct'',
      ''4. All devices have auto-updates enabled'',
      ''5. MFA is enforced on all cloud services'']"


definition mema_answers_sheet :: "sheet \<Rightarrow> error + sheet" where
  "mema_answers_sheet =
     run_steps
       [mema_write_headers mema_headers,
        mema_write_data mema_data,
        for_enumerate (\<lambda>col width. set_column_width_idx col width) 1 mema_widths,
        set_freeze_panes ''A2'']"

definition mema_actions_sheet :: "sheet \<Rightarrow> error + sheet" where
  "mema_actions_sheet =
     run_steps
       [ws_setitem ''A1'' (StrV ''MEMA Financial Services - Cyber Essentials Actions''),
        ws_item_style ''A1'' (set_font (Font None (Some 14) True None)),
        ws_setitem ''A3'' (StrV ''Before Submission - Verify:''),
        ws_item_style ''A3'' (set_font (Font None None True None)),
        for_enumerate (\<lambda>i action. ws_setitem (''A'' @ str_nat i) (StrV action)) 4 mema_actions,
        ws_setitem ''A10'' (StrV ''Company Details Confirmed:''),
        ws_item_style ''A10'' (set_font (Font None None True None)),
        ws_setitem ''A11'' (StrV ''MEMA Financial Services Ltd''),
        ws_setitem ''A12'' (StrV ''Company Number: 15382445''),
        ws_setitem ''A13'' (StrV ''34-35 Hatton Garden, London, EC1N 8DX''),
        ws_setitem ''A14'' (StrV ''IT Contact: Ade Omosanya, Director''),
        set_column_width ''A'' 80]"

definition mema_output_path :: string where
  "mema_output_path = ''/Users/adeomosanya/Documents/ifa-professional-portal/cyber-essentials/MEMA-Cyber-Essentials-Answers.xlsx''"

definition mema_build :: "error + workbook" where
  "mema_build =
     run_steps
       [set_title active ''CE Answers'',
        on_sheet active mema_answers_sheet,
        with_new_sheet ''Actions Required'' (\<lambda>ws2. on_sheet ws2 mema_actions_sheet)]
       Workbook"

definition mema_main :: "proc_env \<Rightarrow> error + workbook" where
  "mema_main env =
     (case import_or_install env of
        Inl e \<Rightarrow> Inl e
      | Inr _ \<Rightarrow> (case mema_build of Inl e \<Rightarrow> Inl e | Inr wb \<Rightarrow> save env mema_output_path wb))"

section \<open>The pricing workbook, version 2 (create-pricing-excel-v2.py)\<close>

subsection \<open>Styles and literal tables\<close>

definition v2_title_font :: font where
  "v2_title_font = Font (Some ''Calibri'') (Some 20) True (Some ''1E40AF'')"

definition v2_header_font :: font where
  "v2_header_font = Font (Some ''Calibri'') (Some 11) True (Some ''FFFFFF'')"

definition v2_subheader_font :: font where
  "v2_subheader_font = Font (Some ''Calibri'') (Some 13) True (Some ''1E40AF'')"

definition v2_section_font :: font where
  "v2_section_font = Font (Some ''Calibri'') (Some 11) True (Some ''374151'')"

definition v2_normal_font :: font where
  "v2_normal_font = Font (Some ''Calibri'') (Some 10) False None"

definition v2_currency_font :: font where
  "v2_currency_font = Font (Some ''Calibri'') (Some 10) True (Some ''059669'')"

definition v2_small_font :: font where
  "v2_small_font = Font (Some ''Calibri'') (Some 9) False (Some ''6B7280'')"

definition v2_header_fill :: pattern_fill where
  "v2_header_fill = PatternFill ''1E40AF'' ''1E40AF'' ''solid''"

definition v2_alt_fill :: pattern_fill where
  "v2_alt_fill = PatternFill ''F3F4F6'' ''F3F4F6'' ''solid''"

definition v2_highlight_fill :: pattern_fill where
  "v2_highlight_fill = PatternFill ''DCFCE7'' ''DCFCE7'' ''solid''"

definition v2_input_fill :: pattern_fill where
  "v2_input_fill = PatternFill ''FEF3C7'' ''FEF3C7'' ''solid''"

definition v2_warning_fill :: pattern_fill where
  "v2_warning_fill = PatternFill ''FEE2E2'' ''FEE2E2'' ''solid''"

definition v2_blue_fill :: pattern_fill where
  "v2_blue_fill = PatternFill ''DBEAFE'' ''DBEAFE'' ''solid''"

definition v2_thin_border :: border where
  "v2_thin_border = Border (Side (Some ''thin'') (Some ''D1D5DB'')) (Side (Some ''thin'') (Some ''D1D5DB'')) (Side (Some ''thin'') (Some ''D1D5DB'')) (Side (Some ''thin'') (Some ''D1D5DB''))"

definition v2_summary_text :: "cell_value list" where
  "v2_summary_text =
     [StrV ''Plannetic is a comprehensive, compliance-focused financial advisory platform'',
      StrV ''designed specifically for UK-regulated Independent Financial Advisors (IFAs).'',
      StrV '''',
      StrV ''Key Value Proposition:'',
      StrV ([CHR 0xE2, CHR 0x80, CHR 0xA2] @ '' Replaces 5-7 separate tools with one integrated platform''),
      StrV ([CHR 0xE2, CHR 0x80, CHR 0xA2] @ '' Saves IFAs '' @ [CHR 0xC2, CHR 0xA3] @ ''280+/month vs competitor tool stack ('' @ [CHR 0xC2, CHR 0xA3] @ ''530 '' @ [CHR 0xE2, CHR 0x86, CHR 0x92] @ '' '' @ [CHR 0xC2, CHR 0xA3] @ ''250)''),
      StrV ([CHR 0xE2, CHR 0x80, CHR 0xA2] @ '' Saves 10-20 hours per client onboarding''),
      StrV ([CHR 0xE2, CHR 0x80, CHR 0xA2] @ '' Built-in FCA compliance and Consumer Duty workflows''),
      StrV ([CHR 0xE2, CHR 0x80, CHR 0xA2] @ '' AI-enhanced assessments and form auto-population'')]"

definition v2_pricing_headers :: "cell_value list" where
  "v2_pricing_headers =
     [StrV ''Tier'',
      StrV ''Monthly'',
      StrV ''Commitment'',
      StrV ''2-Year TCV'',
      StrV ''3-Year TCV'',
      StrV ''Best For'']"

definition v2_pricing_data :: "cell_value list list" where
  "v2_pricing_data =
     [[StrV ''Monthly'', IntV 350, StrV ''Month-to-month'', StrV ''=B20*24'', StrV ''=B20*36'', StrV ''Trial/uncertain firms''],
      [StrV ''Standard'', IntV 250, StrV ''2-year'', StrV ''=B21*24'', StrV ''=B21*36'', StrV ''Solo advisors, small firms''],
      [StrV ''Professional'', IntV 300, StrV ''2-year'', StrV ''=B22*24'', StrV ''=B22*36'', StrV ''Growing firms, AI + support''],
      [StrV ''Enterprise'', StrV ''Custom'', StrV ''3-year'', StrV ''Custom'', StrV ''Custom'', StrV ''5+ advisors, white-label'']]"

definition v2_savings_data :: "cell_value list list" where
  "v2_savings_data =
     [[StrV ''Metric'', StrV ''Value'', StrV ''Notes''],
      [StrV ''Competitor Stack Cost'', IntV 530, StrV ''Verified Dec 2025 pricing''],
      [StrV ''Plannetic Standard'', IntV 250, StrV ''Full platform access''],
      [StrV ''Monthly Savings'', StrV ''=B28-B29'', StrV ''Per month''],
      [StrV ''Annual Savings'', StrV ''=B30*12'', StrV ''Per year''],
      [StrV ''Savings %'', StrV ''=B30/B28'', StrV ''vs competitors'']]"

definition v2_comp_headers :: "cell_value list" where
  "v2_comp_headers =
     [StrV ''Software'',
      StrV ''Monthly Price'',
      StrV ''Price Type'',
      StrV ''What They Offer'',
      StrV ''Source'']"

definition v2_competitors :: "cell_value list list" where
  "v2_competitors =
     [[StrV ''Intelliflo Office'', IntV 132, StrV ''Per user'', StrV ''Back office + cashflow'', StrV ''TrustRadius''],
      [StrV ''Voyant AdviserGo'', IntV 175, StrV ''Flat fee'', StrV ''Cash flow planning'', StrV ''voyant.com''],
      [StrV ''Timeline'', IntV 162, StrV ''Flat (+VAT)'', StrV ''Monte Carlo simulations'', StrV ''timeline.co''],
      [StrV ''FE CashCalc'', IntV 90, StrV ''Per adviser (+VAT)'', StrV ''Cash flow modelling'', StrV ''advisoryai.com''],
      [StrV ''Dynamic Planner'', IntV 200, StrV ''Estimated'', StrV ''Risk profiling + reports'', StrV ''Contact required''],
      [StrV ''Plannetic Standard'', IntV 250, StrV ''Flat fee'', StrV ''ALL-IN-ONE PLATFORM'', StrV ''Your price'']]"

definition v2_stack_headers :: "cell_value list" where
  "v2_stack_headers =
     [StrV ''Tool Category'',
      StrV ''Standalone Cost'',
      StrV ''Plannetic'',
      StrV ''Savings'']"

definition v2_stack_data :: "cell_value list list" where
  "v2_stack_data =
     [[StrV ''CRM (generic)'', IntV 50, StrV ''Included'', StrV ''=B35''],
      [StrV ''Risk Profiling'', IntV 50, StrV ''Included'', StrV ''=B36''],
      [StrV ''Cash Flow (Voyant)'', IntV 175, StrV ''Included'', StrV ''=B37''],
      [StrV ''Monte Carlo (Timeline)'', IntV 162, StrV ''Included'', StrV ''=B38''],
      [StrV ''Document Generation'', IntV 50, StrV ''Included'', StrV ''=B39''],
      [StrV ''E-Signatures'', IntV 23, StrV ''Included'', StrV ''=B40''],
      [StrV ''Compliance Tracking'', IntV 50, StrV ''Included'', StrV ''=B41'']]"

definition v2_sources :: "cell_value list" where
  "v2_sources =
     [StrV ([CHR 0xE2, CHR 0x80, CHR 0xA2] @ '' Voyant: planwithvoyant.com/uk/pricing''),
      StrV ([CHR 0xE2, CHR 0x80, CHR 0xA2] @ '' Timeline: timeline.co ('' @ [CHR 0xC2, CHR 0xA3] @ ''135+VAT = '' @ [CHR 0xC2, CHR 0xA3] @ ''162)''),
      StrV ([CHR 0xE2, CHR 0x80, CHR 0xA2] @ '' CashCalc: advisoryai.com ('' @ [CHR 0xC2, CHR 0xA3] @ ''75+VAT = '' @ [CHR 0xC2, CHR 0xA3] @ ''90)''),
      StrV ([CHR 0xE2, CHR 0x80, CHR 0xA2] @ '' Intelliflo: trustradius.com ('' @ [CHR 0xC2, CHR 0xA3] @ ''130-135/user)'')]"

definition v2_calc_headers :: "cell_value list" where
  "v2_calc_headers =
     [StrV ''# Firms'',
      StrV ([CHR 0xC2, CHR 0xA3] @ ''250/mo (2yr)''),
      StrV ([CHR 0xC2, CHR 0xA3] @ ''300/mo (2yr)''),
      StrV ([CHR 0xC2, CHR 0xA3] @ ''250/mo (3yr)''),
      StrV ([CHR 0xC2, CHR 0xA3] @ ''300/mo (3yr)''),
      StrV ''Difference'',
      StrV ''Avg MRR'']"

definition v2_firm_counts :: "cell_value list" where
  "v2_firm_counts =
     [IntV 1,
      IntV 2,
      IntV 3,
      IntV 4,
      IntV 5,
      IntV 10,
      IntV 15,
      IntV 20,
      IntV 25,
      IntV 50,
      IntV 75,
      IntV 100,
      IntV 150,
      IntV 200,
      IntV 250,
      IntV 300]"

definition v2_growth_headers :: "cell_value list" where
  "v2_growth_headers =
     [StrV ''Year'',
      StrV ''New Firms'',
      StrV ''Churn'',
      StrV ''Total Firms'',
      StrV ''MRR'',
      StrV ''ARR'']"

definition v2_conservative_new :: "cell_value list" where
  "v2_conservative_new =
     [IntV 10,
      IntV 10,
      IntV 15,
      IntV 20,
      IntV 25]"

definition v2_moderate_new :: "cell_value list" where
  "v2_moderate_new =
     [IntV 25,
      IntV 35,
      IntV 45,
      IntV 60,
      IntV 75]"

definition v2_aggressive_new :: "cell_value list" where
  "v2_aggressive_new =
     [IntV 50,
      IntV 70,
      IntV 100,
      IntV 130,
      IntV 150]"

definition v2_chart_headers :: "cell_value list" where
  "v2_chart_headers =
     [StrV ''Year'',
      StrV ''Conservative'',
      StrV ''Moderate'',
      StrV ''Aggressive'']"

definition v2_inputs :: "cell_value list list" where
  "v2_inputs =
     [[StrV ''Tool'', StrV ''Monthly Cost'', StrV ''Notes''],
      [StrV ''CRM (generic)'', IntV 50, StrV ''Salesforce/HubSpot equivalent''],
      [StrV ''Risk Profiling Tool'', IntV 50, StrV ''Dynamic Planner element''],
      [StrV ''Cash Flow (Voyant)'', IntV 175, StrV ''Verified Dec 2025''],
      [StrV ''Monte Carlo (Timeline)'', IntV 162, StrV (''Verified Dec 2025 ('' @ [CHR 0xC2, CHR 0xA3] @ ''135+VAT)'')],
      [StrV ''Document Generation'', IntV 50, StrV ''Word templates/Templafy''],
      [StrV ''E-Signatures'', IntV 23, StrV ''DocuSign/Adobe Sign''],
      [StrV ''Compliance Tracking'', IntV 50, StrV ''Manual/specialist tool'']]"

definition v2_time_inputs :: "cell_value list list" where
  "v2_time_inputs =
     [[StrV ''Metric'', StrV ''Value'', StrV ''Notes''],
      [StrV ''Hours per client onboarding (current)'', IntV 15, StrV ''Manual process''],
      [StrV ''Time saved with Plannetic (%)'', FloatV ''0.6'', StrV ''60% automation''],
      [StrV (''Your hourly rate ('' @ [CHR 0xC2, CHR 0xA3] @ '')''), IntV 100, StrV ''Advisor charge-out rate''],
      [StrV ''New clients per month'', IntV 4, StrV ''Average new clients'']]"

definition v2_results :: "cell_value list list" where
  "v2_results =
     [[StrV ''Metric'', StrV ''Monthly'', StrV ''Annual'', StrV ''Formula''],
      [StrV ''Software Savings'', StrV ''=B14-B28'', StrV ''=B33*12'', StrV ''Current tools - Plannetic''],
      [StrV ''Hours Saved per Client'', StrV ''=B20*B21'', StrV ''=B34*12'', StrV (''Hours '' @ [CHR 0xC3, CHR 0x97] @ '' automation %'')],
      [StrV ''Clients per Month'', StrV ''=B23'', StrV ''=B35*12'', StrV ''From inputs''],
      [StrV ''Total Hours Saved'', StrV ''=B34*B35'', StrV ''=B36*12'', StrV (''Hours '' @ [CHR 0xC3, CHR 0x97] @ '' clients'')],
      [StrV ''Value of Time Saved'', StrV ''=B36*B22'', StrV ''=B37*12'', StrV (''Hours '' @ [CHR 0xC3, CHR 0x97] @ '' rate'')],
      [StrV '''', StrV '''', StrV '''', StrV ''''],
      [StrV ''TOTAL MONTHLY BENEFIT'', StrV ''=B33+B37'', StrV ''=B39*12'', StrV ''Software + time savings''],
      [StrV ''Plannetic Cost'', StrV ''=B28'', StrV ''=B28*12'', StrV ''Your subscription''],
      [StrV ''NET BENEFIT'', StrV ''=B39-B40'', StrV ''=B41*12'', StrV ''Benefit - cost''],
      [StrV ''ROI %'', StrV ''=B41/B40*100'', StrV ''=C41/C40*100'', StrV ''(Benefit-Cost)/Cost'']]"

definition v2_tier_headers :: "cell_value list" where
  "v2_tier_headers =
     [StrV ''Feature'',
      StrV (''Standard '' @ [CHR 0xC2, CHR 0xA3] @ ''250/mo''),
      StrV (''Professional '' @ [CHR 0xC2, CHR 0xA3] @ ''300/mo''),
      StrV ''Enterprise (Custom)'']"

definition v2_features :: "cell_value list list" where
  "v2_features =
     [[StrV ''CORE FEATURES'', StrV '''', StrV '''', StrV ''''],
      [StrV ''Client Management Hub'', StrV [CHR 0xE2, CHR 0x9C, CHR 0x93], StrV [CHR 0xE2, CHR 0x9C, CHR 0x93], StrV [CHR 0xE2, CHR 0x9C, CHR 0x93]],
      [StrV ''All 6 Assessment Types'', StrV [CHR 0xE2, CHR 0x9C, CHR 0x93], StrV [CHR 0xE2, CHR 0x9C, CHR 0x93], StrV [CHR 0xE2, CHR 0x9C, CHR 0x93]],
      [StrV ''Unlimited Clients'', StrV [CHR 0xE2, CHR 0x9C, CHR 0x93], StrV [CHR 0xE2, CHR 0x9C, CHR 0x93], StrV [CHR 0xE2, CHR 0x9C, CHR 0x93]],
      [StrV ''Document Generation'', StrV [CHR 0xE2, CHR 0x9C, CHR 0x93], StrV [CHR 0xE2, CHR 0x9C, CHR 0x93], StrV [CHR 0xE2, CHR 0x9C, CHR 0x93]],
      [StrV ''E-Signatures'', StrV ''Fair Use'', StrV ''Unlimited'', StrV ''Unlimited''],
      [StrV ''FCA Compliance Registers'', StrV [CHR 0xE2, CHR 0x9C, CHR 0x93], StrV [CHR 0xE2, CHR 0x9C, CHR 0x93], StrV [CHR 0xE2, CHR 0x9C, CHR 0x93]],
      [StrV ''Consumer Duty Workflows'', StrV [CHR 0xE2, CHR 0x9C, CHR 0x93], StrV [CHR 0xE2, CHR 0x9C, CHR 0x93], StrV [CHR 0xE2, CHR 0x9C, CHR 0x93]],
      [StrV '''', StrV '''', StrV '''', StrV ''''],
      [StrV ''PREMIUM FEATURES'', StrV '''', StrV '''', StrV ''''],
      [StrV ''AI Enhancement'', StrV [CHR 0xE2, CHR 0x80, CHR 0x94], StrV [CHR 0xE2, CHR 0x9C, CHR 0x93], StrV [CHR 0xE2, CHR 0x9C, CHR 0x93]],
      [StrV ''Priority Support (4hr SLA)'', StrV [CHR 0xE2, CHR 0x80, CHR 0x94], StrV [CHR 0xE2, CHR 0x9C, CHR 0x93], StrV [CHR 0xE2, CHR 0x9C, CHR 0x93]],
      [StrV ''Phone Support'', StrV [CHR 0xE2, CHR 0x80, CHR 0x94], StrV [CHR 0xE2, CHR 0x9C, CHR 0x93], StrV [CHR 0xE2, CHR 0x9C, CHR 0x93]],
      [StrV ''White-label Client Portal'', StrV [CHR 0xE2, CHR 0x80, CHR 0x94], StrV [CHR 0xE2, CHR 0x9C, CHR 0x93], StrV [CHR 0xE2, CHR 0x9C, CHR 0x93]],
      [StrV ''Advanced Analytics'', StrV [CHR 0xE2, CHR 0x80, CHR 0x94], StrV [CHR 0xE2, CHR 0x9C, CHR 0x93], StrV [CHR 0xE2, CHR 0x9C, CHR 0x93]],
      [StrV ''API Access'', StrV [CHR 0xE2, CHR 0x80, CHR 0x94], StrV [CHR 0xE2, CHR 0x80, CHR 0x94], StrV [CHR 0xE2, CHR 0x9C, CHR 0x93]],
      [StrV ''Custom Integrations'', StrV [CHR 0xE2, CHR 0x80, CHR 0x94], StrV [CHR 0xE2, CHR 0x80, CHR 0x94], StrV [CHR 0xE2, CHR 0x9C, CHR 0x93]],
      [StrV ''Dedicated Account Manager'', StrV [CHR 0xE2, CHR 0x80, CHR 0x94], StrV [CHR 0xE2, CHR 0x80, CHR 0x94], StrV [CHR 0xE2, CHR 0x9C, CHR 0x93]],
      [StrV '''', StrV '''', StrV '''', StrV ''''],
      [StrV ''ONBOARDING'', StrV '''', StrV '''', StrV ''''],
      [StrV ''Data Migration'', StrV ''Self-serve'', StrV ''Assisted'', StrV ''Full Service''],
      [StrV ''Training Sessions'', StrV ''2 calls'', StrV ''4 calls'', StrV ''Unlimited''],
      [StrV '''', StrV '''', StrV '''', StrV ''''],
      [StrV ''CONTRACT'', StrV '''', StrV '''', StrV ''''],
      [StrV ''Minimum Commitment'', StrV ''2 years'', StrV ''2 years'', StrV ''3 years''],
      [StrV ''2-Year TCV'', StrV ''=250*24'', StrV ''=300*24'', StrV ''Custom''],
      [StrV ''3-Year TCV'', StrV ''=250*36'', StrV ''=300*36'', StrV ''Custom'']]"

subsection \<open>Loops and charts\<close>

text \<open>Each loop of the script, named by the sheet variable and the line of its
  \<open>for\<close>; each chart, named by its variable, as a function of the title of the sheet
  its references point into.\<close>

definition v2_ws_summary_L71 :: "sheet \<Rightarrow> error + sheet" where
  "v2_ws_summary_L71 =
     for_enumerate (\<lambda>i text. run_steps [ws_setitem (''A'' @ str_nat i) text,
         ws_item_style (''A'' @ str_nat i) (set_font v2_normal_font)]) 6 v2_summary_text"

definition v2_ws_summary_L80 :: "sheet \<Rightarrow> error + sheet" where
  "v2_ws_summary_L80 =
     write_row (\<lambda>_ col header. assigns
       [set_font v2_header_font, set_fill v2_header_fill, set_alignment
       (Alignment (Some ''center'') None False), set_border v2_thin_border]) 19 1
       v2_pricing_headers"

definition v2_ws_summary_L94 :: "sheet \<Rightarrow> error + sheet" where
  "v2_ws_summary_L94 =
     write_rows (\<lambda>row_idx col_idx value. assigns
       [set_font v2_normal_font, set_border v2_thin_border, set_alignment
       (Alignment (Some ''center'') None False), cond (row_idx mod 2 = 1) (set_fill v2_alt_fill)
       id, cond (col_idx = 2 \<and> is_int value)
       (set_number_format ([CHR 0xC2, CHR 0xA3] @ ''#,##0'')) id, cond
       (col_idx \<in> set [4, 5] \<and> is_str value \<and> startswith (str_of value) ''='')
       (set_number_format ([CHR 0xC2, CHR 0xA3] @ ''#,##0'')) id]) 20 1 v2_pricing_data"

definition v2_ws_summary_L120 :: "sheet \<Rightarrow> error + sheet" where
  "v2_ws_summary_L120 =
     write_rows (\<lambda>row_idx col_idx value. assigns
       [cond (row_idx = 28) (assigns [set_font v2_header_font, set_fill v2_header_fill])
       (assigns [set_font v2_normal_font, cond (row_idx mod 2 = 0) (set_fill v2_alt_fill) id]),
       set_border v2_thin_border, cond (col_idx = 2 \<and> row_idx > 28)
       (assigns [cond (row_idx = 33) (set_number_format ''0.0%'')
       (set_number_format ([CHR 0xC2, CHR 0xA3] @ ''#,##0''))]) id]) 28 1 v2_savings_data"

definition v2_ws_comp_L167 :: "sheet \<Rightarrow> error + sheet" where
  "v2_ws_comp_L167 =
     write_row (\<lambda>_ col header. assigns
       [set_font v2_header_font, set_fill v2_header_fill, set_alignment
       (Alignment (Some ''center'') None False), set_border v2_thin_border]) 6 1 v2_comp_headers"

definition v2_ws_comp_L184 :: "sheet \<Rightarrow> error + sheet" where
  "v2_ws_comp_L184 =
     write_rows (\<lambda>row_idx col_idx value. assigns
       [set_font v2_normal_font, set_border v2_thin_border, cond (col_idx = 2)
       (set_number_format ([CHR 0xC2, CHR 0xA3] @ ''#,##0'')) id, cond (row_idx = 12)
       (assigns [set_fill v2_highlight_fill, set_font
       (Font (Some ''Calibri'') (Some 10) True None)])
       (assigns [cond (row_idx mod 2 = 0) (set_fill v2_alt_fill) id])]) 7 1 v2_competitors"

definition v2_chart1 :: "string \<Rightarrow> chart" where
  "v2_chart1 t =
     assigns
       [set_option ''type'' ''col'',
        set_option ''style'' ''10'',
        set_option ''title'' ''Monthly Software Costs Comparison'',
        set_option ''y_axis.title'' ([CHR 0xC2, CHR 0xA3] @ '' per month''),
        set_option ''x_axis.title'' ''None'',
        add_data (Reference t 2 6 None (Some 12)) True,
        set_categories (Reference t 1 7 None (Some 12)),
        set_option ''shape'' ''4'',
        set_option ''width'' ''15'',
        set_option ''height'' ''10'',
        set_option ''legend'' ''None'']
       (new_chart BarChart)"

definition v2_ws_comp_L224 :: "sheet \<Rightarrow> error + sheet" where
  "v2_ws_comp_L224 =
     write_row (\<lambda>_ col header. assigns
       [set_font v2_header_font, set_fill v2_header_fill, set_alignment
       (Alignment (Some ''center'') None False), set_border v2_thin_border]) 34 1 v2_stack_headers"

definition v2_ws_comp_L241 :: "sheet \<Rightarrow> error + sheet" where
  "v2_ws_comp_L241 =
     write_rows (\<lambda>row_idx col_idx value. assigns
       [set_font v2_normal_font, set_border v2_thin_border, cond (col_idx \<in> set [2, 4])
       (set_number_format ([CHR 0xC2, CHR 0xA3] @ ''#,##0'')) id]) 35 1 v2_stack_data"

definition v2_ws_comp_L255 :: "sheet \<Rightarrow> error + sheet" where
  "v2_ws_comp_L255 =
     for_range (\<lambda>col. ws_cell_style 42 col
       (assigns [set_font (Font (Some ''Calibri'') (Some 10) True None), set_fill v2_highlight_fill,
       set_border v2_thin_border, cond (col \<in> set [2, 4])
       (set_number_format ([CHR 0xC2, CHR 0xA3] @ ''#,##0'')) id])) 1 5"

definition v2_chart2 :: "string \<Rightarrow> chart" where
  "v2_chart2 t =
     assigns
       [set_option ''title'' ''Tool Stack Cost Breakdown'',
        add_data (Reference t 2 35 None (Some 41)) False,
        set_categories (Reference t 1 35 None (Some 41)),
        set_option ''width'' ''12'',
        set_option ''height'' ''10'',
        set_option ''dataLabels'' ''DataLabelList()'',
        set_option ''dataLabels.showPercent'' ''True'',
        set_option ''dataLabels.showVal'' ''False'',
        set_option ''dataLabels.showCatName'' ''False'']
       (new_chart PieChart)"

definition v2_ws_comp_L290 :: "sheet \<Rightarrow> error + sheet" where
  "v2_ws_comp_L290 =
     for_enumerate (\<lambda>i source. run_steps [ws_setitem (''A'' @ str_nat i) source,
         ws_item_style (''A'' @ str_nat i) (set_font v2_small_font)]) 46 v2_sources"

definition v2_ws_calc_L337 :: "sheet \<Rightarrow> error + sheet" where
  "v2_ws_calc_L337 =
     write_row (\<lambda>_ col header. assigns
       [set_font v2_header_font, set_fill v2_header_fill, set_alignment
       (Alignment (Some ''center'') None False), set_border v2_thin_border]) 12 1 v2_calc_headers"

definition v2_ws_calc_L345 :: "sheet \<Rightarrow> error + sheet" where
  "v2_ws_calc_L345 =
     for_enumerate (\<lambda>row_idx firms. run_steps
       [cell_stmt (set_border v2_thin_border) row_idx 1 firms,
         ws_cell_style row_idx 1 (set_alignment (Alignment (Some ''center'') None False)),
         cell_stmt (assigns [set_number_format ([CHR 0xC2, CHR 0xA3] @ ''#,##0''), set_border
           v2_thin_border]) row_idx 2 (StrV (''=A'' @ str_nat row_idx @ ''*$B$5*24'')),
         cell_stmt (assigns [set_number_format ([CHR 0xC2, CHR 0xA3] @ ''#,##0''), set_border
           v2_thin_border]) row_idx 3 (StrV (''=A'' @ str_nat row_idx @ ''*$B$6*24'')),
         cell_stmt (assigns [set_number_format ([CHR 0xC2, CHR 0xA3] @ ''#,##0''), set_border
           v2_thin_border]) row_idx 4 (StrV (''=A'' @ str_nat row_idx @ ''*$B$5*36'')),
         cell_stmt (assigns [set_number_format ([CHR 0xC2, CHR 0xA3] @ ''#,##0''), set_border
           v2_thin_border]) row_idx 5 (StrV (''=A'' @ str_nat row_idx @ ''*$B$6*36'')),
         cell_stmt (assigns [set_number_format ([CHR 0xC2, CHR 0xA3] @ ''#,##0''), set_border
           v2_thin_border, set_fill v2_highlight_fill]) row_idx 6
           (StrV (''=E'' @ str_nat row_idx @ ''-B'' @ str_nat row_idx)),
         cell_stmt (assigns [set_number_format ([CHR 0xC2, CHR 0xA3] @ ''#,##0''), set_border
           v2_thin_border]) row_idx 7 (StrV (''=A'' @ str_nat row_idx @ ''*($B$5+$B$6)/2'')),
         cond (row_idx mod 2 = 0) (for_range (\<lambda>c. run_steps [ws_cell row_idx c None,
               (\<lambda>ws. cond (rgb_at ws (row_idx, c) = [] \<or> rgb_at ws (row_idx, c) =
                 ''00000000'') (ws_cell_style row_idx c (set_fill v2_alt_fill)) Inr ws)]) 1 6) Inr])
                 13 v2_firm_counts"

definition v2_ws_calc_L386 :: "sheet \<Rightarrow> error + sheet" where
  "v2_ws_calc_L386 =
     for_range (\<lambda>col. set_column_width_idx col 16) 1 8"

definition v2_ws_growth_L419 :: "sheet \<Rightarrow> error + sheet" where
  "v2_ws_growth_L419 =
     write_row (\<lambda>_ col header. assigns
       [set_font v2_header_font, set_fill v2_header_fill, set_alignment
       (Alignment (Some ''center'') None False), set_border v2_thin_border]) 10 1
       v2_growth_headers"

definition v2_ws_growth_L427 :: "sheet \<Rightarrow> error + sheet" where
  "v2_ws_growth_L427 =
     for_enumerate (\<lambda>i new_firms.
       (let row = 11 + i in run_steps
       [cell_stmt (set_border v2_thin_border) row 1 (IntV (int (i + 1))),
           cell_stmt (set_border v2_thin_border) row 2 new_firms,
           cond (i = 0) (run_steps [cell_stmt (set_border v2_thin_border) row 3 (IntV 0),
               cell_stmt (set_border v2_thin_border) row 4 (StrV (''=B'' @ str_nat row))])
                 (run_steps [cell_stmt (set_border v2_thin_border) row 3
                 (StrV (''=ROUND(D'' @ str_nat (row - 1) @ ''*$B$6,0)'')),
               cell_stmt (set_border v2_thin_border) row 4
                 (StrV (''=D'' @ str_nat (row - 1) @ ''+B'' @ str_nat row @ ''-C'' @ str_nat
                 row))]),
           cell_stmt (set_border v2_thin_border) row 5 (StrV (''=D'' @ str_nat row @ ''*$B$5'')),
           ws_cell_style row 5 (set_number_format ([CHR 0xC2, CHR 0xA3] @ ''#,##0'')),
           cell_stmt (set_border v2_thin_border) row 6 (StrV (''=E'' @ str_nat row @ ''*12'')),
           ws_cell_style row 6 (set_number_format ([CHR 0xC2, CHR 0xA3] @ ''#,##0'')),
           for_range (\<lambda>col. ws_cell_style row col
             (set_alignment (Alignment (Some ''center'') None False))) 1 7])) 0 v2_conservative_new"

definition v2_ws_growth_L448 :: "sheet \<Rightarrow> error + sheet" where
  "v2_ws_growth_L448 =
     write_row (\<lambda>_ col header. assigns
       [set_font v2_header_font, set_fill v2_header_fill, set_alignment
       (Alignment (Some ''center'') None False), set_border v2_thin_border]) 19 1
       v2_growth_headers"

definition v2_ws_growth_L456 :: "sheet \<Rightarrow> error + sheet" where
  "v2_ws_growth_L456 =
     for_enumerate (\<lambda>i new_firms.
       (let row = 20 + i in run_steps
       [cell_stmt (set_border v2_thin_border) row 1 (IntV (int (i + 1))),
           cell_stmt (set_border v2_thin_border) row 2 new_firms,
           cond (i = 0) (run_steps [cell_stmt (set_border v2_thin_border) row 3 (IntV 0),
               cell_stmt (set_border v2_thin_border) row 4 (StrV (''=B'' @ str_nat row))])
                 (run_steps [cell_stmt (set_border v2_thin_border) row 3
                 (StrV (''=ROUND(D'' @ str_nat (row - 1) @ ''*$B$6,0)'')),
               cell_stmt (set_border v2_thin_border) row 4
                 (StrV (''=D'' @ str_nat (row - 1) @ ''+B'' @ str_nat row @ ''-C'' @ str_nat
                 row))]),
           cell_stmt (set_border v2_thin_border) row 5 (StrV (''=D'' @ str_nat row @ ''*$B$5'')),
           ws_cell_style row 5 (set_number_format ([CHR 0xC2, CHR 0xA3] @ ''#,##0'')),
           cell_stmt (set_border v2_thin_border) row 6 (StrV (''=E'' @ str_nat row @ ''*12'')),
           ws_cell_style row 6 (set_number_format ([CHR 0xC2, CHR 0xA3] @ ''#,##0'')),
           for_range (\<lambda>col. ws_cell_style row col
             (set_alignment (Alignment (Some ''center'') None False))) 1 7])) 0 v2_moderate_new"

definition v2_ws_growth_L477 :: "sheet \<Rightarrow> error + sheet" where
  "v2_ws_growth_L477 =
     write_row (\<lambda>_ col header. assigns
       [set_font v2_header_font, set_fill v2_header_fill, set_alignment
       (Alignment (Some ''center'') None False), set_border v2_thin_border]) 28 1
       v2_growth_headers"

definition v2_ws_growth_L485 :: "sheet \<Rightarrow> error + sheet" where
  "v2_ws_growth_L485 =
     for_enumerate (\<lambda>i new_firms.
       (let row = 29 + i in run_steps
       [cell_stmt (set_border v2_thin_border) row 1 (IntV (int (i + 1))),
           cell_stmt (set_border v2_thin_border) row 2 new_firms,
           cond (i = 0) (run_steps [cell_stmt (set_border v2_thin_border) row 3 (IntV 0),
               cell_stmt (set_border v2_thin_border) row 4 (StrV (''=B'' @ str_nat row))])
                 (run_steps [cell_stmt (set_border v2_thin_border) row 3
                 (StrV (''=ROUND(D'' @ str_nat (row - 1) @ ''*$B$6,0)'')),
               cell_stmt (set_border v2_thin_border) row 4
                 (StrV (''=D'' @ str_nat (row - 1) @ ''+B'' @ str_nat row @ ''-C'' @ str_nat
                 row))]),
           cell_stmt (set_border v2_thin_border) row 5 (StrV (''=D'' @ str_nat row @ ''*$B$5'')),
           ws_cell_style row 5 (set_number_format ([CHR 0xC2, CHR 0xA3] @ ''#,##0'')),
           cell_stmt (set_border v2_thin_border) row 6 (StrV (''=E'' @ str_nat row @ ''*12'')),
           ws_cell_style row 6 (set_number_format ([CHR 0xC2, CHR 0xA3] @ ''#,##0'')),
           for_range (\<lambda>col. ws_cell_style row col
             (set_alignment (Alignment (Some ''center'') None False))) 1 7])) 0 v2_aggressive_new"

definition v2_ws_growth_L507 :: "sheet \<Rightarrow> error + sheet" where
  "v2_ws_growth_L507 =
     write_row (\<lambda>_ col header. assigns
       [set_font v2_header_font, set_fill v2_header_fill, set_border v2_thin_border]) 4 8
       v2_chart_headers"

definition v2_ws_growth_L513 :: "sheet \<Rightarrow> error + sheet" where
  "v2_ws_growth_L513 =
     for_range (\<lambda>i.
       (let row = 5 + i in run_steps
       [cell_stmt (set_border v2_thin_border) row 8 (IntV (int (i + 1))),
           cell_stmt (set_border v2_thin_border) row 9 (StrV (''=F'' @ str_nat (11 + i))),
           ws_cell_style row 9 (set_number_format ([CHR 0xC2, CHR 0xA3] @ ''#,##0'')),
           cell_stmt (set_border v2_thin_border) row 10 (StrV (''=F'' @ str_nat (20 + i))),
           ws_cell_style row 10 (set_number_format ([CHR 0xC2, CHR 0xA3] @ ''#,##0'')),
           cell_stmt (set_border v2_thin_border) row 11 (StrV (''=F'' @ str_nat (29 + i))),
           ws_cell_style row 11 (set_number_format ([CHR 0xC2, CHR 0xA3] @ ''#,##0''))])) 0 5"

definition v2_chart3 :: "string \<Rightarrow> chart" where
  "v2_chart3 t =
     assigns
       [set_option ''title'' ''ARR Growth Projections'',
        set_option ''style'' ''10'',
        set_option ''y_axis.title'' (''Annual Recurring Revenue ('' @ [CHR 0xC2, CHR 0xA3] @ '')''),
        set_option ''x_axis.title'' ''Year'',
        set_option ''y_axis.numFmt'' ([CHR 0xC2, CHR 0xA3] @ ''#,##0''),
        add_data (Reference t 9 4 (Some 11) (Some 9)) True,
        set_categories (Reference t 8 5 None (Some 9)),
        set_option ''width'' ''15'',
        set_option ''height'' ''10'']
       (new_chart LineChart)"

definition v2_ws_growth_L541 :: "sheet \<Rightarrow> error + sheet" where
  "v2_ws_growth_L541 =
     for_range (\<lambda>col. set_column_width_idx col 14) 1 12"

definition v2_ws_roi_L571 :: "sheet \<Rightarrow> error + sheet" where
  "v2_ws_roi_L571 =
     write_rows (\<lambda>row_idx col_idx value. assigns
       [cond (row_idx = 6) (assigns [set_font v2_header_font, set_fill v2_header_fill])
       (assigns [set_font v2_normal_font, cond (col_idx = 2)
       (assigns [set_fill v2_input_fill, set_number_format ([CHR 0xC2, CHR 0xA3] @ ''#,##0'')])
       id]), set_border v2_thin_border]) 6 1 v2_inputs"

definition v2_ws_roi_L607 :: "sheet \<Rightarrow> error + sheet" where
  "v2_ws_roi_L607 =
     write_rows (\<lambda>row_idx col_idx value. assigns
       [cond (row_idx = 19) (assigns [set_font v2_header_font, set_fill v2_header_fill])
       (assigns [set_font v2_normal_font, cond (col_idx = 2)
       (assigns [set_fill v2_input_fill, cond (row_idx = 21) (set_number_format ''0%'')
       (assigns [cond (row_idx = 22) (set_number_format ([CHR 0xC2, CHR 0xA3] @ ''#,##0''))
       id])]) id]), set_border v2_thin_border]) 19 1 v2_time_inputs"

definition v2_ws_roi_L652 :: "sheet \<Rightarrow> error + sheet" where
  "v2_ws_roi_L652 =
     write_rows (\<lambda>row_idx col_idx value. assigns
       [cond (row_idx = 33) (assigns [set_font v2_header_font, set_fill v2_header_fill])
       (assigns [set_font v2_normal_font, cond
       (col_idx \<in> set [2, 3] \<and> truthy value \<and> value \<noteq> StrV '''')
       (assigns [cond (row_idx = 44)
       (set_number_format (''0.0'' @ [CHR 0x22] @ ''%'' @ [CHR 0x22]))
       (assigns [cond (row_idx \<in> set [35, 36, 37]) (set_number_format ''0.0'')
       (set_number_format ([CHR 0xC2, CHR 0xA3] @ ''#,##0''))])]) id]), set_border
       v2_thin_border, cond (row_idx \<in> set [39, 41, 43, 44])
       (assigns [set_fill v2_highlight_fill, set_font
       (Font (Some ''Calibri'') (Some 10) True None)]) id]) 33 1 v2_results"

definition v2_chart4 :: "string \<Rightarrow> chart" where
  "v2_chart4 t =
     assigns
       [set_option ''type'' ''col'',
        set_option ''style'' ''10'',
        set_option ''title'' ''Monthly Savings Breakdown'',
        add_data (Reference t 7 33 None (Some 35)) True,
        set_categories (Reference t 6 34 None (Some 35)),
        set_option ''width'' ''10'',
        set_option ''height'' ''8'',
        set_option ''legend'' ''None'']
       (new_chart BarChart)"

definition v2_ws_tiers_L716 :: "sheet \<Rightarrow> error + sheet" where
  "v2_ws_tiers_L716 =
     write_row (\<lambda>_ col header. assigns
       [set_font v2_header_font, set_fill v2_header_fill, set_alignment
       (Alignment (Some ''center'') None False), set_border v2_thin_border]) 3 1 v2_tier_headers"

definition v2_ws_tiers_L753 :: "sheet \<Rightarrow> error + sheet" where
  "v2_ws_tiers_L753 =
     write_rows (\<lambda>row_idx col_idx value. assigns
       [set_border v2_thin_border, set_alignment
       (Alignment (Some (if col_idx > 1 then ''center'' else ''left'')) None False), cond
       (value \<in> set [StrV ''CORE FEATURES'', StrV ''PREMIUM FEATURES'', StrV ''ONBOARDING'',
       StrV ''CONTRACT'']) (assigns [set_font v2_section_font, set_fill v2_blue_fill])
       (assigns [cond (value = StrV [CHR 0xE2, CHR 0x9C, CHR 0x93])
       (set_font (Font (Some ''Calibri'') (Some 10) True (Some ''059669'')))
       (assigns [cond (value = StrV [CHR 0xE2, CHR 0x80, CHR 0x94])
       (set_font (Font (Some ''Calibri'') (Some 10) False (Some ''9CA3AF'')))
       (set_font v2_normal_font)])]), cond
       (row_idx \<in> set [29, 30] \<and> col_idx \<in> set [2, 3])
       (set_number_format ([CHR 0xC2, CHR 0xA3] @ ''#,##0'')) id]) 4 1
       v2_features"

subsection \<open>Sheets and the script\<close>

definition v2_ws_summary :: "sheet \<Rightarrow> error + sheet" where
  "v2_ws_summary =
     run_steps
       [ws_setitem ''A1'' (StrV ''PLANNETIC PRICING ANALYSIS''),
        ws_item_style ''A1'' (set_font v2_title_font),
        merge_cells ''A1:F1'',
        ws_setitem ''A2'' (StrV ''Verified December 2025''),
        ws_item_style ''A2'' (set_font v2_small_font),
        ws_setitem ''A4'' (StrV ''What is Plannetic?''),
        ws_item_style ''A4'' (set_font v2_subheader_font),
        v2_ws_summary_L71,
        ws_setitem ''A17'' (StrV ''Recommended Pricing Tiers''),
        ws_item_style ''A17'' (set_font v2_subheader_font),
        v2_ws_summary_L80,
        v2_ws_summary_L94,
        ws_setitem ''A26'' (StrV ''Monthly Savings Analysis''),
        ws_item_style ''A26'' (set_font v2_subheader_font),
        v2_ws_summary_L120,
        ws_item_style ''A32'' (set_fill v2_highlight_fill),
        ws_item_style ''B32'' (set_fill v2_highlight_fill),
        ws_item_style ''C32'' (set_fill v2_highlight_fill),
        set_column_width ''A'' 25,
        set_column_width ''B'' 15,
        set_column_width ''C'' 22,
        set_column_width ''D'' 15,
        set_column_width ''E'' 15,
        set_column_width ''F'' 28]"

definition v2_ws_comp :: "sheet \<Rightarrow> error + sheet" where
  "v2_ws_comp =
     run_steps
       [ws_setitem ''A1'' (StrV ''COMPETITOR PRICING ANALYSIS''),
        ws_item_style ''A1'' (set_font v2_title_font),
        merge_cells ''A1:E1'',
        ws_setitem ''A2'' (StrV ''Verified December 2025 - Sources linked below''),
        ws_item_style ''A2'' (set_font v2_small_font),
        ws_setitem ''A4'' (StrV ''UK IFA Software Market - Verified Pricing''),
        ws_item_style ''A4'' (set_font v2_subheader_font),
        v2_ws_comp_L167,
        v2_ws_comp_L184,
        (\<lambda>ws. add_chart (v2_chart1 (sh_title ws)) ''A15'' ws),
        ws_setitem ''A32'' (StrV ''Typical IFA Tool Stack vs Plannetic''),
        ws_item_style ''A32'' (set_font v2_subheader_font),
        v2_ws_comp_L224,
        v2_ws_comp_L241,
        ws_setitem ''A42'' (StrV ''TOTAL''),
        ws_setitem ''B42'' (StrV ''=SUM(B35:B41)''),
        ws_setitem ''C42'' (StrV ([CHR 0xC2, CHR 0xA3] @ ''250/mo'')),
        ws_setitem ''D42'' (StrV ''=B42-250''),
        v2_ws_comp_L255,
        (\<lambda>ws. add_chart (v2_chart2 (sh_title ws)) ''F32'' ws),
        ws_setitem ''A45'' (StrV ''Sources:''),
        ws_item_style ''A45'' (set_font v2_section_font),
        v2_ws_comp_L290,
        set_column_width ''A'' 22,
        set_column_width ''B'' 15,
        set_column_width ''C'' 18,
        set_column_width ''D'' 12,
        set_column_width ''E'' 18]"

definition v2_ws_calc :: "sheet \<Rightarrow> error + sheet" where
  "v2_ws_calc =
     run_steps
       [ws_setitem ''A1'' (StrV ''REVENUE CALCULATOR''),
        ws_item_style ''A1'' (set_font v2_title_font),
        merge_cells ''A1:G1'',
        ws_setitem ''A3'' (StrV ''INPUT PARAMETERS (Edit yellow cells)''),
        ws_item_style ''A3'' (set_font v2_subheader_font),
        ws_setitem ''A5'' (StrV (''Standard Monthly Rate ('' @ [CHR 0xC2, CHR 0xA3] @ '')'')),
        ws_setitem ''B5'' (IntV 250),
        ws_item_style ''B5'' (set_number_format ([CHR 0xC2, CHR 0xA3] @ ''#,##0'')),
        ws_item_style ''B5'' (set_fill v2_input_fill),
        ws_item_style ''B5'' (set_border v2_thin_border),
        ws_setitem ''A6'' (StrV (''Professional Monthly Rate ('' @ [CHR 0xC2, CHR 0xA3] @ '')'')),
        ws_setitem ''B6'' (IntV 300),
        ws_item_style ''B6'' (set_number_format ([CHR 0xC2, CHR 0xA3] @ ''#,##0'')),
        ws_item_style ''B6'' (set_fill v2_input_fill),
        ws_item_style ''B6'' (set_border v2_thin_border),
        ws_setitem ''A7'' (StrV (''Monthly Rate (no commitment) ('' @ [CHR 0xC2, CHR 0xA3] @ '')'')),
        ws_setitem ''B7'' (IntV 350),
        ws_item_style ''B7'' (set_number_format ([CHR 0xC2, CHR 0xA3] @ ''#,##0'')),
        ws_item_style ''B7'' (set_fill v2_input_fill),
        ws_item_style ''B7'' (set_border v2_thin_border),
        ws_setitem ''A10'' (StrV ''REVENUE BY NUMBER OF FIRMS''),
        ws_item_style ''A10'' (set_font v2_subheader_font),
        v2_ws_calc_L337,
        v2_ws_calc_L345,
        v2_ws_calc_L386]"

definition v2_ws_growth :: "sheet \<Rightarrow> error + sheet" where
  "v2_ws_growth =
     run_steps
       [ws_setitem ''A1'' (StrV ''GROWTH PROJECTIONS''),
        ws_item_style ''A1'' (set_font v2_title_font),
        merge_cells ''A1:F1'',
        ws_setitem ''A3'' (StrV ''SCENARIO INPUTS (Edit yellow cells)''),
        ws_item_style ''A3'' (set_font v2_subheader_font),
        ws_setitem ''A5'' (StrV (''Monthly Rate ('' @ [CHR 0xC2, CHR 0xA3] @ '')'')),
        ws_setitem ''B5'' (IntV 250),
        ws_item_style ''B5'' (set_number_format ([CHR 0xC2, CHR 0xA3] @ ''#,##0'')),
        ws_item_style ''B5'' (set_fill v2_input_fill),
        ws_item_style ''B5'' (set_border v2_thin_border),
        ws_setitem ''A6'' (StrV ''Annual Churn Rate (%)''),
        ws_setitem ''B6'' (FloatV ''0.05''),
        ws_item_style ''B6'' (set_number_format ''0%''),
        ws_item_style ''B6'' (set_fill v2_input_fill),
        ws_item_style ''B6'' (set_border v2_thin_border),
        ws_setitem ''A9'' (StrV ''CONSERVATIVE (10 new firms/year)''),
        ws_item_style ''A9'' (set_font v2_section_font),
        v2_ws_growth_L419,
        v2_ws_growth_L427,
        ws_setitem ''A18'' (StrV ''MODERATE (25 new firms/year)''),
        ws_item_style ''A18'' (set_font v2_section_font),
        v2_ws_growth_L448,
        v2_ws_growth_L456,
        ws_setitem ''A27'' (StrV ''AGGRESSIVE (50 new firms/year)''),
        ws_item_style ''A27'' (set_font v2_section_font),
        v2_ws_growth_L477,
        v2_ws_growth_L485,
        ws_setitem ''H3'' (StrV ''ARR Comparison (for chart)''),
        ws_item_style ''H3'' (set_font v2_section_font),
        v2_ws_growth_L507,
        v2_ws_growth_L513,
        (\<lambda>ws. add_chart (v2_chart3 (sh_title ws)) ''H12'' ws),
        v2_ws_growth_L541]"

definition v2_ws_roi :: "sheet \<Rightarrow> error + sheet" where
  "v2_ws_roi =
     run_steps
       [ws_setitem ''A1'' (StrV ''CLIENT ROI CALCULATOR''),
        ws_item_style ''A1'' (set_font v2_title_font),
        merge_cells ''A1:D1'',
        ws_setitem ''A2'' (StrV ''Calculate the ROI for your prospective clients''),
        ws_item_style ''A2'' (set_font v2_small_font),
        ws_setitem ''A4'' (StrV ''CURRENT TOOL COSTS (Edit yellow cells)''),
        ws_item_style ''A4'' (set_font v2_subheader_font),
        v2_ws_roi_L571,
        ws_setitem ''A14'' (StrV ''TOTAL CURRENT MONTHLY COST''),
        ws_item_style ''A14'' (set_font (Font (Some ''Calibri'') (Some 10) True None)),
        ws_setitem ''B14'' (StrV ''=SUM(B7:B13)''),
        ws_item_style ''B14'' (set_number_format ([CHR 0xC2, CHR 0xA3] @ ''#,##0'')),
        ws_item_style ''B14'' (set_font (Font (Some ''Calibri'') (Some 10) True None)),
        ws_item_style ''A14'' (set_fill v2_blue_fill),
        ws_item_style ''B14'' (set_fill v2_blue_fill),
        ws_item_style ''A14'' (set_border v2_thin_border),
        ws_item_style ''B14'' (set_border v2_thin_border),
        ws_setitem ''A17'' (StrV ''TIME SAVINGS (Edit yellow cells)''),
        ws_item_style ''A17'' (set_font v2_subheader_font),
        v2_ws_roi_L607,
        ws_setitem ''A26'' (StrV ''PLANNETIC COST''),
        ws_item_style ''A26'' (set_font v2_subheader_font),
        ws_setitem ''A28'' (StrV ''Plannetic Monthly Cost''),
        ws_setitem ''B28'' (IntV 250),
        ws_item_style ''B28'' (set_number_format ([CHR 0xC2, CHR 0xA3] @ ''#,##0'')),
        ws_item_style ''B28'' (set_fill v2_input_fill),
        ws_item_style ''B28'' (set_border v2_thin_border),
        ws_item_style ''A28'' (set_border v2_thin_border),
        ws_setitem ''A31'' (StrV ''ROI ANALYSIS''),
        ws_item_style ''A31'' (set_font v2_subheader_font),
        v2_ws_roi_L652,
        ws_setitem ''F33'' (StrV ''Category''),
        ws_setitem ''G33'' (StrV ''Value''),
        ws_setitem ''F34'' (StrV ''Software Savings''),
        ws_setitem ''G34'' (StrV ''=B33''),
        ws_setitem ''F35'' (StrV ''Time Value Saved''),
        ws_setitem ''G35'' (StrV ''=B37''),
        ws_item_style ''G34'' (set_number_format ([CHR 0xC2, CHR 0xA3] @ ''#,##0'')),
        ws_item_style ''G35'' (set_number_format ([CHR 0xC2, CHR 0xA3] @ ''#,##0'')),
        (\<lambda>ws. add_chart (v2_chart4 (sh_title ws)) ''E17'' ws),
        set_column_width ''A'' 32,
        set_column_width ''B'' 15,
        set_column_width ''C'' 15,
        set_column_width ''D'' 25]"

definition v2_ws_tiers :: "sheet \<Rightarrow> error + sheet" where
  "v2_ws_tiers =
     run_steps
       [ws_setitem ''A1'' (StrV ''PLANNETIC PRICING TIERS''),
        ws_item_style ''A1'' (set_font v2_title_font),
        merge_cells ''A1:D1'',
        v2_ws_tiers_L716,
        v2_ws_tiers_L753,
        set_column_width ''A'' 28,
        set_column_width ''B'' 20,
        set_column_width ''C'' 20,
        set_column_width ''D'' 20]"

definition v2_output_path :: string where
  "v2_output_path = ''/Users/adeomosanya/Downloads/Plannetic-Pricing-Analysis-v2.xlsx''"

definition v2_build :: "error + workbook" where
  "v2_build =
     run_steps
       [set_title active ''Summary'',
        on_sheet active v2_ws_summary,
        with_new_sheet ''Competitor Pricing'' (\<lambda>ws_comp. on_sheet ws_comp v2_ws_comp),
        with_new_sheet ''Revenue Calculator'' (\<lambda>ws_calc. on_sheet ws_calc v2_ws_calc),
        with_new_sheet ''Growth Projections'' (\<lambda>ws_growth. on_sheet ws_growth v2_ws_growth),
        with_new_sheet ''ROI Calculator'' (\<lambda>ws_roi. on_sheet ws_roi v2_ws_roi),
        with_new_sheet ''Tier Comparison'' (\<lambda>ws_tiers. on_sheet ws_tiers v2_ws_tiers)]
       Workbook"

definition v2_main :: "proc_env \<Rightarrow> error + workbook" where
  "v2_main env =
     (case import_openpyxl env of
        Inl e \<Rightarrow> Inl e
      | Inr _ \<Rightarrow> (case v2_build of Inl e \<Rightarrow> Inl e | Inr wb \<Rightarrow> save env v2_output_path wb))"

section \<open>The pricing workbook, version 3 (create-pricing-excel-v3.py)\<close>

subsection \<open>Styles and literal tables\<close>

definition v3_title_font :: font where
  "v3_title_font = Font (Some ''Calibri'') (Some 20) True (Some ''1E40AF'')"

definition v3_header_font :: font where
  "v3_header_font = Font (Some ''Calibri'') (Some 11) True (Some ''FFFFFF'')"

definition v3_subheader_font :: font where
  "v3_subheader_font = Font (Some ''Calibri'') (Some 13) True (Some ''1E40AF'')"

definition v3_section_font :: font where
  "v3_section_font = Font (Some ''Calibri'') (Some 11) True (Some ''374151'')"

definition v3_normal_font :: font where
  "v3_normal_font = Font (Some ''Calibri'') (Some 10) False None"

definition v3_small_font :: font where
  "v3_small_font = Font (Some ''Calibri'') (Some 9) False (Some ''6B7280'')"

definition v3_header_fill :: pattern_fill where
  "v3_header_fill = PatternFill ''1E40AF'' ''1E40AF'' ''solid''"

definition v3_alt_fill :: pattern_fill where
  "v3_alt_fill = PatternFill ''F3F4F6'' ''F3F4F6'' ''solid''"

definition v3_highlight_fill :: pattern_fill where
  "v3_highlight_fill = PatternFill ''DCFCE7'' ''DCFCE7'' ''solid''"

definition v3_input_fill :: pattern_fill where
  "v3_input_fill = PatternFill ''FEF3C7'' ''FEF3C7'' ''solid''"

definition v3_blue_fill :: pattern_fill where
  "v3_blue_fill = PatternFill ''DBEAFE'' ''DBEAFE'' ''solid''"

definition v3_green_fill :: pattern_fill where
  "v3_green_fill = PatternFill ''D1FAE5'' ''D1FAE5'' ''solid''"

definition v3_thin_border :: border where
  "v3_thin_border = Border (Side (Some ''thin'') (Some ''D1D5DB'')) (Side (Some ''thin'') (Some ''D1D5DB'')) (Side (Some ''thin'') (Some ''D1D5DB'')) (Side (Some ''thin'') (Some ''D1D5DB''))"

definition v3_summary_text :: "cell_value list" where
  "v3_summary_text =
     [StrV ''Plannetic is a comprehensive, compliance-focused financial advisory platform'',
      StrV ''designed specifically for UK-regulated Independent Financial Advisors (IFAs).'',
      StrV '''',
      StrV ''Key Value Proposition:'',
      StrV ([CHR 0xE2, CHR 0x80, CHR 0xA2] @ '' Replaces 5-7 separate tools with one integrated platform''),
      StrV ([CHR 0xE2, CHR 0x80, CHR 0xA2] @ '' Saves IFAs '' @ [CHR 0xC2, CHR 0xA3] @ ''280+/month vs competitor tool stack ('' @ [CHR 0xC2, CHR 0xA3] @ ''530 '' @ [CHR 0xE2, CHR 0x86, CHR 0x92] @ '' '' @ [CHR 0xC2, CHR 0xA3] @ ''250)''),
      StrV ([CHR 0xE2, CHR 0x80, CHR 0xA2] @ '' Saves 10-20 hours per client onboarding''),
      StrV ([CHR 0xE2, CHR 0x80, CHR 0xA2] @ '' Built-in FCA compliance and Consumer Duty workflows'')]"

definition v3_cost_headers :: "cell_value list" where
  "v3_cost_headers =
     [StrV ''Category'',
      StrV (''Cost ('' @ [CHR 0xC2, CHR 0xA3] @ ''/mo)'')]"

definition v3_cost_data :: "cell_value list list" where
  "v3_cost_data =
     [[StrV ''Competitor Stack'', IntV 530],
      [StrV ''Plannetic Standard'', IntV 250],
      [StrV ''Plannetic Professional'', IntV 300],
      [StrV ''Monthly Savings'', IntV 280]]"

definition v3_pricing_headers :: "cell_value list" where
  "v3_pricing_headers =
     [StrV ''Tier'',
      StrV ''Monthly'',
      StrV ''Commitment'',
      StrV ''2-Year TCV'',
      StrV ''3-Year TCV'',
      StrV ''Best For'']"

definition v3_pricing_data :: "cell_value list list" where
  "v3_pricing_data =
     [[StrV ''Monthly'', IntV 350, StrV ''Month-to-month'', StrV ''=B28*24'', StrV ''=B28*36'', StrV ''Trial/uncertain firms''],
      [StrV ''Standard'', IntV 250, StrV ''2-year'', StrV ''=B29*24'', StrV ''=B29*36'', StrV ''Solo advisors, small firms''],
      [StrV ''Professional'', IntV 300, StrV ''2-year'', StrV ''=B30*24'', StrV ''=B30*36'', StrV ''Growing firms, AI + support''],
      [StrV ''Enterprise'', StrV ''Custom'', StrV ''3-year'', StrV ''Custom'', StrV ''Custom'', StrV ''5+ advisors, white-label'']]"

definition v3_comp_headers :: "cell_value list" where
  "v3_comp_headers =
     [StrV ''Software'',
      StrV ''Monthly Price'',
      StrV ''Price Type'',
      StrV ''What They Offer'',
      StrV ''Source'']"

definition v3_competitors :: "cell_value list list" where
  "v3_competitors =
     [[StrV ''Intelliflo Office'', IntV 132, StrV ''Per user'', StrV ''Back office + cashflow'', StrV ''TrustRadius''],
      [StrV ''Voyant AdviserGo'', IntV 175, StrV ''Flat fee'', StrV ''Cash flow planning'', StrV ''voyant.com''],
      [StrV ''Timeline'', IntV 162, StrV ''Flat (+VAT)'', StrV ''Monte Carlo simulations'', StrV ''timeline.co''],
      [StrV ''FE CashCalc'', IntV 90, StrV ''Per adviser (+VAT)'', StrV ''Cash flow modelling'', StrV ''advisoryai.com''],
      [StrV ''Dynamic Planner'', IntV 200, StrV ''Estimated'', StrV ''Risk profiling + reports'', StrV ''Contact required''],
      [StrV ''Plannetic Standard'', IntV 250, StrV ''Flat fee'', StrV ''ALL-IN-ONE PLATFORM'', StrV ''Your price'']]"

definition v3_stack_headers :: "cell_value list" where
  "v3_stack_headers =
     [StrV ''Tool Category'',
      StrV ''Standalone Cost'',
      StrV ''Plannetic'',
      StrV ''Savings'']"

definition v3_stack_data :: "cell_value list list" where
  "v3_stack_data =
     [[StrV ''CRM (generic)'', IntV 50, StrV ''Included'', StrV ''=B35''],
      [StrV ''Risk Profiling'', IntV 50, StrV ''Included'', StrV ''=B36''],
      [StrV ''Cash Flow (Voyant)'', IntV 175, StrV ''Included'', StrV ''=B37''],
      [StrV ''Monte Carlo (Timeline)'', IntV 162, StrV ''Included'', StrV ''=B38''],
      [StrV ''Document Generation'', IntV 50, StrV ''Included'', StrV ''=B39''],
      [StrV ''E-Signatures'', IntV 23, StrV ''Included'', StrV ''=B40''],
      [StrV ''Compliance Tracking'', IntV 50, StrV ''Included'', StrV ''=B41'']]"

definition v3_sources :: "cell_value list" where
  "v3_sources =
     [StrV ([CHR 0xE2, CHR 0x80, CHR 0xA2] @ '' Voyant: planwithvoyant.com/uk/pricing''),
      StrV ([CHR 0xE2, CHR 0x80, CHR 0xA2] @ '' Timeline: timeline.co ('' @ [CHR 0xC2, CHR 0xA3] @ ''135+VAT = '' @ [CHR 0xC2, CHR 0xA3] @ ''162)''),
      StrV ([CHR 0xE2, CHR 0x80, CHR 0xA2] @ '' CashCalc: advisoryai.com ('' @ [CHR 0xC2, CHR 0xA3] @ ''75+VAT = '' @ [CHR 0xC2, CHR 0xA3] @ ''90)''),
      StrV ([CHR 0xE2, CHR 0x80, CHR 0xA2] @ '' Intelliflo: trustradius.com ('' @ [CHR 0xC2, CHR 0xA3] @ ''130-135/user)'')]"

definition v3_calc_headers :: "cell_value list" where
  "v3_calc_headers =
     [StrV ''# Firms'',
      StrV ([CHR 0xC2, CHR 0xA3] @ ''250/mo (2yr)''),
      StrV ([CHR 0xC2, CHR 0xA3] @ ''300/mo (2yr)''),
      StrV ([CHR 0xC2, CHR 0xA3] @ ''250/mo (3yr)''),
      StrV ([CHR 0xC2, CHR 0xA3] @ ''300/mo (3yr)''),
      StrV ''Difference'',
      StrV ''Avg MRR'']"

definition v3_firm_counts :: "cell_value list" where
  "v3_firm_counts =
     [IntV 1,
      IntV 2,
      IntV 3,
      IntV 4,
      IntV 5,
      IntV 10,
      IntV 15,
      IntV 20,
      IntV 25,
      IntV 50,
      IntV 75,
      IntV 100,
      IntV 150,
      IntV 200,
      IntV 250,
      IntV 300]"

definition v3_chart_data_headers :: "cell_value list" where
  "v3_chart_data_headers =
     [StrV ''Firms'',
      StrV (''2yr @ '' @ [CHR 0xC2, CHR 0xA3] @ ''250''),
      StrV (''3yr @ '' @ [CHR 0xC2, CHR 0xA3] @ ''300'')]"

definition v3_milestones :: "cell_value list list" where
  "v3_milestones =
     [[IntV 10, IntV 17],
      [IntV 25, IntV 20],
      [IntV 50, IntV 21],
      [IntV 100, IntV 24]]"

definition v3_growth_headers :: "cell_value list" where
  "v3_growth_headers =
     [StrV ''Year'',
      StrV ''New Firms'',
      StrV ''Churn'',
      StrV ''Total Firms'',
      StrV ''MRR'',
      StrV ''ARR'']"

definition v3_conservative_new :: "cell_value list" where
  "v3_conservative_new =
     [IntV 10,
      IntV 10,
      IntV 15,
      IntV 20,
      IntV 25]"

definition v3_moderate_new :: "cell_value list" where
  "v3_moderate_new =
     [IntV 25,
      IntV 35,
      IntV 45,
      IntV 60,
      IntV 75]"

definition v3_aggressive_new :: "cell_value list" where
  "v3_aggressive_new =
     [IntV 50,
      IntV 70,
      IntV 100,
      IntV 130,
      IntV 150]"

definition v3_chart_headers :: "cell_value list" where
  "v3_chart_headers =
     [StrV ''Year'',
      StrV ''Conservative'',
      StrV ''Moderate'',
      StrV ''Aggressive'']"

definition v3_inputs :: "cell_value list list" where
  "v3_inputs =
     [[StrV ''Tool'', StrV ''Monthly Cost'', StrV ''Notes''],
      [StrV ''CRM (generic)'', IntV 50, StrV ''Salesforce/HubSpot equivalent''],
      [StrV ''Risk Profiling Tool'', IntV 50, StrV ''Dynamic Planner element''],
      [StrV ''Cash Flow (Voyant)'', IntV 175, StrV ''Verified Dec 2025''],
      [StrV ''Monte Carlo (Timeline)'', IntV 162, StrV (''Verified Dec 2025 ('' @ [CHR 0xC2, CHR 0xA3] @ ''135+VAT)'')],
      [StrV ''Document Generation'', IntV 50, StrV ''Word templates/Templafy''],
      [StrV ''E-Signatures'', IntV 23, StrV ''DocuSign/Adobe Sign''],
      [StrV ''Compliance Tracking'', IntV 50, StrV ''Manual/specialist tool'']]"

definition v3_time_inputs :: "cell_value list list" where
  "v3_time_inputs =
     [[StrV ''Metric'', StrV ''Value'', StrV ''Notes''],
      [StrV ''Hours per client onboarding (current)'', IntV 15, StrV ''Manual process''],
      [StrV ''Time saved with Plannetic (%)'', FloatV ''0.6'', StrV ''60% automation''],
      [StrV (''Your hourly rate ('' @ [CHR 0xC2, CHR 0xA3] @ '')''), IntV 100, StrV ''Advisor charge-out rate''],
      [StrV ''New clients per month'', IntV 4, StrV ''Average new clients'']]"

definition v3_results :: "cell_value list list" where
  "v3_results =
     [[StrV ''Metric'', StrV ''Monthly'', StrV ''Annual''],
      [StrV ''Software Savings'', StrV ''=B14-B28'', StrV ''=B33*12''],
      [StrV ''Hours Saved per Client'', StrV ''=B20*B21'', StrV ''''],
      [StrV ''Total Hours Saved (all clients)'', StrV ''=B34*B23'', StrV ''=B35*12''],
      [StrV ''Value of Time Saved'', StrV ''=B35*B22'', StrV ''=B36*12''],
      [StrV '''', StrV '''', StrV ''''],
      [StrV ''TOTAL BENEFIT'', StrV ''=B33+B36'', StrV ''=B38*12''],
      [StrV ''Plannetic Cost'', StrV ''=B28'', StrV ''=B28*12''],
      [StrV ''NET BENEFIT'', StrV ''=B38-B39'', StrV ''=B40*12''],
      [StrV ''ROI %'', StrV ''=(B40/B39)*100'', StrV '''']]"

definition v3_tier_headers :: "cell_value list" where
  "v3_tier_headers =
     [StrV ''Feature'',
      StrV (''Standard '' @ [CHR 0xC2, CHR 0xA3] @ ''250/mo''),
      StrV (''Professional '' @ [CHR 0xC2, CHR 0xA3] @ ''300/mo''),
      StrV ''Enterprise (Custom)'']"

definition v3_features :: "cell_value list list" where
  "v3_features =
     [[StrV ''CORE FEATURES'', StrV '''', StrV '''', StrV ''''],
      [StrV ''Client Management Hub'', StrV [CHR 0xE2, CHR 0x9C, CHR 0x93], StrV [CHR 0xE2, CHR 0x9C, CHR 0x93], StrV [CHR 0xE2, CHR 0x9C, CHR 0x93]],
      [StrV ''All 6 Assessment Types'', StrV [CHR 0xE2, CHR 0x9C, CHR 0x93], StrV [CHR 0xE2, CHR 0x9C, CHR 0x93], StrV [CHR 0xE2, CHR 0x9C, CHR 0x93]],
      [StrV ''Unlimited Clients'', StrV [CHR 0xE2, CHR 0x9C, CHR 0x93], StrV [CHR 0xE2, CHR 0x9C, CHR 0x93], StrV [CHR 0xE2, CHR 0x9C, CHR 0x93]],
      [StrV ''Document Generation'', StrV [CHR 0xE2, CHR 0x9C, CHR 0x93], StrV [CHR 0xE2, CHR 0x9C, CHR 0x93], StrV [CHR 0xE2, CHR 0x9C, CHR 0x93]],
      [StrV ''E-Signatures'', StrV ''Fair Use'', StrV ''Unlimited'', StrV ''Unlimited''],
      [StrV ''FCA Compliance Registers'', StrV [CHR 0xE2, CHR 0x9C, CHR 0x93], StrV [CHR 0xE2, CHR 0x9C, CHR 0x93], StrV [CHR 0xE2, CHR 0x9C, CHR 0x93]],
      [StrV ''Consumer Duty Workflows'', StrV [CHR 0xE2, CHR 0x9C, CHR 0x93], StrV [CHR 0xE2, CHR 0x9C, CHR 0x93], StrV [CHR 0xE2, CHR 0x9C, CHR 0x93]],
      [StrV '''', StrV '''', StrV '''', StrV ''''],
      [StrV ''PREMIUM FEATURES'', StrV '''', StrV '''', StrV ''''],
      [StrV ''AI Enhancement'', StrV [CHR 0xE2, CHR 0x80, CHR 0x94], StrV [CHR 0xE2, CHR 0x9C, CHR 0x93], StrV [CHR 0xE2, CHR 0x9C, CHR 0x93]],
      [StrV ''Priority Support (4hr SLA)'', StrV [CHR 0xE2, CHR 0x80, CHR 0x94], StrV [CHR 0xE2, CHR 0x9C, CHR 0x93], StrV [CHR 0xE2, CHR 0x9C, CHR 0x93]],
      [StrV ''Phone Support'', StrV [CHR 0xE2, CHR 0x80, CHR 0x94], StrV [CHR 0xE2, CHR 0x9C, CHR 0x93], StrV [CHR 0xE2, CHR 0x9C, CHR 0x93]],
      [StrV ''White-label Client Portal'', StrV [CHR 0xE2, CHR 0x80, CHR 0x94], StrV [CHR 0xE2, CHR 0x9C, CHR 0x93], StrV [CHR 0xE2, CHR 0x9C, CHR 0x93]],
      [StrV ''Advanced Analytics'', StrV [CHR 0xE2, CHR 0x80, CHR 0x94], StrV [CHR 0xE2, CHR 0x9C, CHR 0x93], StrV [CHR 0xE2, CHR 0x9C, CHR 0x93]],
      [StrV ''API Access'', StrV [CHR 0xE2, CHR 0x80, CHR 0x94], StrV [CHR 0xE2, CHR 0x80, CHR 0x94], StrV [CHR 0xE2, CHR 0x9C, CHR 0x93]],
      [StrV ''Custom Integrations'', StrV [CHR 0xE2, CHR 0x80, CHR 0x94], StrV [CHR 0xE2, CHR 0x80, CHR 0x94], StrV [CHR 0xE2, CHR 0x9C, CHR 0x93]],
      [StrV ''Dedicated Account Manager'', StrV [CHR 0xE2, CHR 0x80, CHR 0x94], StrV [CHR 0xE2, CHR 0x80, CHR 0x94], StrV [CHR 0xE2, CHR 0x9C, CHR 0x93]],
      [StrV '''', StrV '''', StrV '''', StrV ''''],
      [StrV ''ONBOARDING'', StrV '''', StrV '''', StrV ''''],
      [StrV ''Data Migration'', StrV ''Self-serve'', StrV ''Assisted'', StrV ''Full Service''],
      [StrV ''Training Sessions'', StrV ''2 calls'', StrV ''4 calls'', StrV ''Unlimited''],
      [StrV '''', StrV '''', StrV '''', StrV ''''],
      [StrV ''CONTRACT'', StrV '''', StrV '''', StrV ''''],
      [StrV ''Minimum Commitment'', StrV ''2 years'', StrV ''2 years'', StrV ''3 years''],
      [StrV ''2-Year TCV'', StrV ''=250*24'', StrV ''=300*24'', StrV ''Custom''],
      [StrV ''3-Year TCV'', StrV ''=250*36'', StrV ''=300*36'', StrV ''Custom'']]"

subsection \<open>Loops and charts\<close>

text \<open>Each loop of the script, named by the sheet variable and the line of its
  \<open>for\<close>; each chart, named by its variable, as a function of the title of the sheet
  its references point into.\<close>

definition v3_ws_summary_L68 :: "sheet \<Rightarrow> error + sheet" where
  "v3_ws_summary_L68 =
     for_enumerate (\<lambda>i text. run_steps [ws_setitem (''A'' @ str_nat i) text,
         ws_item_style (''A'' @ str_nat i) (set_font v3_normal_font)]) 6 v3_summary_text"

definition v3_ws_summary_L77 :: "sheet \<Rightarrow> error + sheet" where
  "v3_ws_summary_L77 =
     write_row (\<lambda>_ col header. assigns
       [set_font v3_header_font, set_fill v3_header_fill, set_border v3_thin_border]) 18 1
       v3_cost_headers"

definition v3_ws_summary_L90 :: "sheet \<Rightarrow> error + sheet" where
  "v3_ws_summary_L90 =
     for_enumerate (\<lambda>row_idx entry. case entry of [label, value] \<Rightarrow>
       (run_steps [cell_stmt (set_border v3_thin_border) row_idx 1 label,
           cell_stmt (assigns [set_number_format ([CHR 0xC2, CHR 0xA3] @ ''#,##0''), set_border
             v3_thin_border]) row_idx 2 value,
           cond (row_idx = 22) (run_steps [ws_cell_style row_idx 1 (set_fill v3_highlight_fill),
               cell_set (row_idx, 2) (set_fill v3_highlight_fill)]) Inr]) | _ \<Rightarrow>
                 (\<lambda>_. Inl ValueError)) 19 v3_cost_data"

definition v3_chart_summary :: "string \<Rightarrow> chart" where
  "v3_chart_summary t =
     assigns
       [set_option ''type'' ''col'',
        set_option ''style'' ''10'',
        set_option ''title'' ''Monthly Cost: Competitors vs Plannetic'',
        set_option ''y_axis.title'' ([CHR 0xC2, CHR 0xA3] @ '' per month''),
        set_option ''y_axis.numFmt'' ([CHR 0xC2, CHR 0xA3] @ ''#,##0''),
        add_data (Reference t 2 18 None (Some 21)) True,
        set_categories (Reference t 1 19 None (Some 21)),
        set_option ''width'' ''12'',
        set_option ''height'' ''8'',
        set_option ''legend'' ''None'']
       (new_chart BarChart)"

definition v3_ws_summary_L122 :: "sheet \<Rightarrow> error + sheet" where
  "v3_ws_summary_L122 =
     write_row (\<lambda>_ col header. assigns
       [set_font v3_header_font, set_fill v3_header_fill, set_alignment
       (Alignment (Some ''center'') None False), set_border v3_thin_border]) 27 1
       v3_pricing_headers"

definition v3_ws_summary_L136 :: "sheet \<Rightarrow> error + sheet" where
  "v3_ws_summary_L136 =
     write_rows (\<lambda>row_idx col_idx value. assigns
       [set_font v3_normal_font, set_border v3_thin_border, set_alignment
       (Alignment (Some ''center'') None False), cond (row_idx mod 2 = 1) (set_fill v3_alt_fill)
       id, cond (col_idx = 2 \<and> is_int value)
       (set_number_format ([CHR 0xC2, CHR 0xA3] @ ''#,##0'')) id, cond
       (col_idx \<in> set [4, 5] \<and> is_str value \<and> startswith (str_of value) ''='')
       (set_number_format ([CHR 0xC2, CHR 0xA3] @ ''#,##0'')) id]) 28 1 v3_pricing_data"

definition v3_ws_comp_L173 :: "sheet \<Rightarrow> error + sheet" where
  "v3_ws_comp_L173 =
     write_row (\<lambda>_ col header. assigns
       [set_font v3_header_font, set_fill v3_header_fill, set_alignment
       (Alignment (Some ''center'') None False), set_border v3_thin_border]) 6 1 v3_comp_headers"

definition v3_ws_comp_L189 :: "sheet \<Rightarrow> error + sheet" where
  "v3_ws_comp_L189 =
     write_rows (\<lambda>row_idx col_idx value. assigns
       [set_font v3_normal_font, set_border v3_thin_border, cond (col_idx = 2)
       (set_number_format ([CHR 0xC2, CHR 0xA3] @ ''#,##0'')) id, cond (row_idx = 12)
       (assigns [set_fill v3_highlight_fill, set_font
       (Font (Some ''Calibri'') (Some 10) True None)])
       (assigns [cond (row_idx mod 2 = 0) (set_fill v3_alt_fill) id])]) 7 1 v3_competitors"

definition v3_chart1 :: "string \<Rightarrow> chart" where
  "v3_chart1 t =
     assigns
       [set_option ''type'' ''col'',
        set_option ''style'' ''10'',
        set_option ''title'' ''Monthly Software Costs Comparison'',
        set_option ''y_axis.title'' ([CHR 0xC2, CHR 0xA3] @ '' per month''),
        set_option ''y_axis.numFmt'' ([CHR 0xC2, CHR 0xA3] @ ''#,##0''),
        add_data (Reference t 2 6 None (Some 12)) True,
        set_categories (Reference t 1 7 None (Some 12)),
        set_option ''width'' ''14'',
        set_option ''height'' ''10'',
        set_option ''legend'' ''None'']
       (new_chart BarChart)"

definition v3_ws_comp_L225 :: "sheet \<Rightarrow> error + sheet" where
  "v3_ws_comp_L225 =
     write_row (\<lambda>_ col header. assigns
       [set_font v3_header_font, set_fill v3_header_fill, set_alignment
       (Alignment (Some ''center'') None False), set_border v3_thin_border]) 34 1 v3_stack_headers"

definition v3_ws_comp_L242 :: "sheet \<Rightarrow> error + sheet" where
  "v3_ws_comp_L242 =
     write_rows (\<lambda>row_idx col_idx value. assigns
       [set_font v3_normal_font, set_border v3_thin_border, cond (col_idx \<in> set [2, 4])
       (set_number_format ([CHR 0xC2, CHR 0xA3] @ ''#,##0'')) id]) 35 1 v3_stack_data"

definition v3_ws_comp_L256 :: "sheet \<Rightarrow> error + sheet" where
  "v3_ws_comp_L256 =
     for_range (\<lambda>col. ws_cell_style 42 col
       (assigns [set_font (Font (Some ''Calibri'') (Some 10) True None), set_fill v3_highlight_fill,
       set_border v3_thin_border, cond (col \<in> set [2, 4])
       (set_number_format ([CHR 0xC2, CHR 0xA3] @ ''#,##0'')) id])) 1 5"

definition v3_chart2 :: "string \<Rightarrow> chart" where
  "v3_chart2 t =
     assigns
       [set_option ''title'' ''Tool Stack Cost Breakdown'',
        add_data (Reference t 2 35 None (Some 41)) False,
        set_categories (Reference t 1 35 None (Some 41)),
        set_option ''width'' ''11'',
        set_option ''height'' ''9'',
        set_option ''dataLabels'' ''DataLabelList()'',
        set_option ''dataLabels.showPercent'' ''True'',
        set_option ''dataLabels.showVal'' ''False'',
        set_option ''dataLabels.showCatName'' ''False'']
       (new_chart PieChart)"

definition v3_ws_comp_L290 :: "sheet \<Rightarrow> error + sheet" where
  "v3_ws_comp_L290 =
     for_enumerate (\<lambda>i source. run_steps [ws_setitem (''A'' @ str_nat i) source,
         ws_item_style (''A'' @ str_nat i) (set_font v3_small_font)]) 46 v3_sources"

definition v3_ws_calc_L337 :: "sheet \<Rightarrow> error + sheet" where
  "v3_ws_calc_L337 =
     write_row (\<lambda>_ col header. assigns
       [set_font v3_header_font, set_fill v3_header_fill, set_alignment
       (Alignment (Some ''center'') None False), set_border v3_thin_border]) 12 1 v3_calc_headers"

definition v3_ws_calc_L345 :: "sheet \<Rightarrow> error + sheet" where
  "v3_ws_calc_L345 =
     for_enumerate (\<lambda>row_idx firms. run_steps
       [cell_stmt (set_border v3_thin_border) row_idx 1 firms,
         ws_cell_style row_idx 1 (set_alignment (Alignment (Some ''center'') None False)),
         cell_stmt (assigns [set_number_format ([CHR 0xC2, CHR 0xA3] @ ''#,##0''), set_border
           v3_thin_border]) row_idx 2 (StrV (''=A'' @ str_nat row_idx @ ''*$B$5*24'')),
         cell_stmt (assigns [set_number_format ([CHR 0xC2, CHR 0xA3] @ ''#,##0''), set_border
           v3_thin_border]) row_idx 3 (StrV (''=A'' @ str_nat row_idx @ ''*$B$6*24'')),
         cell_stmt (assigns [set_number_format ([CHR 0xC2, CHR 0xA3] @ ''#,##0''), set_border
           v3_thin_border]) row_idx 4 (StrV (''=A'' @ str_nat row_idx @ ''*$B$5*36'')),
         cell_stmt (assigns [set_number_format ([CHR 0xC2, CHR 0xA3] @ ''#,##0''), set_border
           v3_thin_border]) row_idx 5 (StrV (''=A'' @ str_nat row_idx @ ''*$B$6*36'')),
         cell_stmt (assigns [set_number_format ([CHR 0xC2, CHR 0xA3] @ ''#,##0''), set_border
           v3_thin_border, set_fill v3_highlight_fill]) row_idx 6
           (StrV (''=E'' @ str_nat row_idx @ ''-B'' @ str_nat row_idx)),
         cell_stmt (assigns [set_number_format ([CHR 0xC2, CHR 0xA3] @ ''#,##0''), set_border
           v3_thin_border]) row_idx 7 (StrV (''=A'' @ str_nat row_idx @ ''*($B$5+$B$6)/2'')),
         cond (row_idx mod 2 = 0) (for_range (\<lambda>c. run_steps [ws_cell row_idx c None,
               (\<lambda>ws. cond (rgb_at ws (row_idx, c) = [] \<or> rgb_at ws (row_idx, c) =
                 ''00000000'') (ws_cell_style row_idx c (set_fill v3_alt_fill)) Inr ws)]) 1 6) Inr])
                 13 v3_firm_counts"

definition v3_ws_calc_L384 :: "sheet \<Rightarrow> error + sheet" where
  "v3_ws_calc_L384 =
     write_row (\<lambda>_ col header. assigns
       [set_font v3_header_font, set_fill v3_header_fill, set_border v3_thin_border]) 11 9
       v3_chart_data_headers"

definition v3_ws_calc_L392 :: "sheet \<Rightarrow> error + sheet" where
  "v3_ws_calc_L392 =
     for_enumerate (\<lambda>i entry. case entry of [firms, src_row] \<Rightarrow>
       ((let row = 12 + i in run_steps [cell_stmt (set_border v3_thin_border) row 9 firms,
             cell_stmt (set_border v3_thin_border) row 10 (StrV (''=B'' @ py_str src_row)),
             ws_cell_style row 10 (set_number_format ([CHR 0xC2, CHR 0xA3] @ ''#,##0'')),
             cell_stmt (set_border v3_thin_border) row 11 (StrV (''=E'' @ py_str src_row)),
             ws_cell_style row 11 (set_number_format ([CHR 0xC2, CHR 0xA3] @ ''#,##0''))])) | _
               \<Rightarrow> (\<lambda>_. Inl ValueError)) 0 v3_milestones"

definition v3_chart_rev :: "string \<Rightarrow> chart" where
  "v3_chart_rev t =
     assigns
       [set_option ''title'' ''Total Contract Value by # of Firms'',
        set_option ''style'' ''10'',
        set_option ''y_axis.title'' (''Total Contract Value ('' @ [CHR 0xC2, CHR 0xA3] @ '')''),
        set_option ''x_axis.title'' ''Number of Firms'',
        set_option ''y_axis.numFmt'' ([CHR 0xC2, CHR 0xA3] @ ''#,##0''),
        add_data (Reference t 10 11 (Some 11) (Some 15)) True,
        set_categories (Reference t 9 12 None (Some 15)),
        set_option ''width'' ''12'',
        set_option ''height'' ''9'']
       (new_chart LineChart)"

definition v3_ws_calc_L418 :: "sheet \<Rightarrow> error + sheet" where
  "v3_ws_calc_L418 =
     for_range (\<lambda>col. set_column_width_idx col 15) 1 12"

definition v3_ws_growth_L452 :: "sheet \<Rightarrow> error + sheet" where
  "v3_ws_growth_L452 =
     write_row (\<lambda>_ col header. assigns
       [set_font v3_header_font, set_fill v3_header_fill, set_alignment
       (Alignment (Some ''center'') None False), set_border v3_thin_border]) 10 1
       v3_growth_headers"

definition v3_ws_growth_L460 :: "sheet \<Rightarrow> error + sheet" where
  "v3_ws_growth_L460 =
     for_enumerate (\<lambda>i new_firms.
       (let row = 11 + i in run_steps
       [cell_stmt (set_border v3_thin_border) row 1 (IntV (int (i + 1))),
           cell_stmt (set_border v3_thin_border) row 2 new_firms,
           cond (i = 0) (run_steps [cell_stmt (set_border v3_thin_border) row 3 (IntV 0),
               cell_stmt (set_border v3_thin_border) row 4 (StrV (''=B'' @ str_nat row))])
                 (run_steps [cell_stmt (set_border v3_thin_border) row 3
                 (StrV (''=ROUND(D'' @ str_nat (row - 1) @ ''*$B$6,0)'')),
               cell_stmt (set_border v3_thin_border) row 4
                 (StrV (''=D'' @ str_nat (row - 1) @ ''+B'' @ str_nat row @ ''-C'' @ str_nat
                 row))]),
           cell_stmt (set_border v3_thin_border) row 5 (StrV (''=D'' @ str_nat row @ ''*$B$5'')),
           ws_cell_style row 5 (set_number_format ([CHR 0xC2, CHR 0xA3] @ ''#,##0'')),
           cell_stmt (set_border v3_thin_border) row 6 (StrV (''=E'' @ str_nat row @ ''*12'')),
           ws_cell_style row 6 (set_number_format ([CHR 0xC2, CHR 0xA3] @ ''#,##0'')),
           for_range (\<lambda>col. ws_cell_style row col
             (set_alignment (Alignment (Some ''center'') None False))) 1 7])) 0 v3_conservative_new"

definition v3_ws_growth_L481 :: "sheet \<Rightarrow> error + sheet" where
  "v3_ws_growth_L481 =
     write_row (\<lambda>_ col header. assigns
       [set_font v3_header_font, set_fill v3_header_fill, set_alignment
       (Alignment (Some ''center'') None False), set_border v3_thin_border]) 19 1
       v3_growth_headers"

definition v3_ws_growth_L489 :: "sheet \<Rightarrow> error + sheet" where
  "v3_ws_growth_L489 =
     for_enumerate (\<lambda>i new_firms.
       (let row = 20 + i in run_steps
       [cell_stmt (set_border v3_thin_border) row 1 (IntV (int (i + 1))),
           cell_stmt (set_border v3_thin_border) row 2 new_firms,
           cond (i = 0) (run_steps [cell_stmt (set_border v3_thin_border) row 3 (IntV 0),
               cell_stmt (set_border v3_thin_border) row 4 (StrV (''=B'' @ str_nat row))])
                 (run_steps [cell_stmt (set_border v3_thin_border) row 3
                 (StrV (''=ROUND(D'' @ str_nat (row - 1) @ ''*$B$6,0)'')),
               cell_stmt (set_border v3_thin_border) row 4
                 (StrV (''=D'' @ str_nat (row - 1) @ ''+B'' @ str_nat row @ ''-C'' @ str_nat
                 row))]),
           cell_stmt (set_border v3_thin_border) row 5 (StrV (''=D'' @ str_nat row @ ''*$B$5'')),
           ws_cell_style row 5 (set_number_format ([CHR 0xC2, CHR 0xA3] @ ''#,##0'')),
           cell_stmt (set_border v3_thin_border) row 6 (StrV (''=E'' @ str_nat row @ ''*12'')),
           ws_cell_style row 6 (set_number_format ([CHR 0xC2, CHR 0xA3] @ ''#,##0'')),
           for_range (\<lambda>col. ws_cell_style row col
             (set_alignment (Alignment (Some ''center'') None False))) 1 7])) 0 v3_moderate_new"

definition v3_ws_growth_L510 :: "sheet \<Rightarrow> error + sheet" where
  "v3_ws_growth_L510 =
     write_row (\<lambda>_ col header. assigns
       [set_font v3_header_font, set_fill v3_header_fill, set_alignment
       (Alignment (Some ''center'') None False), set_border v3_thin_border]) 28 1
       v3_growth_headers"

definition v3_ws_growth_L518 :: "sheet \<Rightarrow> error + sheet" where
  "v3_ws_growth_L518 =
     for_enumerate (\<lambda>i new_firms.
       (let row = 29 + i in run_steps
       [cell_stmt (set_border v3_thin_border) row 1 (IntV (int (i + 1))),
           cell_stmt (set_border v3_thin_border) row 2 new_firms,
           cond (i = 0) (run_steps [cell_stmt (set_border v3_thin_border) row 3 (IntV 0),
               cell_stmt (set_border v3_thin_border) row 4 (StrV (''=B'' @ str_nat row))])
                 (run_steps [cell_stmt (set_border v3_thin_border) row 3
                 (StrV (''=ROUND(D'' @ str_nat (row - 1) @ ''*$B$6,0)'')),
               cell_stmt (set_border v3_thin_border) row 4
                 (StrV (''=D'' @ str_nat (row - 1) @ ''+B'' @ str_nat row @ ''-C'' @ str_nat
                 row))]),
           cell_stmt (set_border v3_thin_border) row 5 (StrV (''=D'' @ str_nat row @ ''*$B$5'')),
           ws_cell_style row 5 (set_number_format ([CHR 0xC2, CHR 0xA3] @ ''#,##0'')),
           cell_stmt (set_border v3_thin_border) row 6 (StrV (''=E'' @ str_nat row @ ''*12'')),
           ws_cell_style row 6 (set_number_format ([CHR 0xC2, CHR 0xA3] @ ''#,##0'')),
           for_range (\<lambda>col. ws_cell_style row col
             (set_alignment (Alignment (Some ''center'') None False))) 1 7])) 0 v3_aggressive_new"

definition v3_ws_growth_L540 :: "sheet \<Rightarrow> error + sheet" where
  "v3_ws_growth_L540 =
     write_row (\<lambda>_ col header. assigns
       [set_font v3_header_font, set_fill v3_header_fill, set_border v3_thin_border]) 4 8
       v3_chart_headers"

definition v3_ws_growth_L546 :: "sheet \<Rightarrow> error + sheet" where
  "v3_ws_growth_L546 =
     for_range (\<lambda>i.
       (let row = 5 + i in run_steps
       [cell_stmt (set_border v3_thin_border) row 8 (IntV (int (i + 1))),
           cell_stmt (set_border v3_thin_border) row 9 (StrV (''=F'' @ str_nat (11 + i))),
           ws_cell_style row 9 (set_number_format ([CHR 0xC2, CHR 0xA3] @ ''#,##0'')),
           cell_stmt (set_border v3_thin_border) row 10 (StrV (''=F'' @ str_nat (20 + i))),
           ws_cell_style row 10 (set_number_format ([CHR 0xC2, CHR 0xA3] @ ''#,##0'')),
           cell_stmt (set_border v3_thin_border) row 11 (StrV (''=F'' @ str_nat (29 + i))),
           ws_cell_style row 11 (set_number_format ([CHR 0xC2, CHR 0xA3] @ ''#,##0''))])) 0 5"

definition v3_chart3 :: "string \<Rightarrow> chart" where
  "v3_chart3 t =
     assigns
       [set_option ''title'' ''ARR Growth Projections'',
        set_option ''style'' ''10'',
        set_option ''y_axis.title'' (''Annual Recurring Revenue ('' @ [CHR 0xC2, CHR 0xA3] @ '')''),
        set_option ''x_axis.title'' ''Year'',
        set_option ''y_axis.numFmt'' ([CHR 0xC2, CHR 0xA3] @ ''#,##0''),
        add_data (Reference t 9 4 (Some 11) (Some 9)) True,
        set_categories (Reference t 8 5 None (Some 9)),
        set_option ''width'' ''14'',
        set_option ''height'' ''10'']
       (new_chart LineChart)"

definition v3_ws_growth_L574 :: "sheet \<Rightarrow> error + sheet" where
  "v3_ws_growth_L574 =
     for_range (\<lambda>col. set_column_width_idx col 14) 1 12"

definition v3_ws_roi_L603 :: "sheet \<Rightarrow> error + sheet" where
  "v3_ws_roi_L603 =
     write_rows (\<lambda>row_idx col_idx value. assigns
       [cond (row_idx = 6) (assigns [set_font v3_header_font, set_fill v3_header_fill])
       (assigns [set_font v3_normal_font, cond (col_idx = 2)
       (assigns [set_fill v3_input_fill, set_number_format ([CHR 0xC2, CHR 0xA3] @ ''#,##0'')])
       id]), set_border v3_thin_border]) 6 1 v3_inputs"

definition v3_ws_roi_L639 :: "sheet \<Rightarrow> error + sheet" where
  "v3_ws_roi_L639 =
     write_rows (\<lambda>row_idx col_idx value. assigns
       [cond (row_idx = 19) (assigns [set_font v3_header_font, set_fill v3_header_fill])
       (assigns [set_font v3_normal_font, cond (col_idx = 2)
       (assigns [set_fill v3_input_fill, cond (row_idx = 21) (set_number_format ''0%'')
       (assigns [cond (row_idx = 22) (set_number_format ([CHR 0xC2, CHR 0xA3] @ ''#,##0''))
       id])]) id]), set_border v3_thin_border]) 19 1 v3_time_inputs"

definition v3_ws_roi_L683 :: "sheet \<Rightarrow> error + sheet" where
  "v3_ws_roi_L683 =
     write_rows (\<lambda>row_idx col_idx value. assigns
       [cond (row_idx = 33) (assigns [set_font v3_header_font, set_fill v3_header_fill])
       (assigns [set_font v3_normal_font, cond (col_idx \<in> set [2, 3] \<and> truthy value)
       (assigns [cond (row_idx = 43)
       (set_number_format (''0'' @ [CHR 0x22] @ ''%'' @ [CHR 0x22]))
       (assigns [cond (row_idx \<in> set [34, 35, 36]) (set_number_format ''0.0'')
       (set_number_format ([CHR 0xC2, CHR 0xA3] @ ''#,##0''))])]) id]), set_border
       v3_thin_border, cond (row_idx \<in> set [38, 40, 41, 43])
       (assigns [set_fill v3_highlight_fill, set_font
       (Font (Some ''Calibri'') (Some 10) True None)]) id]) 33 1 v3_results"

definition v3_ws_roi_L737 :: "sheet \<Rightarrow> error + sheet" where
  "v3_ws_roi_L737 =
     for_range (\<lambda>row. for_range
       (\<lambda>col. ws_cell_style row col
       (assigns [set_border v3_thin_border, cond (col \<in> set [6, 7])
       (set_number_format ([CHR 0xC2, CHR 0xA3] @ ''#,##0'')) id, cond (row = 38)
       (assigns [set_fill v3_highlight_fill, set_font
       (Font (Some ''Calibri'') (Some 10) True None)]) id])) 5 8) 34 39"

definition v3_chart_roi :: "string \<Rightarrow> chart" where
  "v3_chart_roi t =
     assigns
       [set_option ''type'' ''col'',
        set_option ''style'' ''10'',
        set_option ''title'' ''Monthly Value Analysis'',
        set_option ''y_axis.title'' ([CHR 0xC2, CHR 0xA3] @ '' per month''),
        set_option ''y_axis.numFmt'' ([CHR 0xC2, CHR 0xA3] @ ''#,##0''),
        add_data (Reference t 6 33 None (Some 37)) True,
        set_categories (Reference t 5 34 None (Some 37)),
        set_option ''width'' ''11'',
        set_option ''height'' ''9'',
        set_option ''legend'' ''None'']
       (new_chart BarChart)"

definition v3_ws_tiers_L785 :: "sheet \<Rightarrow> error + sheet" where
  "v3_ws_tiers_L785 =
     write_row (\<lambda>_ col header. assigns
       [set_font v3_header_font, set_fill v3_header_fill, set_alignment
       (Alignment (Some ''center'') None False), set_border v3_thin_border]) 3 1 v3_tier_headers"

definition v3_ws_tiers_L822 :: "sheet \<Rightarrow> error + sheet" where
  "v3_ws_tiers_L822 =
     write_rows (\<lambda>row_idx col_idx value. assigns
       [set_border v3_thin_border, set_alignment
       (Alignment (Some (if col_idx > 1 then ''center'' else ''left'')) None False), cond
       (value \<in> set [StrV ''CORE FEATURES'', StrV ''PREMIUM FEATURES'', StrV ''ONBOARDING'',
       StrV ''CONTRACT'']) (assigns [set_font v3_section_font, set_fill v3_blue_fill])
       (assigns [cond (value = StrV [CHR 0xE2, CHR 0x9C, CHR 0x93])
       (set_font (Font (Some ''Calibri'') (Some 10) True (Some ''059669'')))
       (assigns [cond (value = StrV [CHR 0xE2, CHR 0x80, CHR 0x94])
       (set_font (Font (Some ''Calibri'') (Some 10) False (Some ''9CA3AF'')))
       (set_font v3_normal_font)])]), cond
       (row_idx \<in> set [29, 30] \<and> col_idx \<in> set [2, 3])
       (set_number_format ([CHR 0xC2, CHR 0xA3] @ ''#,##0'')) id]) 4 1
       v3_features"

subsection \<open>Sheets and the script\<close>

definition v3_ws_summary :: "sheet \<Rightarrow> error + sheet" where
  "v3_ws_summary =
     run_steps
       [ws_setitem ''A1'' (StrV ''PLANNETIC PRICING ANALYSIS''),
        ws_item_style ''A1'' (set_font v3_title_font),
        merge_cells ''A1:F1'',
        ws_setitem ''A2'' (StrV ''Verified December 2025''),
        ws_item_style ''A2'' (set_font v3_small_font),
        ws_setitem ''A4'' (StrV ''What is Plannetic?''),
        ws_item_style ''A4'' (set_font v3_subheader_font),
        v3_ws_summary_L68,
        ws_setitem ''A16'' (StrV ''Cost Comparison''),
        ws_item_style ''A16'' (set_font v3_subheader_font),
        v3_ws_summary_L77,
        v3_ws_summary_L90,
        (\<lambda>ws. add_chart (v3_chart_summary (sh_title ws)) ''D16'' ws),
        ws_setitem ''A25'' (StrV ''Recommended Pricing Tiers''),
        ws_item_style ''A25'' (set_font v3_subheader_font),
        v3_ws_summary_L122,
        v3_ws_summary_L136,
        set_column_width ''A'' 25,
        set_column_width ''B'' 12,
        set_column_width ''C'' 18,
        set_column_width ''D'' 14,
        set_column_width ''E'' 14,
        set_column_width ''F'' 26]"

definition v3_ws_comp :: "sheet \<Rightarrow> error + sheet" where
  "v3_ws_comp =
     run_steps
       [ws_setitem ''A1'' (StrV ''COMPETITOR PRICING ANALYSIS''),
        ws_item_style ''A1'' (set_font v3_title_font),
        merge_cells ''A1:E1'',
        ws_setitem ''A2'' (StrV ''Verified December 2025 - Sources linked below''),
        ws_item_style ''A2'' (set_font v3_small_font),
        ws_setitem ''A4'' (StrV ''UK IFA Software Market - Verified Pricing''),
        ws_item_style ''A4'' (set_font v3_subheader_font),
        v3_ws_comp_L173,
        v3_ws_comp_L189,
        (\<lambda>ws. add_chart (v3_chart1 (sh_title ws)) ''A15'' ws),
        ws_setitem ''A32'' (StrV ''Typical IFA Tool Stack vs Plannetic''),
        ws_item_style ''A32'' (set_font v3_subheader_font),
        v3_ws_comp_L225,
        v3_ws_comp_L242,
        ws_setitem ''A42'' (StrV ''TOTAL''),
        ws_setitem ''B42'' (StrV ''=SUM(B35:B41)''),
        ws_setitem ''C42'' (StrV ([CHR 0xC2, CHR 0xA3] @ ''250/mo'')),
        ws_setitem ''D42'' (StrV ''=B42-250''),
        v3_ws_comp_L256,
        (\<lambda>ws. add_chart (v3_chart2 (sh_title ws)) ''F32'' ws),
        ws_setitem ''A45'' (StrV ''Sources:''),
        ws_item_style ''A45'' (set_font v3_section_font),
        v3_ws_comp_L290,
        set_column_width ''A'' 22,
        set_column_width ''B'' 15,
        set_column_width ''C'' 18,
        set_column_width ''D'' 12,
        set_column_width ''E'' 18]"

definition v3_ws_calc :: "sheet \<Rightarrow> error + sheet" where
  "v3_ws_calc =
     run_steps
       [ws_setitem ''A1'' (StrV ''REVENUE CALCULATOR''),
        ws_item_style ''A1'' (set_font v3_title_font),
        merge_cells ''A1:G1'',
        ws_setitem ''A3'' (StrV ''INPUT PARAMETERS (Edit yellow cells)''),
        ws_item_style ''A3'' (set_font v3_subheader_font),
        ws_setitem ''A5'' (StrV (''Standard Monthly Rate ('' @ [CHR 0xC2, CHR 0xA3] @ '')'')),
        ws_setitem ''B5'' (IntV 250),
        ws_item_style ''B5'' (set_number_format ([CHR 0xC2, CHR 0xA3] @ ''#,##0'')),
        ws_item_style ''B5'' (set_fill v3_input_fill),
        ws_item_style ''B5'' (set_border v3_thin_border),
        ws_setitem ''A6'' (StrV (''Professional Monthly Rate ('' @ [CHR 0xC2, CHR 0xA3] @ '')'')),
        ws_setitem ''B6'' (IntV 300),
        ws_item_style ''B6'' (set_number_format ([CHR 0xC2, CHR 0xA3] @ ''#,##0'')),
        ws_item_style ''B6'' (set_fill v3_input_fill),
        ws_item_style ''B6'' (set_border v3_thin_border),
        ws_setitem ''A7'' (StrV (''Monthly Rate (no commitment) ('' @ [CHR 0xC2, CHR 0xA3] @ '')'')),
        ws_setitem ''B7'' (IntV 350),
        ws_item_style ''B7'' (set_number_format ([CHR 0xC2, CHR 0xA3] @ ''#,##0'')),
        ws_item_style ''B7'' (set_fill v3_input_fill),
        ws_item_style ''B7'' (set_border v3_thin_border),
        ws_setitem ''A10'' (StrV ''REVENUE BY NUMBER OF FIRMS''),
        ws_item_style ''A10'' (set_font v3_subheader_font),
        v3_ws_calc_L337,
        v3_ws_calc_L345,
        ws_setitem ''I10'' (StrV ''Revenue Milestones (for chart)''),
        ws_item_style ''I10'' (set_font v3_section_font),
        v3_ws_calc_L384,
        v3_ws_calc_L392,
        (\<lambda>ws. add_chart (v3_chart_rev (sh_title ws)) ''I17'' ws),
        v3_ws_calc_L418]"

definition v3_ws_growth :: "sheet \<Rightarrow> error + sheet" where
  "v3_ws_growth =
     run_steps
       [ws_setitem ''A1'' (StrV ''GROWTH PROJECTIONS''),
        ws_item_style ''A1'' (set_font v3_title_font),
        merge_cells ''A1:F1'',
        ws_setitem ''A3'' (StrV ''SCENARIO INPUTS (Edit yellow cells)''),
        ws_item_style ''A3'' (set_font v3_subheader_font),
        ws_setitem ''A5'' (StrV (''Monthly Rate ('' @ [CHR 0xC2, CHR 0xA3] @ '')'')),
        ws_setitem ''B5'' (IntV 250),
        ws_item_style ''B5'' (set_number_format ([CHR 0xC2, CHR 0xA3] @ ''#,##0'')),
        ws_item_style ''B5'' (set_fill v3_input_fill),
        ws_item_style ''B5'' (set_border v3_thin_border),
        ws_setitem ''A6'' (StrV ''Annual Churn Rate (%)''),
        ws_setitem ''B6'' (FloatV ''0.05''),
        ws_item_style ''B6'' (set_number_format ''0%''),
        ws_item_style ''B6'' (set_fill v3_input_fill),
        ws_item_style ''B6'' (set_border v3_thin_border),
        ws_setitem ''A9'' (StrV ''CONSERVATIVE (10 new firms/year)''),
        ws_item_style ''A9'' (set_font v3_section_font),
        v3_ws_growth_L452,
        v3_ws_growth_L460,
        ws_setitem ''A18'' (StrV ''MODERATE (25 new firms/year)''),
        ws_item_style ''A18'' (set_font v3_section_font),
        v3_ws_growth_L481,
        v3_ws_growth_L489,
        ws_setitem ''A27'' (StrV ''AGGRESSIVE (50 new firms/year)''),
        ws_item_style ''A27'' (set_font v3_section_font),
        v3_ws_growth_L510,
        v3_ws_growth_L518,
        ws_setitem ''H3'' (StrV ''ARR Comparison (for chart)''),
        ws_item_style ''H3'' (set_font v3_section_font),
        v3_ws_growth_L540,
        v3_ws_growth_L546,
        (\<lambda>ws. add_chart (v3_chart3 (sh_title ws)) ''H12'' ws),
        v3_ws_growth_L574]"

definition v3_ws_roi :: "sheet \<Rightarrow> error + sheet" where
  "v3_ws_roi =
     run_steps
       [ws_setitem ''A1'' (StrV ''CLIENT ROI CALCULATOR''),
        ws_item_style ''A1'' (set_font v3_title_font),
        merge_cells ''A1:D1'',
        ws_setitem ''A2'' (StrV ''Calculate the ROI for your prospective clients''),
        ws_item_style ''A2'' (set_font v3_small_font),
        ws_setitem ''A4'' (StrV ''CURRENT TOOL COSTS (Edit yellow cells)''),
        ws_item_style ''A4'' (set_font v3_subheader_font),
        v3_ws_roi_L603,
        ws_setitem ''A14'' (StrV ''TOTAL CURRENT MONTHLY COST''),
        ws_item_style ''A14'' (set_font (Font (Some ''Calibri'') (Some 10) True None)),
        ws_setitem ''B14'' (StrV ''=SUM(B7:B13)''),
        ws_item_style ''B14'' (set_number_format ([CHR 0xC2, CHR 0xA3] @ ''#,##0'')),
        ws_item_style ''B14'' (set_font (Font (Some ''Calibri'') (Some 10) True None)),
        ws_item_style ''A14'' (set_fill v3_blue_fill),
        ws_item_style ''B14'' (set_fill v3_blue_fill),
        ws_item_style ''A14'' (set_border v3_thin_border),
        ws_item_style ''B14'' (set_border v3_thin_border),
        ws_setitem ''A17'' (StrV ''TIME SAVINGS (Edit yellow cells)''),
        ws_item_style ''A17'' (set_font v3_subheader_font),
        v3_ws_roi_L639,
        ws_setitem ''A26'' (StrV ''PLANNETIC COST''),
        ws_item_style ''A26'' (set_font v3_subheader_font),
        ws_setitem ''A28'' (StrV ''Plannetic Monthly Cost''),
        ws_setitem ''B28'' (IntV 250),
        ws_item_style ''B28'' (set_number_format ([CHR 0xC2, CHR 0xA3] @ ''#,##0'')),
        ws_item_style ''B28'' (set_fill v3_input_fill),
        ws_item_style ''B28'' (set_border v3_thin_border),
        ws_item_style ''A28'' (set_border v3_thin_border),
        ws_setitem ''A31'' (StrV ''ROI ANALYSIS''),
        ws_item_style ''A31'' (set_font v3_subheader_font),
        v3_ws_roi_L683,
        ws_setitem ''E31'' (StrV ''Savings Breakdown''),
        ws_item_style ''E31'' (set_font v3_section_font),
        ws_setitem ''E33'' (StrV ''Category''),
        ws_setitem ''F33'' (StrV ''Monthly''),
        ws_setitem ''G33'' (StrV ''Annual''),
        ws_item_style ''E33'' (set_font v3_header_font),
        ws_item_style ''F33'' (set_font v3_header_font),
        ws_item_style ''G33'' (set_font v3_header_font),
        ws_item_style ''E33'' (set_fill v3_header_fill),
        ws_item_style ''F33'' (set_fill v3_header_fill),
        ws_item_style ''G33'' (set_fill v3_header_fill),
        ws_item_style ''E33'' (set_border v3_thin_border),
        ws_item_style ''F33'' (set_border v3_thin_border),
        ws_item_style ''G33'' (set_border v3_thin_border),
        ws_setitem ''E34'' (StrV ''Software Savings''),
        ws_setitem ''F34'' (StrV ''=B33''),
        ws_setitem ''G34'' (StrV ''=C33''),
        ws_setitem ''E35'' (StrV ''Time Value Saved''),
        ws_setitem ''F35'' (StrV ''=B36''),
        ws_setitem ''G35'' (StrV ''=C36''),
        ws_setitem ''E36'' (StrV ''Total Benefit''),
        ws_setitem ''F36'' (StrV ''=B38''),
        ws_setitem ''G36'' (StrV ''=C38''),
        ws_setitem ''E37'' (StrV ''Plannetic Cost''),
        ws_setitem ''F37'' (StrV ''=B39''),
        ws_setitem ''G37'' (StrV ''=C39''),
        ws_setitem ''E38'' (StrV ''Net Benefit''),
        ws_setitem ''F38'' (StrV ''=B40''),
        ws_setitem ''G38'' (StrV ''=C40''),
        v3_ws_roi_L737,
        (\<lambda>ws. add_chart (v3_chart_roi (sh_title ws)) ''E41'' ws),
        set_column_width ''A'' 32,
        set_column_width ''B'' 14,
        set_column_width ''C'' 14,
        set_column_width ''D'' 8,
        set_column_width ''E'' 18,
        set_column_width ''F'' 12,
        set_column_width ''G'' 12]"

definition v3_ws_tiers :: "sheet \<Rightarrow> error + sheet" where
  "v3_ws_tiers =
     run_steps
       [ws_setitem ''A1'' (StrV ''PLANNETIC PRICING TIERS''),
        ws_item_style ''A1'' (set_font v3_title_font),
        merge_cells ''A1:D1'',
        v3_ws_tiers_L785,
        v3_ws_tiers_L822,
        set_column_width ''A'' 28,
        set_column_width ''B'' 20,
        set_column_width ''C'' 20,
        set_column_width ''D'' 20]"

definition v3_output_path :: string where
  "v3_output_path = ''/Users/adeomosanya/Downloads/Plannetic-Pricing-Analysis-v3.xlsx''"

definition v3_build :: "error + workbook" where
  "v3_build =
     run_steps
       [set_title active ''Summary'',
        on_sheet active v3_ws_summary,
        with_new_sheet ''Competitor Pricing'' (\<lambda>ws_comp. on_sheet ws_comp v3_ws_comp),
        with_new_sheet ''Revenue Calculator'' (\<lambda>ws_calc. on_sheet ws_calc v3_ws_calc),
        with_new_sheet ''Growth Projections'' (\<lambda>ws_growth. on_sheet ws_growth v3_ws_growth),
        with_new_sheet ''ROI Calculator'' (\<lambda>ws_roi. on_sheet ws_roi v3_ws_roi),
        with_new_sheet ''Tier Comparison'' (\<lambda>ws_tiers. on_sheet ws_tiers v3_ws_tiers)]
       Workbook"

definition v3_main :: "proc_env \<Rightarrow> error + workbook" where
  "v3_main env =
     (case import_openpyxl env of
        Inl e \<Rightarrow> Inl e
      | Inr _ \<Rightarrow> (case v3_build of Inl e \<Rightarrow> Inl e | Inr wb \<Rightarrow> save env v3_output_path wb))"

section \<open>The first pricing workbook (plannetic-pricing-analysis.py)\<close>

subsection \<open>Styles and literal tables\<close>

definition pa_title_font :: font where
  "pa_title_font = Font (Some ''Arial'') (Some 18) True (Some ''1E40AF'')"

definition pa_header_font :: font where
  "pa_header_font = Font (Some ''Arial'') (Some 12) True (Some ''FFFFFF'')"

definition pa_subheader_font :: font where
  "pa_subheader_font = Font (Some ''Arial'') (Some 11) True None"

definition pa_normal_font :: font where
  "pa_normal_font = Font (Some ''Arial'') (Some 10) False None"

definition pa_currency_font :: font where
  "pa_currency_font = Font (Some ''Arial'') (Some 10) True (Some ''059669'')"

definition pa_header_fill :: pattern_fill where
  "pa_header_fill = PatternFill ''1E40AF'' ''1E40AF'' ''solid''"

definition pa_alt_fill :: pattern_fill where
  "pa_alt_fill = PatternFill ''F3F4F6'' ''F3F4F6'' ''solid''"

definition pa_highlight_fill :: pattern_fill where
  "pa_highlight_fill = PatternFill ''DCFCE7'' ''DCFCE7'' ''solid''"

definition pa_thin_border :: border where
  "pa_thin_border = Border (Side (Some ''thin'') None) (Side (Some ''thin'') None) (Side (Some ''thin'') None) (Side (Some ''thin'') None)"

definition pa_summary_text :: "cell_value list" where
  "pa_summary_text =
     [StrV ''Plannetic is a comprehensive, compliance-focused financial advisory platform'',
      StrV ''designed specifically for UK-regulated Independent Financial Advisors (IFAs).'',
      StrV '''',
      StrV ''Key Value Proposition:'',
      StrV ([CHR 0xE2, CHR 0x80, CHR 0xA2] @ '' Replaces 5-7 separate tools with one integrated platform''),
      StrV ([CHR 0xE2, CHR 0x80, CHR 0xA2] @ '' Saves IFAs '' @ [CHR 0xC2, CHR 0xA3] @ ''170+/month vs competitor tool stack ('' @ [CHR 0xC2, CHR 0xA3] @ ''420 '' @ [CHR 0xE2, CHR 0x86, CHR 0x92] @ '' '' @ [CHR 0xC2, CHR 0xA3] @ ''250)''),
      StrV ([CHR 0xE2, CHR 0x80, CHR 0xA2] @ '' Saves 10-20 hours per client onboarding''),
      StrV ([CHR 0xE2, CHR 0x80, CHR 0xA2] @ '' Built-in FCA compliance and Consumer Duty workflows'')]"

definition pa_pricing_headers :: "cell_value list" where
  "pa_pricing_headers =
     [StrV ''Tier'',
      StrV ''Monthly Price'',
      StrV ''Commitment'',
      StrV ''2-Year TCV'',
      StrV ''3-Year TCV'',
      StrV ''Best For'']"

definition pa_pricing_data :: "cell_value list list" where
  "pa_pricing_data =
     [[StrV ''Monthly'', IntV 350, StrV ''Month-to-month'', StrV ''=B18*24'', StrV ''=B18*36'', StrV ''Trial/uncertain firms''],
      [StrV ''Standard'', IntV 250, StrV ''2-year'', StrV ''=B19*24'', StrV ''=B19*36'', StrV ''Solo advisors, small firms''],
      [StrV ''Professional'', IntV 300, StrV ''2-year'', StrV ''=B20*24'', StrV ''=B20*36'', StrV ''Growing firms, AI + support''],
      [StrV ''Enterprise'', StrV ''Custom'', StrV ''3-year'', StrV ''Custom'', StrV ''Custom'', StrV ''5+ advisors, white-label'']]"

definition pa_metrics :: "cell_value list list" where
  "pa_metrics =
     [[StrV ''Metric'', StrV ''Value''],
      [StrV ''Competitor Stack Cost'', StrV ([CHR 0xC2, CHR 0xA3] @ ''420/mo'')],
      [StrV ''Plannetic Standard'', StrV ([CHR 0xC2, CHR 0xA3] @ ''250/mo'')],
      [StrV ''Monthly Savings'', StrV ([CHR 0xC2, CHR 0xA3] @ ''170/mo'')],
      [StrV ''Annual Savings'', StrV ([CHR 0xC2, CHR 0xA3] @ ''2,040/yr'')],
      [StrV ''Break-even Clients'', StrV ''3-6 clients'']]"

definition pa_calc_headers :: "cell_value list" where
  "pa_calc_headers =
     [StrV ''# of Firms'',
      StrV ([CHR 0xC2, CHR 0xA3] @ ''250/mo (2yr)''),
      StrV ([CHR 0xC2, CHR 0xA3] @ ''300/mo (2yr)''),
      StrV ([CHR 0xC2, CHR 0xA3] @ ''250/mo (3yr)''),
      StrV ([CHR 0xC2, CHR 0xA3] @ ''300/mo (3yr)''),
      StrV ''3yr Difference'',
      StrV ''Avg MRR'']"

definition pa_firm_counts :: "cell_value list" where
  "pa_firm_counts =
     [IntV 1,
      IntV 2,
      IntV 3,
      IntV 4,
      IntV 5,
      IntV 10,
      IntV 15,
      IntV 20,
      IntV 25,
      IntV 50,
      IntV 75,
      IntV 100,
      IntV 150,
      IntV 200,
      IntV 250,
      IntV 300]"

definition pa_growth_headers :: "cell_value list" where
  "pa_growth_headers =
     [StrV ''Year'',
      StrV ''New Firms'',
      StrV ''Churn'',
      StrV ''Total Firms'',
      StrV ''MRR'',
      StrV ''ARR'']"

definition pa_moderate_new :: "cell_value list" where
  "pa_moderate_new =
     [IntV 25,
      IntV 35,
      IntV 45,
      IntV 60,
      IntV 75]"

definition pa_aggressive_new :: "cell_value list" where
  "pa_aggressive_new =
     [IntV 50,
      IntV 70,
      IntV 100,
      IntV 130,
      IntV 150]"

definition pa_comp_headers :: "cell_value list" where
  "pa_comp_headers =
     [StrV ''Competitor'',
      StrV ''Monthly Price'',
      StrV ''What They Offer'',
      StrV ''Plannetic Equivalent'',
      StrV ''Our Advantage'']"

definition pa_competitors :: "cell_value list list" where
  "pa_competitors =
     [[StrV ''Intelliflo Office'', StrV ([CHR 0xC2, CHR 0xA3] @ ''200-400''), StrV ''Back office, limited planning'', StrV ''Full platform'', StrV ''More features, lower price''],
      [StrV ''Voyant'', StrV ([CHR 0xC2, CHR 0xA3] @ ''150''), StrV ''Cash flow only'', StrV ''Cash Flow module'', StrV ''Includes CRM + compliance''],
      [StrV ''Timeline'', StrV ([CHR 0xC2, CHR 0xA3] @ ''100''), StrV ''Monte Carlo only'', StrV ''Monte Carlo module'', StrV ''Full assessment suite''],
      [StrV ''CashCalc'', StrV ([CHR 0xC2, CHR 0xA3] @ ''80''), StrV ''Cash flow only'', StrV ''Cash Flow module'', StrV ''Integrated compliance''],
      [StrV ''Salesforce'', StrV ([CHR 0xC2, CHR 0xA3] @ ''150+''), StrV ''Generic CRM'', StrV ''Client Hub'', StrV ''IFA-specific features''],
      [StrV ''Dynamic Planner'', StrV ([CHR 0xC2, CHR 0xA3] @ ''200+''), StrV ''Risk profiling + reports'', StrV ''ATR/CFL + Docs'', StrV ''Consumer Duty built-in''],
      [StrV ''FE Analytics'', StrV ([CHR 0xC2, CHR 0xA3] @ ''100+''), StrV ''Fund analysis'', StrV ''N/A'', StrV ''Different focus''],
      [StrV ''Defaqto Engage'', StrV ([CHR 0xC2, CHR 0xA3] @ ''150+''), StrV ''Research + suitability'', StrV ''Suitability module'', StrV ''Full workflow'']]"

definition pa_stack_headers :: "cell_value list" where
  "pa_stack_headers =
     [StrV ''Tool Category'',
      StrV ''Standalone Cost'',
      StrV ''Plannetic'',
      StrV ''Savings'']"

definition pa_stack_data :: "cell_value list list" where
  "pa_stack_data =
     [[StrV ''CRM'', IntV 50, StrV ''Included'', StrV ''=B19''],
      [StrV ''Risk Profiling'', IntV 50, StrV ''Included'', StrV ''=B20''],
      [StrV ''Cash Flow'', IntV 100, StrV ''Included'', StrV ''=B21''],
      [StrV ''Monte Carlo'', IntV 100, StrV ''Included'', StrV ''=B22''],
      [StrV ''Document Generation'', IntV 50, StrV ''Included'', StrV ''=B23''],
      [StrV ''E-Signatures'', IntV 20, StrV ''Included'', StrV ''=B24''],
      [StrV ''Compliance Tracking'', IntV 50, StrV ''Included'', StrV ''=B25''],
      [StrV ''TOTAL'', StrV ''=SUM(B19:B25)'', StrV ([CHR 0xC2, CHR 0xA3] @ ''250/mo''), StrV ''=B26-250'']]"

definition pa_tier_headers :: "cell_value list" where
  "pa_tier_headers =
     [StrV ''Feature'',
      StrV (''Standard ('' @ [CHR 0xC2, CHR 0xA3] @ ''250/mo)''),
      StrV (''Professional ('' @ [CHR 0xC2, CHR 0xA3] @ ''300/mo)''),
      StrV ''Enterprise (Custom)'']"

definition pa_features :: "cell_value list list" where
  "pa_features =
     [[StrV ''Client Management'', StrV [CHR 0xE2, CHR 0x9C, CHR 0x93], StrV [CHR 0xE2, CHR 0x9C, CHR 0x93], StrV [CHR 0xE2, CHR 0x9C, CHR 0x93]],
      [StrV ''All 6 Assessment Types'', StrV [CHR 0xE2, CHR 0x9C, CHR 0x93], StrV [CHR 0xE2, CHR 0x9C, CHR 0x93], StrV [CHR 0xE2, CHR 0x9C, CHR 0x93]],
      [StrV ''Unlimited Clients'', StrV [CHR 0xE2, CHR 0x9C, CHR 0x93], StrV [CHR 0xE2, CHR 0x9C, CHR 0x93], StrV [CHR 0xE2, CHR 0x9C, CHR 0x93]],
      [StrV ''Document Generation'', StrV [CHR 0xE2, CHR 0x9C, CHR 0x93], StrV [CHR 0xE2, CHR 0x9C, CHR 0x93], StrV [CHR 0xE2, CHR 0x9C, CHR 0x93]],
      [StrV ''E-Signatures'', StrV ''Fair Use'', StrV ''Unlimited'', StrV ''Unlimited''],
      [StrV ''Compliance Registers'', StrV [CHR 0xE2, CHR 0x9C, CHR 0x93], StrV [CHR 0xE2, CHR 0x9C, CHR 0x93], StrV [CHR 0xE2, CHR 0x9C, CHR 0x93]],
      [StrV ''Consumer Duty Workflows'', StrV [CHR 0xE2, CHR 0x9C, CHR 0x93], StrV [CHR 0xE2, CHR 0x9C, CHR 0x93], StrV [CHR 0xE2, CHR 0x9C, CHR 0x93]],
      [StrV ''AI Enhancement'', StrV [CHR 0xE2, CHR 0x80, CHR 0x94], StrV [CHR 0xE2, CHR 0x9C, CHR 0x93], StrV [CHR 0xE2, CHR 0x9C, CHR 0x93]],
      [StrV ''Priority Support'', StrV [CHR 0xE2, CHR 0x80, CHR 0x94], StrV [CHR 0xE2, CHR 0x9C, CHR 0x93], StrV [CHR 0xE2, CHR 0x9C, CHR 0x93]],
      [StrV ''Phone Support'', StrV [CHR 0xE2, CHR 0x80, CHR 0x94], StrV [CHR 0xE2, CHR 0x9C, CHR 0x93], StrV [CHR 0xE2, CHR 0x9C, CHR 0x93]],
      [StrV ''White-label Portal'', StrV [CHR 0xE2, CHR 0x80, CHR 0x94], StrV [CHR 0xE2, CHR 0x9C, CHR 0x93], StrV [CHR 0xE2, CHR 0x9C, CHR 0x93]],
      [StrV ''Advanced Analytics'', StrV [CHR 0xE2, CHR 0x80, CHR 0x94], StrV [CHR 0xE2, CHR 0x9C, CHR 0x93], StrV [CHR 0xE2, CHR 0x9C, CHR 0x93]],
      [StrV ''API Access'', StrV [CHR 0xE2, CHR 0x80, CHR 0x94], StrV [CHR 0xE2, CHR 0x80, CHR 0x94], StrV [CHR 0xE2, CHR 0x9C, CHR 0x93]],
      [StrV ''Custom Integrations'', StrV [CHR 0xE2, CHR 0x80, CHR 0x94], StrV [CHR 0xE2, CHR 0x80, CHR 0x94], StrV [CHR 0xE2, CHR 0x9C, CHR 0x93]],
      [StrV ''Dedicated Account Manager'', StrV [CHR 0xE2, CHR 0x80, CHR 0x94], StrV [CHR 0xE2, CHR 0x80, CHR 0x94], StrV [CHR 0xE2, CHR 0x9C, CHR 0x93]],
      [StrV ''Data Migration Support'', StrV ''Self-serve'', StrV ''Assisted'', StrV ''Full Service''],
      [StrV ''Onboarding'', StrV ''2 calls'', StrV ''4 calls'', StrV ''Unlimited''],
      [StrV '''', StrV '''', StrV '''', StrV ''''],
      [StrV ''Commitment'', StrV ''2 years'', StrV ''2 years'', StrV ''3 years''],
      [StrV ''2-Year TCV'', StrV ''=250*24'', StrV ''=300*24'', StrV ''Custom''],
      [StrV ''3-Year TCV'', StrV ''=250*36'', StrV ''=300*36'', StrV ''Custom'']]"

definition pa_inputs :: "cell_value list list" where
  "pa_inputs =
     [[StrV (''Current CRM Cost ('' @ [CHR 0xC2, CHR 0xA3] @ ''/mo)''), IntV 50],
      [StrV (''Current Risk Tool Cost ('' @ [CHR 0xC2, CHR 0xA3] @ ''/mo)''), IntV 50],
      [StrV (''Current Cash Flow Tool ('' @ [CHR 0xC2, CHR 0xA3] @ ''/mo)''), IntV 100],
      [StrV (''Current Monte Carlo Tool ('' @ [CHR 0xC2, CHR 0xA3] @ ''/mo)''), IntV 100],
      [StrV (''Current Doc Gen Tool ('' @ [CHR 0xC2, CHR 0xA3] @ ''/mo)''), IntV 50],
      [StrV (''Current E-Sign Cost ('' @ [CHR 0xC2, CHR 0xA3] @ ''/mo)''), IntV 20],
      [StrV (''Current Compliance Tool ('' @ [CHR 0xC2, CHR 0xA3] @ ''/mo)''), IntV 50],
      [StrV '''', StrV ''''],
      [StrV ''Hours per client onboarding'', IntV 15],
      [StrV (''Hourly rate ('' @ [CHR 0xC2, CHR 0xA3] @ '')''), IntV 100],
      [StrV ''New clients per month'', IntV 4],
      [StrV '''', StrV ''''],
      [StrV (''Plannetic Monthly Cost ('' @ [CHR 0xC2, CHR 0xA3] @ '')''), IntV 250]]"

definition pa_results :: "cell_value list list" where
  "pa_results =
     [[StrV ''Current Total Monthly Cost'', StrV ''=SUM(B7:B13)''],
      [StrV ''Monthly Software Savings'', StrV ''=B24-B19''],
      [StrV ''Annual Software Savings'', StrV ''=B25*12''],
      [StrV '''', StrV ''''],
      [StrV ''Time Saved per Client (hrs)'', StrV ''=B15*0.6''],
      [StrV ''Value of Time Saved per Client'', StrV ''=B28*B16''],
      [StrV ''Monthly Time Value Saved'', StrV ''=B29*B17''],
      [StrV ''Annual Time Value Saved'', StrV ''=B30*12''],
      [StrV '''', StrV ''''],
      [StrV ''Total Annual Savings'', StrV ''=B26+B31''],
      [StrV ''Annual Plannetic Cost'', StrV ''=B19*12''],
      [StrV ''Net Annual Benefit'', StrV ''=B33-B34''],
      [StrV ''ROI %'', StrV ''=(B35/B34)*100'']]"

subsection \<open>Loops and charts\<close>

text \<open>Each loop of the script, named by the sheet variable and the line of its
  \<open>for\<close>; each chart, named by its variable, as a function of the title of the sheet
  its references point into.\<close>

definition pa_ws_summary_L58 :: "sheet \<Rightarrow> error + sheet" where
  "pa_ws_summary_L58 =
     for_enumerate (\<lambda>i text. run_steps [ws_setitem (''A'' @ str_nat i) text,
         ws_item_style (''A'' @ str_nat i) (set_font pa_normal_font)]) 5 pa_summary_text"

definition pa_ws_summary_L67 :: "sheet \<Rightarrow> error + sheet" where
  "pa_ws_summary_L67 =
     write_row (\<lambda>_ col header. assigns
       [set_font pa_header_font, set_fill pa_header_fill, set_alignment
       (Alignment (Some ''center'') None False), set_border pa_thin_border]) 17 1
       pa_pricing_headers"

definition pa_ws_summary_L81 :: "sheet \<Rightarrow> error + sheet" where
  "pa_ws_summary_L81 =
     write_rows (\<lambda>row_idx col_idx value. assigns
       [set_font pa_normal_font, set_border pa_thin_border, set_alignment
       (Alignment (Some ''center'') None False), cond (row_idx mod 2 = 0) (set_fill pa_alt_fill)
       id, cond (col_idx \<in> set [2, 4, 5] \<and> (is_int value \<or> is_str value) \<and>
       (is_int value \<or> startswith (str_of value) ''=''))
       (set_number_format ([CHR 0xC2, CHR 0xA3] @ ''#,##0'')) id]) 18 1 pa_pricing_data"

definition pa_ws_summary_L105 :: "sheet \<Rightarrow> error + sheet" where
  "pa_ws_summary_L105 =
     write_rows (\<lambda>row_idx col_idx value. assigns
       [cond (row_idx = 26) (assigns [set_font pa_header_font, set_fill pa_header_fill])
       (assigns [set_font pa_normal_font, cond (row_idx mod 2 = 1) (set_fill pa_alt_fill) id]),
       set_border pa_thin_border]) 26 1 pa_metrics"

definition pa_ws_calc_L158 :: "sheet \<Rightarrow> error + sheet" where
  "pa_ws_calc_L158 =
     write_row (\<lambda>_ col header. assigns
       [set_font pa_header_font, set_fill pa_header_fill, set_alignment
       (Alignment (Some ''center'') None False), set_border pa_thin_border]) 12 1 pa_calc_headers"

definition pa_ws_calc_L166 :: "sheet \<Rightarrow> error + sheet" where
  "pa_ws_calc_L166 =
     for_enumerate (\<lambda>row_idx firms. run_steps
       [cell_stmt (assigns [set_border pa_thin_border, set_alignment
       (Alignment (Some ''center'') None False)]) row_idx 1 firms,
         cell_stmt (assigns [set_number_format ([CHR 0xC2, CHR 0xA3] @ ''#,##0''), set_border
           pa_thin_border]) row_idx 2 (StrV (''=A'' @ str_nat row_idx @ ''*$B$5*24'')),
         cell_stmt (assigns [set_number_format ([CHR 0xC2, CHR 0xA3] @ ''#,##0''), set_border
           pa_thin_border]) row_idx 3 (StrV (''=A'' @ str_nat row_idx @ ''*$B$6*24'')),
         cell_stmt (assigns [set_number_format ([CHR 0xC2, CHR 0xA3] @ ''#,##0''), set_border
           pa_thin_border]) row_idx 4 (StrV (''=A'' @ str_nat row_idx @ ''*$B$5*36'')),
         cell_stmt (assigns [set_number_format ([CHR 0xC2, CHR 0xA3] @ ''#,##0''), set_border
           pa_thin_border]) row_idx 5 (StrV (''=A'' @ str_nat row_idx @ ''*$B$6*36'')),
         cell_stmt (assigns [set_number_format ([CHR 0xC2, CHR 0xA3] @ ''#,##0''), set_border
           pa_thin_border, set_fill pa_highlight_fill]) row_idx 6
           (StrV (''=E'' @ str_nat row_idx @ ''-B'' @ str_nat row_idx)),
         cell_stmt (assigns [set_number_format ([CHR 0xC2, CHR 0xA3] @ ''#,##0''), set_border
           pa_thin_border]) row_idx 7 (StrV (''=A'' @ str_nat row_idx @ ''*($B$5+$B$6)/2'')),
         cond (row_idx mod 2 = 0) (for_range (\<lambda>c. run_steps [ws_cell row_idx c None,
               (\<lambda>ws. cond (rgb_at ws (row_idx, c) = ''00000000'')
                 (ws_cell_style row_idx c (set_fill pa_alt_fill)) Inr ws)]) 1 7) Inr]) 13
                 pa_firm_counts"

definition pa_ws_calc_L209 :: "sheet \<Rightarrow> error + sheet" where
  "pa_ws_calc_L209 =
     for_range (\<lambda>col. set_column_width_idx col 18) 1 8"

definition pa_ws_growth_L240 :: "sheet \<Rightarrow> error + sheet" where
  "pa_ws_growth_L240 =
     write_row (\<lambda>_ col header. assigns
       [set_font pa_header_font, set_fill pa_header_fill, set_alignment
       (Alignment (Some ''center'') None False), set_border pa_thin_border]) 11 1
       pa_growth_headers"

definition pa_ws_growth_L287 :: "sheet \<Rightarrow> error + sheet" where
  "pa_ws_growth_L287 =
     for_range (\<lambda>row. for_range
       (\<lambda>col. ws_cell_style row col
       (assigns [set_border pa_thin_border, set_alignment
       (Alignment (Some ''center'') None False), cond (col \<ge> 5)
       (set_number_format ([CHR 0xC2, CHR 0xA3] @ ''#,##0'')) id])) 1 7) 12 17"

definition pa_ws_growth_L299 :: "sheet \<Rightarrow> error + sheet" where
  "pa_ws_growth_L299 =
     write_row (\<lambda>_ col header. assigns
       [set_font pa_header_font, set_fill pa_header_fill, set_alignment
       (Alignment (Some ''center'') None False), set_border pa_thin_border]) 21 1
       pa_growth_headers"

definition pa_ws_growth_L308 :: "sheet \<Rightarrow> error + sheet" where
  "pa_ws_growth_L308 =
     for_enumerate (\<lambda>i (year, new_firms).
       (let row = 22 + i in run_steps [ws_cell row 1 (Some (IntV (int year))),
           ws_cell row 2 (Some new_firms),
           cond (i = 0) (run_steps [ws_cell row 3 (Some (IntV 0)),
               ws_cell row 4 (Some (StrV (''=B'' @ str_nat row @ ''-C'' @ str_nat row)))])
                 (run_steps [ws_cell row 3
                 (Some (StrV (''=ROUND(D'' @ str_nat (row - 1) @ ''*$B$6/100,0)''))),
               ws_cell row 4 (Some (StrV
                 (''=D'' @ str_nat (row - 1) @ ''+B'' @ str_nat row @ ''-C'' @ str_nat row)))]),
           ws_cell row 5 (Some (StrV (''=D'' @ str_nat row @ ''*$B$5''))),
           ws_cell row 6 (Some (StrV (''=E'' @ str_nat row @ ''*12''))),
           for_range (\<lambda>col. ws_cell_style row col
             (assigns [set_border pa_thin_border, set_alignment
             (Alignment (Some ''center'') None False), cond (col \<ge> 5)
             (set_number_format ([CHR 0xC2, CHR 0xA3] @ ''#,##0'')) id])) 1 7])) 0
             (zip [1..<6] pa_moderate_new)"

definition pa_ws_growth_L332 :: "sheet \<Rightarrow> error + sheet" where
  "pa_ws_growth_L332 =
     write_row (\<lambda>_ col header. assigns
       [set_font pa_header_font, set_fill pa_header_fill, set_alignment
       (Alignment (Some ''center'') None False), set_border pa_thin_border]) 31 1
       pa_growth_headers"

definition pa_ws_growth_L341 :: "sheet \<Rightarrow> error + sheet" where
  "pa_ws_growth_L341 =
     for_enumerate (\<lambda>i (year, new_firms).
       (let row = 32 + i in run_steps [ws_cell row 1 (Some (IntV (int year))),
           ws_cell row 2 (Some new_firms),
           cond (i = 0) (run_steps [ws_cell row 3 (Some (IntV 0)),
               ws_cell row 4 (Some (StrV (''=B'' @ str_nat row @ ''-C'' @ str_nat row)))])
                 (run_steps [ws_cell row 3
                 (Some (StrV (''=ROUND(D'' @ str_nat (row - 1) @ ''*$B$6/100,0)''))),
               ws_cell row 4 (Some (StrV
                 (''=D'' @ str_nat (row - 1) @ ''+B'' @ str_nat row @ ''-C'' @ str_nat row)))]),
           ws_cell row 5 (Some (StrV (''=D'' @ str_nat row @ ''*$B$5''))),
           ws_cell row 6 (Some (StrV (''=E'' @ str_nat row @ ''*12''))),
           for_range (\<lambda>col. ws_cell_style row col
             (assigns [set_border pa_thin_border, set_alignment
             (Alignment (Some ''center'') None False), cond (col \<ge> 5)
             (set_number_format ([CHR 0xC2, CHR 0xA3] @ ''#,##0'')) id])) 1 7])) 0
             (zip [1..<6] pa_aggressive_new)"

definition pa_ws_growth_L362 :: "sheet \<Rightarrow> error + sheet" where
  "pa_ws_growth_L362 =
     for_range (\<lambda>col. set_column_width_idx col 15) 1 7"

definition pa_ws_comp_L378 :: "sheet \<Rightarrow> error + sheet" where
  "pa_ws_comp_L378 =
     write_row (\<lambda>_ col header. assigns
       [set_font pa_header_font, set_fill pa_header_fill, set_alignment
       (Alignment (Some ''center'') None False), set_border pa_thin_border]) 5 1 pa_comp_headers"

definition pa_ws_comp_L396 :: "sheet \<Rightarrow> error + sheet" where
  "pa_ws_comp_L396 =
     write_rows (\<lambda>row_idx col_idx value. assigns
       [set_font pa_normal_font, set_border pa_thin_border, cond (row_idx mod 2 = 0)
       (set_fill pa_alt_fill) id]) 6 1 pa_competitors"

definition pa_ws_comp_L409 :: "sheet \<Rightarrow> error + sheet" where
  "pa_ws_comp_L409 =
     write_row (\<lambda>_ col header. assigns
       [set_font pa_header_font, set_fill pa_header_fill, set_alignment
       (Alignment (Some ''center'') None False), set_border pa_thin_border]) 18 1 pa_stack_headers"

definition pa_ws_comp_L427 :: "sheet \<Rightarrow> error + sheet" where
  "pa_ws_comp_L427 =
     write_rows (\<lambda>row_idx col_idx value. assigns
       [set_font pa_normal_font, set_border pa_thin_border, cond (col_idx = 2 \<or> col_idx = 4)
       (set_number_format ([CHR 0xC2, CHR 0xA3] @ ''#,##0'')) id, cond (row_idx = 26)
       (assigns [set_font (Font (Some ''Arial'') (Some 10) True None), set_fill
       pa_highlight_fill]) id]) 19 1 pa_stack_data"

definition pa_ws_tiers_L455 :: "sheet \<Rightarrow> error + sheet" where
  "pa_ws_tiers_L455 =
     write_row (\<lambda>_ col header. assigns
       [set_font pa_header_font, set_fill pa_header_fill, set_alignment
       (Alignment (Some ''center'') None False), set_border pa_thin_border]) 3 1 pa_tier_headers"

definition pa_ws_tiers_L486 :: "sheet \<Rightarrow> error + sheet" where
  "pa_ws_tiers_L486 =
     write_rows (\<lambda>row_idx col_idx value. assigns
       [set_font pa_normal_font, set_border pa_thin_border, set_alignment
       (Alignment (Some (if col_idx > 1 then ''center'' else ''left'')) None False), cond
       (row_idx mod 2 = 0) (set_fill pa_alt_fill) id, cond
       (value = StrV [CHR 0xE2, CHR 0x9C, CHR 0x93])
       (set_font (Font (Some ''Arial'') (Some 10) False (Some ''059669'')))
       (assigns [cond (value = StrV [CHR 0xE2, CHR 0x80, CHR 0x94])
       (set_font (Font (Some ''Arial'') (Some 10) False (Some ''9CA3AF''))) id]), cond
       (row_idx \<in> set [22, 23] \<and> col_idx \<in> set [2, 3])
       (set_number_format ([CHR 0xC2, CHR 0xA3] @ ''#,##0'')) id]) 4 1 pa_features"

definition pa_ws_roi_L539 :: "sheet \<Rightarrow> error + sheet" where
  "pa_ws_roi_L539 =
     for_enumerate (\<lambda>row_idx entry. case entry of [label, value] \<Rightarrow>
       (run_steps [ws_cell row_idx 1 (Some label),
           ws_cell row_idx 2 (if value \<noteq> StrV '''' then Some value else None),
           cell_set (row_idx, 2)
             (assigns [cond (value \<noteq> StrV '''' \<and> truthy label)
             (assigns [set_fill (PatternFill ''FEF3C7'' ''FEF3C7'' ''solid''), set_number_format
             (if (py_in [CHR 0xC2, CHR 0xA3] (str_of label) \<or> py_in ''Cost'' (str_of label)
             \<or> py_in ''rate'' (str_of label)) then ([CHR 0xC2, CHR 0xA3] @ ''#,##0'') else
             ''0'')]) id, set_border pa_thin_border])]) | _ \<Rightarrow>
             (\<lambda>_. Inl ValueError)) 7 pa_inputs"

definition pa_ws_roi_L567 :: "sheet \<Rightarrow> error + sheet" where
  "pa_ws_roi_L567 =
     for_enumerate (\<lambda>row_idx entry. case entry of [label, formula] \<Rightarrow>
       (run_steps [ws_cell row_idx 1 (Some label),
           ws_cell row_idx 2 (if truthy formula then Some formula else None),
           cell_set (row_idx, 2)
             (assigns [set_border pa_thin_border, cond (truthy formula \<and> truthy label)
             (assigns [cond (py_in ''ROI'' (str_of label))
             (set_number_format (''0.0'' @ [CHR 0x22] @ ''%'' @ [CHR 0x22]))
             (set_number_format ([CHR 0xC2, CHR 0xA3] @ ''#,##0'')), cond
             (label \<in> set [StrV ''Total Annual Savings'', StrV ''Net Annual Benefit'',
             StrV ''ROI %'']) (assigns
             [set_fill pa_highlight_fill, set_font (Font None None True None)]) id])
             id])]) | _ \<Rightarrow> (\<lambda>_. Inl ValueError)) 24 pa_results"

subsection \<open>Sheets and the script\<close>

definition pa_ws_summary :: "sheet \<Rightarrow> error + sheet" where
  "pa_ws_summary =
     run_steps
       [ws_setitem ''A1'' (StrV ''PLANNETIC PRICING ANALYSIS''),
        ws_item_style ''A1'' (set_font pa_title_font),
        merge_cells ''A1:F1'',
        ws_setitem ''A3'' (StrV ''Executive Summary''),
        ws_item_style ''A3'' (set_font pa_subheader_font),
        pa_ws_summary_L58,
        ws_setitem ''A15'' (StrV ''Recommended Pricing Tiers''),
        ws_item_style ''A15'' (set_font pa_subheader_font),
        pa_ws_summary_L67,
        pa_ws_summary_L81,
        ws_setitem ''A24'' (StrV ''Key Metrics''),
        ws_item_style ''A24'' (set_font pa_subheader_font),
        pa_ws_summary_L105,
        set_column_width ''A'' 25,
        set_column_width ''B'' 15,
        set_column_width ''C'' 18,
        set_column_width ''D'' 15,
        set_column_width ''E'' 15,
        set_column_width ''F'' 28]"

definition pa_ws_calc :: "sheet \<Rightarrow> error + sheet" where
  "pa_ws_calc =
     run_steps
       [ws_setitem ''A1'' (StrV ''REVENUE CALCULATOR''),
        ws_item_style ''A1'' (set_font pa_title_font),
        merge_cells ''A1:G1'',
        ws_setitem ''A3'' (StrV ''INPUT PARAMETERS''),
        ws_item_style ''A3'' (set_font pa_subheader_font),
        ws_setitem ''A5'' (StrV (''Standard Monthly Rate ('' @ [CHR 0xC2, CHR 0xA3] @ '')'')),
        ws_setitem ''B5'' (IntV 250),
        ws_item_style ''B5'' (set_number_format ([CHR 0xC2, CHR 0xA3] @ ''#,##0'')),
        ws_item_style ''B5'' (set_fill (PatternFill ''FEF3C7'' ''FEF3C7'' ''solid'')),
        ws_setitem ''A6'' (StrV (''Professional Monthly Rate ('' @ [CHR 0xC2, CHR 0xA3] @ '')'')),
        ws_setitem ''B6'' (IntV 300),
        ws_item_style ''B6'' (set_number_format ([CHR 0xC2, CHR 0xA3] @ ''#,##0'')),
        ws_item_style ''B6'' (set_fill (PatternFill ''FEF3C7'' ''FEF3C7'' ''solid'')),
        ws_setitem ''A7'' (StrV (''Monthly Rate (no commitment) ('' @ [CHR 0xC2, CHR 0xA3] @ '')'')),
        ws_setitem ''B7'' (IntV 350),
        ws_item_style ''B7'' (set_number_format ([CHR 0xC2, CHR 0xA3] @ ''#,##0'')),
        ws_item_style ''B7'' (set_fill (PatternFill ''FEF3C7'' ''FEF3C7'' ''solid'')),
        ws_setitem ''A10'' (StrV ''REVENUE BY NUMBER OF FIRMS''),
        ws_item_style ''A10'' (set_font pa_subheader_font),
        pa_ws_calc_L158,
        pa_ws_calc_L166,
        pa_ws_calc_L209]"

definition pa_ws_growth :: "sheet \<Rightarrow> error + sheet" where
  "pa_ws_growth =
     run_steps
       [ws_setitem ''A1'' (StrV ''GROWTH PROJECTIONS''),
        ws_item_style ''A1'' (set_font pa_title_font),
        merge_cells ''A1:F1'',
        ws_setitem ''A3'' (StrV ''SCENARIO INPUTS''),
        ws_item_style ''A3'' (set_font pa_subheader_font),
        ws_setitem ''A5'' (StrV (''Monthly Rate ('' @ [CHR 0xC2, CHR 0xA3] @ '')'')),
        ws_setitem ''B5'' (IntV 250),
        ws_item_style ''B5'' (set_number_format ([CHR 0xC2, CHR 0xA3] @ ''#,##0'')),
        ws_item_style ''B5'' (set_fill (PatternFill ''FEF3C7'' ''FEF3C7'' ''solid'')),
        ws_setitem ''A6'' (StrV ''Churn Rate (%)''),
        ws_setitem ''B6'' (IntV 5),
        ws_item_style ''B6'' (set_number_format ''0%''),
        ws_item_style ''B6'' (set_fill (PatternFill ''FEF3C7'' ''FEF3C7'' ''solid'')),
        ws_setitem ''A9'' (StrV ''CONSERVATIVE GROWTH (10 new firms/year)''),
        ws_item_style ''A9'' (set_font pa_subheader_font),
        pa_ws_growth_L240,
        ws_setitem ''A12'' (IntV 1),
        ws_setitem ''B12'' (IntV 10),
        ws_setitem ''C12'' (IntV 0),
        ws_setitem ''D12'' (StrV ''=B12-C12''),
        ws_setitem ''E12'' (StrV ''=D12*$B$5''),
        ws_setitem ''F12'' (StrV ''=E12*12''),
        ws_setitem ''A13'' (IntV 2),
        ws_setitem ''B13'' (IntV 10),
        ws_setitem ''C13'' (StrV ''=ROUND(D12*$B$6/100,0)''),
        ws_setitem ''D13'' (StrV ''=D12+B13-C13''),
        ws_setitem ''E13'' (StrV ''=D13*$B$5''),
        ws_setitem ''F13'' (StrV ''=E13*12''),
        ws_setitem ''A14'' (IntV 3),
        ws_setitem ''B14'' (IntV 15),
        ws_setitem ''C14'' (StrV ''=ROUND(D13*$B$6/100,0)''),
        ws_setitem ''D14'' (StrV ''=D13+B14-C14''),
        ws_setitem ''E14'' (StrV ''=D14*$B$5''),
        ws_setitem ''F14'' (StrV ''=E14*12''),
        ws_setitem ''A15'' (IntV 4),
        ws_setitem ''B15'' (IntV 20),
        ws_setitem ''C15'' (StrV ''=ROUND(D14*$B$6/100,0)''),
        ws_setitem ''D15'' (StrV ''=D14+B15-C15''),
        ws_setitem ''E15'' (StrV ''=D15*$B$5''),
        ws_setitem ''F15'' (StrV ''=E15*12''),
        ws_setitem ''A16'' (IntV 5),
        ws_setitem ''B16'' (IntV 25),
        ws_setitem ''C16'' (StrV ''=ROUND(D15*$B$6/100,0)''),
        ws_setitem ''D16'' (StrV ''=D15+B16-C16''),
        ws_setitem ''E16'' (StrV ''=D16*$B$5''),
        ws_setitem ''F16'' (StrV ''=E16*12''),
        pa_ws_growth_L287,
        ws_setitem ''A19'' (StrV ''MODERATE GROWTH (25 new firms/year)''),
        ws_item_style ''A19'' (set_font pa_subheader_font),
        pa_ws_growth_L299,
        pa_ws_growth_L308,
        ws_setitem ''A29'' (StrV ''AGGRESSIVE GROWTH (50 new firms/year)''),
        ws_item_style ''A29'' (set_font pa_subheader_font),
        pa_ws_growth_L332,
        pa_ws_growth_L341,
        pa_ws_growth_L362]"

definition pa_ws_comp :: "sheet \<Rightarrow> error + sheet" where
  "pa_ws_comp =
     run_steps
       [ws_setitem ''A1'' (StrV ''COMPETITIVE ANALYSIS''),
        ws_item_style ''A1'' (set_font pa_title_font),
        merge_cells ''A1:E1'',
        ws_setitem ''A3'' (StrV ''UK IFA Software Market Comparison''),
        ws_item_style ''A3'' (set_font pa_subheader_font),
        pa_ws_comp_L378,
        pa_ws_comp_L396,
        ws_setitem ''A16'' (StrV ''Typical IFA Tool Stack vs Plannetic''),
        ws_item_style ''A16'' (set_font pa_subheader_font),
        pa_ws_comp_L409,
        pa_ws_comp_L427,
        set_column_width ''A'' 22,
        set_column_width ''B'' 15,
        set_column_width ''C'' 25,
        set_column_width ''D'' 22,
        set_column_width ''E'' 25]"

definition pa_ws_tiers :: "sheet \<Rightarrow> error + sheet" where
  "pa_ws_tiers =
     run_steps
       [ws_setitem ''A1'' (StrV ''PLANNETIC PRICING TIERS''),
        ws_item_style ''A1'' (set_font pa_title_font),
        merge_cells ''A1:D1'',
        pa_ws_tiers_L455,
        pa_ws_tiers_L486,
        set_column_width ''A'' 25,
        set_column_width ''B'' 22,
        set_column_width ''C'' 22,
        set_column_width ''D'' 22]"

definition pa_ws_roi :: "sheet \<Rightarrow> error + sheet" where
  "pa_ws_roi =
     run_steps
       [ws_setitem ''A1'' (StrV ''CLIENT ROI CALCULATOR''),
        ws_item_style ''A1'' (set_font pa_title_font),
        merge_cells ''A1:D1'',
        ws_setitem ''A3'' (StrV ''Calculate ROI for your clients''),
        ws_item_style ''A3'' (set_font pa_subheader_font),
        ws_setitem ''A5'' (StrV ''INPUTS (edit yellow cells)''),
        ws_item_style ''A5'' (set_font (Font None None True None)),
        pa_ws_roi_L539,
        ws_setitem ''A22'' (StrV ''RESULTS''),
        ws_item_style ''A22'' (set_font (Font None None True None)),
        pa_ws_roi_L567,
        set_column_width ''A'' 35,
        set_column_width ''B'' 18]"

definition pa_output_path :: string where
  "pa_output_path = ''/Users/adeomosanya/Documents/ifa-professional-portal/ifa-platform/Plannetic-Pricing-Analysis.xlsx''"

definition pa_build :: "error + workbook" where
  "pa_build =
     run_steps
       [set_title active ''Executive Summary'',
        on_sheet active pa_ws_summary,
        with_new_sheet ''Revenue Calculator'' (\<lambda>ws_calc. on_sheet ws_calc pa_ws_calc),
        with_new_sheet ''Growth Projections'' (\<lambda>ws_growth. on_sheet ws_growth pa_ws_growth),
        with_new_sheet ''Competitive Analysis'' (\<lambda>ws_comp. on_sheet ws_comp pa_ws_comp),
        with_new_sheet ''Tier Comparison'' (\<lambda>ws_tiers. on_sheet ws_tiers pa_ws_tiers),
        with_new_sheet ''ROI Calculator'' (\<lambda>ws_roi. on_sheet ws_roi pa_ws_roi)]
       Workbook"

definition pa_main :: "proc_env \<Rightarrow> error + workbook" where
  "pa_main env =
     (case import_openpyxl env of
        Inl e \<Rightarrow> Inl e
      | Inr _ \<Rightarrow> (case pa_build of Inl e \<Rightarrow> Inl e | Inr wb \<Rightarrow> save env pa_output_path wb))"

section \<open>Notions the claims are stated with\<close>

text \<open>The Table invariant of the data model: every row has as many values as there are
  headers.\<close>

definition table_invariant :: "'a list \<Rightarrow> 'b list list \<Rightarrow> bool" where
  "table_invariant headers rows = list_all (\<lambda>row. length row = length headers) rows"

text \<open>The conditional-fill mapping that the status branch of the cyber-essentials data loop
  amounts to, as a mapping from a cell text to a fill, and the fill it gives a value.\<close>

definition ce_conditional_fills :: "(string \<times> pattern_fill) list" where
  "ce_conditional_fills =
     [(''Ready'', PatternFill ''C6EFCE'' ''C6EFCE'' ''solid''),
      (''Pending'', PatternFill ''FFEB9C'' ''FFEB9C'' ''solid''),
      (''Confirm'', PatternFill ''BDD7EE'' ''BDD7EE'' ''solid''),
      (''Partial'', PatternFill ''FCE4D6'' ''FCE4D6'' ''solid'')]"

definition mapped_fill :: "(string \<times> pattern_fill) list \<Rightarrow> cell_value \<Rightarrow> pattern_fill option" where
  "mapped_fill m v = (case v of StrV t \<Rightarrow> map_of m t | IntV _ \<Rightarrow> None | FloatV _ \<Rightarrow> None)"

text \<open>The effect of a statement on the values of a sheet: the statement succeeds on every
  sheet, and the values afterwards are a function \<open>u\<close> of the values before.\<close>

definition val_effect ::
  "(sheet \<Rightarrow> error + sheet) \<Rightarrow> ((nat \<times> nat \<Rightarrow> cell_value option) \<Rightarrow> nat \<times> nat \<Rightarrow> cell_value option) \<Rightarrow> bool" where
  "val_effect stmt u = (\<forall>ws. \<exists>ws'. stmt ws = Inr ws' \<and> value_at ws' = u (value_at ws))"

text \<open>The value the firm-count loop of the Revenue Calculator writes into column \<open>c\<close> (1 to
  7) of row \<open>r\<close> for the firm count \<open>firms\<close>: the formulas of the claim. A row keeps what it
  holds in any other column.\<close>

definition revenue_cell :: "nat \<Rightarrow> cell_value \<Rightarrow> nat \<Rightarrow> cell_value" where
  "revenue_cell r firms c =
     (if c = 1 then firms
      else if c = 2 then StrV (''=A'' @ str_nat r @ ''*$B$5*24'')
      else if c = 3 then StrV (''=A'' @ str_nat r @ ''*$B$6*24'')
      else if c = 4 then StrV (''=A'' @ str_nat r @ ''*$B$5*36'')
      else if c = 5 then StrV (''=A'' @ str_nat r @ ''*$B$6*36'')
      else if c = 6 then StrV (''=E'' @ str_nat r @ ''-B'' @ str_nat r)
      else StrV (''=A'' @ str_nat r @ ''*($B$5+$B$6)/2''))"

definition revenue_row :: "nat \<Rightarrow> cell_value \<Rightarrow> nat \<Rightarrow> cell_value option \<Rightarrow> cell_value option" where
  "revenue_row r firms c old = (if 1 \<le> c \<and> c \<le> 7 then Some (revenue_cell r firms c) else old)"

section \<open>The table loops in closed form\<close>

lemma cell_stmt_eq:
  "1 \<le> r \<Longrightarrow> 1 \<le> c \<Longrightarrow>
   cell_stmt sty r c v ws = Inr (ws\<lparr>cells := (cells ws)((r, c) \<mapsto> written sty v ws (r, c))\<rparr>)"
  by (simp add: cell_stmt_def ws_cell_def upd_cell_def written_def get_cell_def)

lemma write_row_eq:
  "1 \<le> r \<Longrightarrow> 1 \<le> c0 \<Longrightarrow>
   write_row sty r c0 vs ws = Inr (ws\<lparr>cells := row_cells sty r c0 vs ws\<rparr>)"
proof (induction vs arbitrary: c0 ws)
  case Nil
  have "row_cells sty r c0 [] ws = cells ws" by (auto simp: row_cells_def fun_eq_iff)
  then show ?case by (simp add: write_row_def)
next
  case (Cons v vs)
  let ?ws1 = "ws\<lparr>cells := (cells ws)((r, c0) \<mapsto> written (sty r c0 v) v ws (r, c0))\<rparr>"
  have step: "write_row sty r c0 (v # vs) ws = write_row sty r (Suc c0) vs ?ws1"
    using Cons.prems by (simp add: write_row_def cell_stmt_eq)
  have ih: "write_row sty r (Suc c0) vs ?ws1 = Inr (?ws1\<lparr>cells := row_cells sty r (Suc c0) vs ?ws1\<rparr>)"
    using Cons.prems by (intro Cons.IH) simp_all
  have "row_cells sty r (Suc c0) vs ?ws1 = row_cells sty r c0 (v # vs) ws"
    by (auto simp: fun_eq_iff row_cells_def written_def get_cell_def nth_Cons' Suc_diff_Suc)
  then show ?case by (simp add: step ih)
qed

lemma write_rows_eq:
  "1 \<le> r0 \<Longrightarrow> 1 \<le> c0 \<Longrightarrow>
   write_rows sty r0 c0 rows ws = Inr (ws\<lparr>cells := rows_cells sty r0 c0 rows ws\<rparr>)"
proof (induction rows arbitrary: r0 ws)
  case Nil
  have "rows_cells sty r0 c0 [] ws = cells ws" by (auto simp: rows_cells_def fun_eq_iff)
  then show ?case by (simp add: write_rows_def)
next
  case (Cons row rows)
  let ?ws1 = "ws\<lparr>cells := row_cells sty r0 c0 row ws\<rparr>"
  have step: "write_rows sty r0 c0 (row # rows) ws = write_rows sty (Suc r0) c0 rows ?ws1"
    using Cons.prems by (simp add: write_rows_def write_row_eq)
  have ih: "write_rows sty (Suc r0) c0 rows ?ws1 =
      Inr (?ws1\<lparr>cells := rows_cells sty (Suc r0) c0 rows ?ws1\<rparr>)"
    using Cons.prems by (intro Cons.IH) simp_all
  have "rows_cells sty (Suc r0) c0 rows ?ws1 = rows_cells sty r0 c0 (row # rows) ws"
    by (auto simp: fun_eq_iff rows_cells_def row_cells_def written_def get_cell_def nth_Cons'
        Suc_diff_Suc)
  then show ?case by (simp add: step ih)
qed

lemma write_table_eq:
  "1 \<le> r0 \<Longrightarrow> 1 \<le> c0 \<Longrightarrow>
   write_table hsty bsty (r0, c0) headers rows ws =
     Inr (ws\<lparr>cells := rows_cells bsty (Suc r0) c0 rows
                        (ws\<lparr>cells := row_cells (\<lambda>_ _ _. hsty) r0 c0 headers ws\<rparr>)\<rparr>)"
  by (simp add: write_table_def write_row_eq write_rows_eq)

lemma value_written [simp]: "c_value (written sty v ws rc) = Some v"
  by (simp add: written_def)

lemma style_written [simp]: "c_style (written sty v ws rc) = sty (c_style (get_cell ws rc))"
  by (simp add: written_def)

text \<open>A table read back: the header row, the data rows, and everything else.\<close>

lemma table_header_cell:
  "j < length headers \<Longrightarrow>
   rows_cells bsty (Suc r0) c0 rows (ws\<lparr>cells := row_cells (\<lambda>_ _ _. hsty) r0 c0 headers ws\<rparr>)
     (r0, c0 + j) = Some (written hsty (headers ! j) ws (r0, c0 + j))"
  by (simp add: rows_cells_def row_cells_def written_def get_cell_def)

lemma table_data_cell:
  "i < length rows \<Longrightarrow> j < length (rows ! i) \<Longrightarrow>
   rows_cells bsty (Suc r0) c0 rows (ws\<lparr>cells := row_cells (\<lambda>_ _ _. hsty) r0 c0 headers ws\<rparr>)
     (Suc (r0 + i), c0 + j) =
   Some (written (bsty (Suc (r0 + i)) (c0 + j) (rows ! i ! j)) (rows ! i ! j) ws
           (Suc (r0 + i), c0 + j))"
  by (simp add: rows_cells_def row_cells_def written_def get_cell_def)

lemma table_other_cell:
  "\<not> (r = r0 \<and> c0 \<le> c \<and> c < c0 + length headers) \<Longrightarrow>
   \<not> (r0 < r \<and> r \<le> r0 + length rows \<and> c0 \<le> c \<and> c < c0 + length (rows ! (r - Suc r0))) \<Longrightarrow>
   rows_cells bsty (Suc r0) c0 rows (ws\<lparr>cells := row_cells (\<lambda>_ _ _. hsty) r0 c0 headers ws\<rparr>)
     (r, c) = cells ws (r, c)"
  by (auto simp: rows_cells_def row_cells_def)

section \<open>The style assignments of the data loops\<close>

lemma assigns_simps [simp]:
  "assigns [] s = s" "assigns (f # fs) s = assigns fs (f s)"
  by (simp_all add: assigns_def)

lemma s_fill_setters [simp]:
  "s_fill (set_fill x s) = x"
  "s_fill (set_font f s) = s_fill s"
  "s_fill (set_alignment a s) = s_fill s"
  "s_fill (set_border b s) = s_fill s"
  "s_fill (set_number_format n s) = s_fill s"
  by (simp_all add: set_fill_def set_font_def set_alignment_def set_border_def
      set_number_format_def)

lemma ce_status_fill_mapped:
  "s_fill (ce_status_fill v s) =
     (case mapped_fill ce_conditional_fills v of None \<Rightarrow> s_fill s | Some f \<Rightarrow> f)"
  by (cases v) (simp_all add: ce_status_fill_def mapped_fill_def ce_conditional_fills_def)

lemma ce_body_fill:
  "s_fill (ce_body_style r c v s) =
     (if c = 7 then (case mapped_fill ce_conditional_fills v of None \<Rightarrow> s_fill s | Some f \<Rightarrow> f)
      else s_fill s)"
  by (simp add: ce_body_style_def ce_status_fill_mapped split: option.split)

lemma mema_body_fill:
  "s_fill (mema_body_style r c (StrV v) s) =
     (if c = 5 then
        (if v = ''Ready'' then ready_fill
         else if py_in ''ACTION'' v \<or> py_in ''Confirm'' v then action_fill
         else s_fill s)
      else s_fill s)"
  by (simp add: mema_body_style_def mema_status_fill_def str_of_def)

lemma write_rows_style_at:
  assumes "1 \<le> r0" "1 \<le> c0" "i < length rows" "j < length (rows ! i)"
  shows "\<exists>ws'. write_rows sty r0 c0 rows ws = Inr ws' \<and>
     style_at ws' (r0 + i, c0 + j) =
       Some (sty (r0 + i) (c0 + j) (rows ! i ! j) (c_style (get_cell ws (r0 + i, c0 + j)))) \<and>
     value_at ws' (r0 + i, c0 + j) = Some (rows ! i ! j)"
  using assms by (simp add: write_rows_eq style_at_def value_at_def rows_cells_def)

lemma ce_table:
  "run_steps [ce_write_headers headers, ce_write_data data]
     = write_table ce_header_style ce_body_style (1, 1) headers data"
  by (simp add: write_table_def ce_write_headers_def ce_write_data_def fun_eq_iff numeral_2_eq_2)

text \<open>The substring test is containment.\<close>

lemma startswith_iff: "startswith s p \<longleftrightarrow> (\<exists>t. s = p @ t)"
  by (induction s p rule: startswith.induct) auto

lemma py_in_iff: "py_in sub s \<longleftrightarrow> (\<exists>p t. s = p @ sub @ t)"
proof (induction s)
  case Nil
  then show ?case by simp
next
  case (Cons c cs)
  show ?case
  proof
    assume "py_in sub (c # cs)"
    then consider "startswith (c # cs) sub" | "py_in sub cs" by auto
    then show "\<exists>p t. c # cs = p @ sub @ t"
    proof cases
      case 1
      then obtain t where "c # cs = sub @ t" by (auto simp: startswith_iff)
      then have "c # cs = [] @ sub @ t" by simp
      then show ?thesis by blast
    next
      case 2
      then obtain p t where "cs = p @ sub @ t" using Cons.IH by blast
      then have "c # cs = (c # p) @ sub @ t" by simp
      then show ?thesis by blast
    qed
  next
    assume "\<exists>p t. c # cs = p @ sub @ t"
    then obtain p t where e: "c # cs = p @ sub @ t" by blast
    show "py_in sub (c # cs)"
    proof (cases p)
      case Nil
      with e have "startswith (c # cs) sub" by (auto simp: startswith_iff)
      then show ?thesis by simp
    next
      case (Cons a p')
      with e have "cs = p' @ sub @ t" by simp
      then have "py_in sub cs" using Cons.IH by blast
      then show ?thesis by simp
    qed
  qed
qed

lemma fills_distinct:
  "ready_fill \<noteq> action_fill" "ready_fill \<noteq> default_fill" "action_fill \<noteq> default_fill"
  by (simp_all add: ready_fill_def action_fill_def default_fill_def PatternFill_def)

section \<open>Creating sheets\<close>

lemma new_sheet_sel [simp]:
  "sh_title (new_sheet t) = t" "cells (new_sheet t) = Map.empty" "charts (new_sheet t) = []"
  by (simp_all add: new_sheet_def)




section \<open>The effect of statements and loops on the values of a sheet\<close>

lemma val_effectI:
  "(\<And>ws. \<exists>ws'. stmt ws = Inr ws' \<and> value_at ws' = u (value_at ws)) \<Longrightarrow> val_effect stmt u"
  by (simp add: val_effect_def)

lemma val_effectD:
  "val_effect stmt u \<Longrightarrow> \<exists>ws'. stmt ws = Inr ws' \<and> value_at ws' = u (value_at ws)"
  by (simp add: val_effect_def)

lemma value_at_upd_cell [simp]: "value_at (upd_cell rc f ws) = value_at ws"
  by (auto simp: value_at_def upd_cell_def get_cell_def default_cell_def fun_eq_iff split: option.split)

lemma ve_cell_stmt:
  "1 \<le> r \<Longrightarrow> 1 \<le> c \<Longrightarrow> val_effect (cell_stmt sty r c v) (\<lambda>m. m((r, c) := Some v))"
  by (rule val_effectI) (auto simp: cell_stmt_eq value_at_def fun_eq_iff)

lemma ws_cell_style_eq:
  "1 \<le> r \<Longrightarrow> 1 \<le> c \<Longrightarrow> ws_cell_style r c f ws = Inr (upd_cell (r, c) f ws)"
  by (simp add: ws_cell_style_def ws_cell_def upd_cell_def get_cell_def)

lemma ve_ws_cell_style:
  "1 \<le> r \<Longrightarrow> 1 \<le> c \<Longrightarrow> val_effect (ws_cell_style r c f) (\<lambda>m. m)"
  by (rule val_effectI) (simp add: ws_cell_style_eq)

lemma ve_ws_cell_None:
  "1 \<le> r \<Longrightarrow> 1 \<le> c \<Longrightarrow> val_effect (ws_cell r c None) (\<lambda>m. m)"
  by (rule val_effectI)
     (auto simp: ws_cell_def value_at_def get_cell_def default_cell_def fun_eq_iff split: option.split)

lemma ve_ws_cell_Some:
  "1 \<le> r \<Longrightarrow> 1 \<le> c \<Longrightarrow> val_effect (ws_cell r c (Some v)) (\<lambda>m. m((r, c) := Some v))"
  by (rule val_effectI) (auto simp: ws_cell_def value_at_def fun_eq_iff)

lemma ve_cell_set: "val_effect (cell_set rc f) (\<lambda>m. m)"
  by (rule val_effectI) (simp add: cell_set_def)

lemma ve_ws_setitem:
  "coordinate key = Some rc \<Longrightarrow> val_effect (ws_setitem key v) (\<lambda>m. m(rc := Some v))"
  by (rule val_effectI) (auto simp: ws_setitem_def value_at_def fun_eq_iff)

lemma ve_ws_item_style:
  "coordinate key = Some rc \<Longrightarrow> val_effect (ws_item_style key f) (\<lambda>m. m)"
  by (rule val_effectI) (simp add: ws_item_style_def)

lemma value_at_cells_cong: "cells ws' = cells ws \<Longrightarrow> value_at ws' = value_at ws"
  by (simp add: value_at_def fun_eq_iff)

lemma value_at_frame [simp]:
  "value_at (ws\<lparr>merged_cells := a\<rparr>) = value_at ws"
  "value_at (ws\<lparr>column_widths := b\<rparr>) = value_at ws"
  "value_at (ws\<lparr>freeze_panes := c\<rparr>) = value_at ws"
  "value_at (ws\<lparr>charts := d\<rparr>) = value_at ws"
  by (simp_all add: value_at_def fun_eq_iff)

lemma ve_merge_cells: "val_effect (merge_cells rng) (\<lambda>m. m)"
  by (rule val_effectI) (simp add: merge_cells_def)

lemma ve_set_column_width: "val_effect (set_column_width l w) (\<lambda>m. m)"
  by (rule val_effectI) (simp add: set_column_width_def)

lemma ve_set_column_width_idx:
  "1 \<le> i \<Longrightarrow> i \<le> 18278 \<Longrightarrow> val_effect (set_column_width_idx i w) (\<lambda>m. m)"
  by (rule val_effectI)
     (simp add: set_column_width_idx_def get_column_letter_def set_column_width_def)

lemma ve_set_freeze_panes: "val_effect (set_freeze_panes k) (\<lambda>m. m)"
  by (rule val_effectI) (simp add: set_freeze_panes_def)

lemma ve_add_chart: "val_effect (\<lambda>ws. add_chart (ch ws) a ws) (\<lambda>m. m)"
  by (rule val_effectI) (simp add: add_chart_def)

lemma ve_Inr: "val_effect Inr (\<lambda>m. m)"
  by (rule val_effectI) simp

lemma ve_run_steps_Nil: "val_effect (run_steps []) (\<lambda>m. m)"
  by (rule val_effectI) simp

lemma ve_run_steps_Cons:
  assumes "val_effect f u" "val_effect (run_steps fs) u'"
  shows "val_effect (run_steps (f # fs)) (\<lambda>m. u' (u m))"
proof (rule val_effectI)
  fix ws
  from val_effectD [OF assms(1), of ws] obtain w1 where 1: "f ws = Inr w1" "value_at w1 = u (value_at ws)"
    by blast
  from val_effectD [OF assms(2), of w1] obtain w2 where 2: "run_steps fs w1 = Inr w2"
      "value_at w2 = u' (value_at w1)"
    by blast
  show "\<exists>ws'. run_steps (f # fs) ws = Inr ws' \<and> value_at ws' = u' (u (value_at ws))"
    using 1 2 by simp
qed

lemma ve_cond:
  "(c \<Longrightarrow> val_effect A u) \<Longrightarrow> (\<not> c \<Longrightarrow> val_effect B u) \<Longrightarrow> val_effect (cond c A B) u"
  by (cases c) (simp_all add: cond_def val_effect_def)

lemma ve_cond2:
  "val_effect A u \<Longrightarrow> val_effect B u' \<Longrightarrow> val_effect (cond c A B) (if c then u else u')"
  by (cases c) (simp_all add: cond_def val_effect_def)

lemma ve_state_cond:
  "val_effect A (\<lambda>m. m) \<Longrightarrow> val_effect (\<lambda>ws. cond (P ws) A Inr ws) (\<lambda>m. m)"
  by (simp add: cond_def val_effect_def)

lemma ve_let: "val_effect (f e) u \<Longrightarrow> val_effect (let x = e in f x) u"
  by simp

text \<open>A loop whose body at index \<open>i\<close> changes values in row \<open>off + i\<close> only.\<close>

lemma ve_for_enumerate_rows:
  assumes body: "\<And>i x. start \<le> i \<Longrightarrow>
     val_effect (body i x) (\<lambda>m rc. if fst rc = off + i then rowf i x (snd rc) (m rc) else m rc)"
  shows "val_effect (for_enumerate body start xs)
     (\<lambda>m rc. if off + start \<le> fst rc \<and> fst rc < off + start + length xs
              then rowf (fst rc - off) (xs ! (fst rc - off - start)) (snd rc) (m rc) else m rc)"
  using body
proof (induction xs arbitrary: start)
  case Nil
  show ?case by (rule val_effectI) (auto simp: fun_eq_iff)
next
  case (Cons x xs)
  show ?case
  proof (rule val_effectI)
    fix ws
    from val_effectD [OF Cons.prems [of start x], of ws] obtain w1 where
      1: "body start x ws = Inr w1"
         "value_at w1 = (\<lambda>rc. if fst rc = off + start then rowf start x (snd rc) (value_at ws rc)
                                else value_at ws rc)"
      by auto
    have "val_effect (for_enumerate body (Suc start) xs)
       (\<lambda>m rc. if off + Suc start \<le> fst rc \<and> fst rc < off + Suc start + length xs
              then rowf (fst rc - off) (xs ! (fst rc - off - Suc start)) (snd rc) (m rc) else m rc)"
      by (rule Cons.IH) (simp add: Cons.prems)
    from val_effectD [OF this, of w1] obtain w2 where
      2: "for_enumerate body (Suc start) xs w1 = Inr w2"
         "value_at w2 = (\<lambda>rc. if off + Suc start \<le> fst rc \<and> fst rc < off + Suc start + length xs
              then rowf (fst rc - off) (xs ! (fst rc - off - Suc start)) (snd rc) (value_at w1 rc)
              else value_at w1 rc)"
      by blast
    have "value_at w2 = (\<lambda>rc. if off + start \<le> fst rc \<and> fst rc < off + start + length (x # xs)
              then rowf (fst rc - off) ((x # xs) ! (fst rc - off - start)) (snd rc) (value_at ws rc)
              else value_at ws rc)"
      unfolding 2(2) 1(2)
      by (auto simp: fun_eq_iff nth_Cons' )
    then show "\<exists>ws'. for_enumerate body start (x # xs) ws = Inr ws' \<and>
       value_at ws' = (\<lambda>rc. if off + start \<le> fst rc \<and> fst rc < off + start + length (x # xs)
              then rowf (fst rc - off) ((x # xs) ! (fst rc - off - start)) (snd rc) (value_at ws rc)
              else value_at ws rc)"
      using 1(1) 2(1) by simp
  qed
qed

text \<open>A loop whose body changes no value.\<close>

lemma ve_for_enumerate_id:
  assumes "\<And>i x. start \<le> i \<Longrightarrow> i < start + length xs \<Longrightarrow> val_effect (body i x) (\<lambda>m. m)"
  shows "val_effect (for_enumerate body start xs) (\<lambda>m. m)"
  using assms
proof (induction xs arbitrary: start)
  case Nil
  show ?case by (rule val_effectI) simp
next
  case (Cons x xs)
  have b: "val_effect (body start x) (\<lambda>m. m)" by (rule Cons.prems) simp_all
  have r: "val_effect (for_enumerate body (Suc start) xs) (\<lambda>m. m)"
    by (rule Cons.IH) (simp add: Cons.prems)
  show ?case
  proof (rule val_effectI)
    fix ws
    from val_effectD [OF b, of ws] obtain w1 where 1: "body start x ws = Inr w1" "value_at w1 = value_at ws"
      by auto
    from val_effectD [OF r, of w1] obtain w2 where 2: "for_enumerate body (Suc start) xs w1 = Inr w2"
      "value_at w2 = value_at w1"
      by auto
    show "\<exists>ws'. for_enumerate body start (x # xs) ws = Inr ws' \<and> value_at ws' = value_at ws"
      using 1 2 by simp
  qed
qed

lemma ve_eq: "val_effect f u \<Longrightarrow> u = u' \<Longrightarrow> val_effect f u'"
  by simp

lemma ve_for_range_id:
  "(\<And>i. a \<le> i \<Longrightarrow> i < b \<Longrightarrow> val_effect (body i) (\<lambda>m. m)) \<Longrightarrow> val_effect (for_range body a b) (\<lambda>m. m)"
  unfolding for_range_def by (rule ve_for_enumerate_id) simp

lemma ve_for_range_rows:
  assumes "\<And>i. a \<le> i \<Longrightarrow>
     val_effect (body i) (\<lambda>m rc. if fst rc = off + i then rowf i (snd rc) (m rc) else m rc)"
  shows "val_effect (for_range body a b)
     (\<lambda>m rc. if off + a \<le> fst rc \<and> fst rc < off + b then rowf (fst rc - off) (snd rc) (m rc) else m rc)"
proof -
  have "val_effect (for_enumerate (\<lambda>i (_::nat). body i) a [a..<b])
     (\<lambda>m rc. if off + a \<le> fst rc \<and> fst rc < off + a + length [a..<b]
              then (\<lambda>i (_::nat). rowf i) (fst rc - off) ([a..<b] ! (fst rc - off - a)) (snd rc) (m rc) else m rc)"
    by (rule ve_for_enumerate_rows) (use assms in simp)
  then show ?thesis
    unfolding for_range_def by (rule ve_eq) (auto simp: fun_eq_iff)
qed

lemma ve_write_row:
  "1 \<le> r \<Longrightarrow> 1 \<le> c0 \<Longrightarrow>
   val_effect (write_row sty r c0 vs)
     (\<lambda>m rc. if fst rc = r \<and> c0 \<le> snd rc \<and> snd rc < c0 + length vs
              then Some (vs ! (snd rc - c0)) else m rc)"
  by (rule val_effectI) (auto simp: write_row_eq value_at_def row_cells_def fun_eq_iff)

lemma ve_write_rows:
  "1 \<le> r0 \<Longrightarrow> 1 \<le> c0 \<Longrightarrow>
   val_effect (write_rows sty r0 c0 rows)
     (\<lambda>m rc. if r0 \<le> fst rc \<and> fst rc < r0 + length rows \<and> c0 \<le> snd rc \<and>
                 snd rc < c0 + length (rows ! (fst rc - r0))
              then Some (rows ! (fst rc - r0) ! (snd rc - c0)) else m rc)"
  by (rule val_effectI) (auto simp: write_rows_eq value_at_def rows_cells_def fun_eq_iff)

lemma ve_ws_setitem_the:
  "coordinate key \<noteq> None \<Longrightarrow>
   val_effect (ws_setitem key v) (\<lambda>m. m(the (coordinate key) := Some v))"
  by (rule val_effectI) (auto simp: ws_setitem_def value_at_def fun_eq_iff)

lemma ve_ws_item_style_the:
  "coordinate key \<noteq> None \<Longrightarrow> val_effect (ws_item_style key f) (\<lambda>m. m)"
  by (rule val_effectI) (auto simp: ws_item_style_def)

lemmas coord_defs = coordinate_def is_upper_def is_digit_def int_of_digits_def digit_val_def
  column_index_from_string_def

lemmas ve_rules = ve_cell_stmt ve_ws_cell_style ve_ws_cell_None ve_ws_cell_Some ve_cell_set
  ve_ws_setitem_the ve_ws_item_style_the ve_merge_cells ve_set_column_width
  ve_set_column_width_idx ve_set_freeze_panes ve_add_chart ve_Inr ve_run_steps_Nil
  ve_run_steps_Cons ve_cond2 ve_state_cond ve_let ve_write_row ve_write_rows

section \<open>The Revenue Calculator sheets\<close>

lemma v2_calc_loop:
  "val_effect v2_ws_calc_L345
     (\<lambda>m rc. if 13 \<le> fst rc \<and> fst rc < 13 + length v2_firm_counts
              then revenue_row (fst rc) (v2_firm_counts ! (fst rc - 13)) (snd rc) (m rc) else m rc)"
proof -
  have "val_effect v2_ws_calc_L345
     (\<lambda>m rc. if 0 + 13 \<le> fst rc \<and> fst rc < 0 + 13 + length v2_firm_counts
              then revenue_row (fst rc - 0) (v2_firm_counts ! (fst rc - 0 - 13)) (snd rc) (m rc) else m rc)"
    unfolding v2_ws_calc_L345_def
    apply (rule ve_for_enumerate_rows)
    apply (rule ve_eq)
     apply (rule ve_rules ve_for_range_id | (simp; fail))+
    apply (auto simp: fun_eq_iff revenue_row_def revenue_cell_def)
    done
  then show ?thesis by (simp cong: if_cong)
qed



lemma revenue_row_cols:
  "1 \<le> c \<Longrightarrow> c \<le> 7 \<Longrightarrow> revenue_row r x c old = Some (revenue_cell r x c)"
  by (simp add: revenue_row_def)

lemma v2_calc_sheet:
  "\<exists>u. val_effect v2_ws_calc u \<and>
       (\<forall>m r c. 13 \<le> r \<and> r < 13 + length v2_firm_counts \<and> 1 \<le> c \<and> c \<le> 7 \<longrightarrow>
          u m (r, c) = Some (revenue_cell r (v2_firm_counts ! (r - 13)) c))"
  unfolding v2_ws_calc_def v2_ws_calc_L337_def v2_ws_calc_L386_def
  apply (rule exI, rule conjI)
   apply (rule ve_rules v2_calc_loop ve_for_range_id | (simp add: coord_defs; fail))+
  apply (simp add: revenue_row_cols del: fun_upd_apply)
  done

section \<open>Claims about the table loops\<close>

lemma row_populated_iff: "row_populated ws r c0 n \<longleftrightarrow> (\<forall>j<n. cells ws (r, c0 + j) \<noteq> None)"
  by (auto simp: row_populated_def list_all_iff)

text \<open>
  Claim C1. For every headers list and every list of rows in which each row has exactly
  \<open>len(headers)\<close> entries, writing the table at an anchor succeeds, and the sheet then
  holds \<open>len(rows) + 1\<close> populated rows from the anchor on: the header row at the anchor
  row and row \<open>i\<close> of the data at anchor row \<open>+ 1 + i\<close>, each value in the column of
  its position; no cell outside that block changes.
\<close>

theorem write_table_populates_rows:
  assumes r0: "1 \<le> r0" and c0: "1 \<le> c0"
    and shape: "\<forall>row \<in> set rows. length row = length headers"
  shows "\<exists>ws'. write_table hsty bsty (r0, c0) headers rows ws = Inr ws' \<and>
     (\<forall>k \<le> length rows. row_populated ws' (r0 + k) c0 (length headers)) \<and>
     (\<forall>j < length headers. value_at ws' (r0, c0 + j) = Some (headers ! j)) \<and>
     (\<forall>i < length rows. \<forall>j < length headers.
        value_at ws' (r0 + 1 + i, c0 + j) = Some (rows ! i ! j)) \<and>
     (\<forall>r c. \<not> (r0 \<le> r \<and> r \<le> r0 + length rows \<and> c0 \<le> c \<and> c < c0 + length headers) \<longrightarrow>
        cells ws' (r, c) = cells ws (r, c))"
proof -
  let ?cs = "rows_cells bsty (Suc r0) c0 rows
               (ws\<lparr>cells := row_cells (\<lambda>_ _ _. hsty) r0 c0 headers ws\<rparr>)"
  let ?ws' = "ws\<lparr>cells := ?cs\<rparr>"
  have len: "length (rows ! i) = length headers" if "i < length rows" for i
    using shape that by simp
  have run: "write_table hsty bsty (r0, c0) headers rows ws = Inr ?ws'"
    using r0 c0 by (rule write_table_eq)
  have hdr: "value_at ?ws' (r0, c0 + j) = Some (headers ! j)" if "j < length headers" for j
    using that by (simp add: value_at_def table_header_cell)
  have dat: "value_at ?ws' (r0 + 1 + i, c0 + j) = Some (rows ! i ! j)"
    if "i < length rows" "j < length headers" for i j
    using that len by (simp add: value_at_def table_data_cell)
  have pop: "row_populated ?ws' (r0 + k) c0 (length headers)" if "k \<le> length rows" for k
  proof (cases k)
    case 0
    then show ?thesis by (simp add: row_populated_iff table_header_cell)
  next
    case (Suc i)
    then have "i < length rows" using that by simp
    then show ?thesis using Suc len by (simp add: row_populated_iff table_data_cell)
  qed
  have frame: "cells ?ws' (r, c) = cells ws (r, c)"
    if "\<not> (r0 \<le> r \<and> r \<le> r0 + length rows \<and> c0 \<le> c \<and> c < c0 + length headers)" for r c
  proof -
    have "\<not> (r0 < r \<and> r \<le> r0 + length rows \<and> c0 \<le> c \<and> c < c0 + length (rows ! (r - Suc r0)))"
    proof
      assume a: "r0 < r \<and> r \<le> r0 + length rows \<and> c0 \<le> c \<and> c < c0 + length (rows ! (r - Suc r0))"
      then have "r - Suc r0 < length rows" by arith
      then have "length (rows ! (r - Suc r0)) = length headers" by (rule len)
      with a that show False by simp
    qed
    moreover have "\<not> (r = r0 \<and> c0 \<le> c \<and> c < c0 + length headers)" using that by auto
    ultimately show ?thesis by (simp add: table_other_cell)
  qed
  show ?thesis using run hdr dat pop frame by blast
qed

theorem write_table_populates_rows_witness:
  "value_at (projr (write_table id (\<lambda>_ _ _. id) (1, 1) [StrV ''Tier'', StrV ''Monthly'']
      [[StrV ''Standard'', IntV 250], [StrV ''Professional'', IntV 300]] (new_sheet ''Pricing'')))
    (3, 2) = Some (IntV 300)"
proof -
  let ?h = "[StrV ''Tier'', StrV ''Monthly'']"
  let ?rows = "[[StrV ''Standard'', IntV 250], [StrV ''Professional'', IntV 300]]"
  have "\<forall>row \<in> set ?rows. length row = length ?h" by simp
  from write_table_populates_rows [of 1 1 ?rows ?h id "\<lambda>_ _ _. id" "new_sheet ''Pricing''", OF _ _ this]
  obtain ws' where ok: "write_table id (\<lambda>_ _ _. id) (1, 1) ?h ?rows (new_sheet ''Pricing'') = Inr ws'"
    and dat: "\<forall>i < length ?rows. \<forall>j < length ?h. value_at ws' (1 + 1 + i, 1 + j) = Some (?rows ! i ! j)"
    by auto
  from dat have "value_at ws' (1 + 1 + 1, 1 + 1) = Some (?rows ! 1 ! 1)" by simp
  then show ?thesis using ok by (simp add: eval_nat_numeral)
qed

text \<open>
  Claim C2, as stated: a row whose length differs from \<open>len(headers)\<close> makes the table
  write fail with RowShapeError and leaves the sheet untouched. The loops of the scripts
  hold no such check: under the seven headers of the question set a row of two entries
  is written as it is, and the write succeeds.
\<close>

theorem row_shape_counterexample:
  "\<not> isl (write_table ce_header_style ce_body_style (1, 1) ce_headers
             [[StrV ''A1 - Organisation'', StrV ''A1.1'']] (new_sheet ''CE Question Set'')) \<and>
   value_at (projr (write_table ce_header_style ce_body_style (1, 1) ce_headers
             [[StrV ''A1 - Organisation'', StrV ''A1.1'']] (new_sheet ''CE Question Set''))) (2, 2)
     = Some (StrV ''A1.1'') \<and>
   value_at (new_sheet ''CE Question Set'') (2, 2) = None \<and>
   length [StrV ''A1 - Organisation'', StrV ''A1.1''] \<noteq> length ce_headers"
  by (simp add: write_table_eq value_at_def rows_cells_def new_sheet_def ce_headers_def)

text \<open>
  Claim C2, amended. The table loops compare no row length with the number of headers
  and raise no RowShapeError: for every list of rows, whatever their lengths, writing the
  table at an anchor succeeds, the header row holds the headers, every row \<open>i\<close> is written
  in full (its own \<open>len(rows[i])\<close> values from the anchor column on), and no other cell
  changes.
\<close>

theorem write_table_any_row_lengths:
  assumes r0: "1 \<le> r0" and c0: "1 \<le> c0"
  shows "\<exists>ws'. write_table hsty bsty (r0, c0) headers rows ws = Inr ws' \<and>
     (\<forall>j < length headers. value_at ws' (r0, c0 + j) = Some (headers ! j)) \<and>
     (\<forall>i < length rows. \<forall>j < length (rows ! i).
        value_at ws' (r0 + 1 + i, c0 + j) = Some (rows ! i ! j)) \<and>
     (\<forall>r c. \<not> (r = r0 \<and> c0 \<le> c \<and> c < c0 + length headers) \<and>
            \<not> (r0 < r \<and> r \<le> r0 + length rows \<and> c0 \<le> c \<and>
               c < c0 + length (rows ! (r - Suc r0))) \<longrightarrow>
        cells ws' (r, c) = cells ws (r, c))"
proof -
  let ?ws' = "ws\<lparr>cells := rows_cells bsty (Suc r0) c0 rows
               (ws\<lparr>cells := row_cells (\<lambda>_ _ _. hsty) r0 c0 headers ws\<rparr>)\<rparr>"
  have run: "write_table hsty bsty (r0, c0) headers rows ws = Inr ?ws'"
    using r0 c0 by (rule write_table_eq)
  have hdr: "value_at ?ws' (r0, c0 + j) = Some (headers ! j)" if "j < length headers" for j
    using that by (simp add: value_at_def table_header_cell)
  have dat: "value_at ?ws' (r0 + 1 + i, c0 + j) = Some (rows ! i ! j)"
    if "i < length rows" "j < length (rows ! i)" for i j
    using that by (simp add: value_at_def table_data_cell)
  have frame: "cells ?ws' (r, c) = cells ws (r, c)"
    if "\<not> (r = r0 \<and> c0 \<le> c \<and> c < c0 + length headers)"
       "\<not> (r0 < r \<and> r \<le> r0 + length rows \<and> c0 \<le> c \<and> c < c0 + length (rows ! (r - Suc r0)))"
    for r c
    using that by (simp add: table_other_cell)
  show ?thesis using run hdr dat frame by blast
qed

theorem write_table_any_row_lengths_witness:
  "value_at (projr (write_table ce_header_style ce_body_style (1, 1) ce_headers
      [[StrV ''A1 - Organisation'', StrV ''A1.1'']] (new_sheet ''CE Question Set''))) (2, 2)
     = Some (StrV ''A1.1'')"
proof -
  let ?rows = "[[StrV ''A1 - Organisation'', StrV ''A1.1'']]"
  from write_table_any_row_lengths [of 1 1 ce_header_style ce_body_style ce_headers ?rows
      "new_sheet ''CE Question Set''"]
  obtain ws' where ok: "write_table ce_header_style ce_body_style (1, 1) ce_headers ?rows
        (new_sheet ''CE Question Set'') = Inr ws'"
    and dat: "\<forall>i < length ?rows. \<forall>j < length (?rows ! i).
        value_at ws' (1 + 1 + i, 1 + j) = Some (?rows ! i ! j)"
    by auto
  from dat have "value_at ws' (1 + 1 + 0, 1 + 1) = Some (?rows ! 0 ! 1)" by simp
  then show ?thesis using ok by (simp add: eval_nat_numeral)
qed

text \<open>
  Claim C3, as stated: every written cell receives the mapped fill exactly when its text
  equals a key of the mapping. In the MEMA table the status \<open>Confirm email\<close> equals none
  of the texts Ready, ACTION, Confirm that the branch names, and receives the action fill
  (the test is containment); in the question set a cell of column 1 with the text Ready
  keeps the default fill (the branch looks at column 7 only).
\<close>

theorem conditional_fill_counterexample:
  "s_fill (the (style_at (projr (mema_write_data
      [[''A3 Insurance'', ''A3.3'', ''Insurance contact email'', ''info@memaconsultants.com'',
        ''Confirm email'']] (new_sheet ''CE Answers''))) (2, 5))) = action_fill \<and>
   ''Confirm email'' \<notin> {''Ready'', ''ACTION'', ''Confirm''} \<and>
   s_fill (the (style_at (projr (ce_write_data
      [[StrV ''Ready'', StrV ''A1.9'', StrV ''Pending'']] (new_sheet ''CE Question Set''))) (2, 1)))
     = default_fill \<and>
   mapped_fill ce_conditional_fills (StrV ''Ready'')
     = Some (PatternFill ''C6EFCE'' ''C6EFCE'' ''solid'') \<and>
   default_fill \<noteq> PatternFill ''C6EFCE'' ''C6EFCE'' ''solid''"
  by (simp add: mema_write_data_def ce_write_data_def write_rows_eq style_at_def rows_cells_def
      mema_body_fill ce_body_fill new_sheet_def get_cell_def default_cell_def default_style_def
      mapped_fill_def ce_conditional_fills_def default_fill_def PatternFill_def)

text \<open>
  Claim C3, amended. The conditional fill is applied to the cells of the Status column
  only (column 7 of the question set, column 5 of the MEMA answers). In the question set
  such a cell receives the mapped fill exactly when its value equals one of the keys
  Ready, Pending, Confirm, Partial, and any other value (such as Other) keeps the fill the
  cell had, the default fill on a fresh sheet. In the MEMA answers the Status cell
  receives the ready fill when its value equals Ready, else the action fill when it
  contains ACTION or Confirm, else keeps its fill. A cell of any other column keeps its
  fill.
\<close>

theorem conditional_fill_status_column:
  assumes "i < length data" "j < length (data ! i)"
    and "k < length mdata" "l < length (mdata ! k)"
  shows "(\<exists>ws' st. ce_write_data data ws = Inr ws' \<and> style_at ws' (2 + i, 1 + j) = Some st \<and>
            s_fill st =
              (if 1 + j = 7
               then (case mapped_fill ce_conditional_fills (data ! i ! j) of
                       None \<Rightarrow> s_fill (c_style (get_cell ws (2 + i, 1 + j)))
                     | Some f \<Rightarrow> f)
               else s_fill (c_style (get_cell ws (2 + i, 1 + j))))) \<and>
         (\<exists>ws' st. mema_write_data mdata ws = Inr ws' \<and> style_at ws' (2 + k, 1 + l) = Some st \<and>
            s_fill st =
              (if 1 + l = 5
               then (if mdata ! k ! l = ''Ready'' then ready_fill
                     else if py_in ''ACTION'' (mdata ! k ! l) \<or> py_in ''Confirm'' (mdata ! k ! l)
                     then action_fill
                     else s_fill (c_style (get_cell ws (2 + k, 1 + l))))
               else s_fill (c_style (get_cell ws (2 + k, 1 + l)))))"
proof -
  from write_rows_style_at [of 2 1 i data j ce_body_style ws] assms
  have ce: "\<exists>ws'. ce_write_data data ws = Inr ws' \<and>
      style_at ws' (2 + i, 1 + j) =
        Some (ce_body_style (2 + i) (1 + j) (data ! i ! j) (c_style (get_cell ws (2 + i, 1 + j))))"
    by (auto simp: ce_write_data_def)
  from write_rows_style_at [of 2 1 k "map (map StrV) mdata" l mema_body_style ws] assms
  have me: "\<exists>ws'. mema_write_data mdata ws = Inr ws' \<and>
      style_at ws' (2 + k, 1 + l) =
        Some (mema_body_style (2 + k) (1 + l) (StrV (mdata ! k ! l))
                (c_style (get_cell ws (2 + k, 1 + l))))"
    by (auto simp: mema_write_data_def)
  from ce obtain w1 where w1: "ce_write_data data ws = Inr w1"
     "style_at w1 (2 + i, 1 + j) =
        Some (ce_body_style (2 + i) (1 + j) (data ! i ! j) (c_style (get_cell ws (2 + i, 1 + j))))"
    by blast
  from me obtain w2 where w2: "mema_write_data mdata ws = Inr w2"
     "style_at w2 (2 + k, 1 + l) =
        Some (mema_body_style (2 + k) (1 + l) (StrV (mdata ! k ! l))
                (c_style (get_cell ws (2 + k, 1 + l))))"
    by blast
  have f1: "s_fill (ce_body_style (2 + i) (1 + j) (data ! i ! j) (c_style (get_cell ws (2 + i, 1 + j))))
      = (if 1 + j = 7
         then (case mapped_fill ce_conditional_fills (data ! i ! j) of
                 None \<Rightarrow> s_fill (c_style (get_cell ws (2 + i, 1 + j)))
               | Some f \<Rightarrow> f)
         else s_fill (c_style (get_cell ws (2 + i, 1 + j))))"
    by (simp only: ce_body_fill)
  have f2: "s_fill (mema_body_style (2 + k) (1 + l) (StrV (mdata ! k ! l))
                (c_style (get_cell ws (2 + k, 1 + l))))
      = (if 1 + l = 5
         then (if mdata ! k ! l = ''Ready'' then ready_fill
               else if py_in ''ACTION'' (mdata ! k ! l) \<or> py_in ''Confirm'' (mdata ! k ! l)
               then action_fill
               else s_fill (c_style (get_cell ws (2 + k, 1 + l))))
         else s_fill (c_style (get_cell ws (2 + k, 1 + l))))"
    by (simp only: mema_body_fill)
  from w1 f1 have A: "\<exists>ws' st. ce_write_data data ws = Inr ws' \<and> style_at ws' (2 + i, 1 + j) = Some st \<and>
            s_fill st =
              (if 1 + j = 7
               then (case mapped_fill ce_conditional_fills (data ! i ! j) of
                       None \<Rightarrow> s_fill (c_style (get_cell ws (2 + i, 1 + j)))
                     | Some f \<Rightarrow> f)
               else s_fill (c_style (get_cell ws (2 + i, 1 + j))))"
    by blast
  from w2 f2 have B: "\<exists>ws' st. mema_write_data mdata ws = Inr ws' \<and> style_at ws' (2 + k, 1 + l) = Some st \<and>
            s_fill st =
              (if 1 + l = 5
               then (if mdata ! k ! l = ''Ready'' then ready_fill
                     else if py_in ''ACTION'' (mdata ! k ! l) \<or> py_in ''Confirm'' (mdata ! k ! l)
                     then action_fill
                     else s_fill (c_style (get_cell ws (2 + k, 1 + l))))
               else s_fill (c_style (get_cell ws (2 + k, 1 + l))))"
    by blast
  from A B show ?thesis by (rule conjI)
qed


theorem conditional_fill_status_column_witness:
  "s_fill (the (style_at (projr (ce_write_data
      [[StrV ''A2 - Scope'', StrV ''A2.2'', StrV ''Scope description (if not whole org)'',
        StrV ''Only if A2.1 = No'', StrV ''Notes'', StrV ''N/A'', StrV ''N/A''],
       [StrV ''A1 - Organisation'', StrV ''A1.6'', StrV ''What is your website address?'',
        StrV ''Website or LinkedIn/Facebook page'', StrV ''Notes'', StrV ''https://plannetic.com'',
        StrV ''Confirm'']] (new_sheet ''CE Question Set''))) (3, 7)))
     = PatternFill ''BDD7EE'' ''BDD7EE'' ''solid'' \<and>
   s_fill (the (style_at (projr (mema_write_data
      [[''A3 Insurance'', ''A3.3'', ''Insurance contact email'', ''info@memaconsultants.com'',
        ''Confirm email'']] (new_sheet ''CE Answers''))) (2, 5))) = action_fill"
proof -
  let ?d = "[[StrV ''A2 - Scope'', StrV ''A2.2'', StrV ''Scope description (if not whole org)'',
        StrV ''Only if A2.1 = No'', StrV ''Notes'', StrV ''N/A'', StrV ''N/A''],
       [StrV ''A1 - Organisation'', StrV ''A1.6'', StrV ''What is your website address?'',
        StrV ''Website or LinkedIn/Facebook page'', StrV ''Notes'', StrV ''https://plannetic.com'',
        StrV ''Confirm'']]"
  let ?m = "[[''A3 Insurance'', ''A3.3'', ''Insurance contact email'', ''info@memaconsultants.com'',
        ''Confirm email'']]"
  have h: "1 < length ?d" "6 < length (?d ! 1)" "0 < length ?m" "4 < length (?m ! 0)"
    by simp_all
  from conditional_fill_status_column [OF h, of "new_sheet ''CE Question Set''"]
  obtain w1 s1 where w1: "ce_write_data ?d (new_sheet ''CE Question Set'') = Inr w1"
      "style_at w1 (2 + 1, 1 + 6) = Some s1"
      "s_fill s1 = PatternFill ''BDD7EE'' ''BDD7EE'' ''solid''"
    by (auto simp: mapped_fill_def ce_conditional_fills_def)
  from conditional_fill_status_column [OF h, of "new_sheet ''CE Answers''"]
  obtain w2 s2 where w2: "mema_write_data ?m (new_sheet ''CE Answers'') = Inr w2"
      "style_at w2 (2 + 0, 1 + 4) = Some s2" "s_fill s2 = action_fill"
    by auto
  show ?thesis using w1 w2 by simp
qed

text \<open>
  Claim C8. In the MEMA script a Status cell (column 5), written on a fresh cell, gets
  the ready fill exactly when its value is Ready, the action fill exactly when its value
  contains ACTION or contains Confirm, and otherwise no fill (the default fill stays).
  The witness reads the three cases off the data of the script: row A3.3 (Confirm email)
  and row A4.1.1 (ACTION: ...) get the action fill, row A2.2 (N/A) gets none.
\<close>

theorem mema_status_fill_rule:
  assumes "i < length data" "4 < length (data ! i)" "cells ws (2 + i, 5) = None"
  shows "\<exists>ws' st. mema_write_data data ws = Inr ws' \<and> style_at ws' (2 + i, 5) = Some st \<and>
     (s_fill st = ready_fill \<longleftrightarrow> data ! i ! 4 = ''Ready'') \<and>
     (s_fill st = action_fill \<longleftrightarrow>
        py_in ''ACTION'' (data ! i ! 4) \<or> py_in ''Confirm'' (data ! i ! 4)) \<and>
     (s_fill st = default_fill \<longleftrightarrow>
        data ! i ! 4 \<noteq> ''Ready'' \<and> \<not> py_in ''ACTION'' (data ! i ! 4) \<and>
        \<not> py_in ''Confirm'' (data ! i ! 4))"
proof -
  define v where "v = data ! i ! 4"
  define st where "st = mema_body_style (2 + i) 5 (StrV v) (c_style (get_cell ws (2 + i, 5)))"
  from write_rows_style_at [of 2 1 i "map (map StrV) data" 4 mema_body_style ws] assms
  obtain ws' where run: "mema_write_data data ws = Inr ws'"
    and st: "style_at ws' (2 + i, 5) = Some st"
    by (auto simp: mema_write_data_def st_def v_def)
  have old: "s_fill (c_style (get_cell ws (2 + i, 5))) = default_fill"
    using assms(3) by (simp add: get_cell_def default_cell_def default_style_def)
  have fill: "s_fill st =
      (if v = ''Ready'' then ready_fill
       else if py_in ''ACTION'' v \<or> py_in ''Confirm'' v then action_fill else default_fill)"
    unfolding st_def mema_body_fill old by simp
  have nr: "\<not> py_in ''ACTION'' ''Ready''" "\<not> py_in ''Confirm'' ''Ready''" by simp_all
  have "(s_fill st = ready_fill \<longleftrightarrow> v = ''Ready'') \<and>
     (s_fill st = action_fill \<longleftrightarrow> py_in ''ACTION'' v \<or> py_in ''Confirm'' v) \<and>
     (s_fill st = default_fill \<longleftrightarrow>
        v \<noteq> ''Ready'' \<and> \<not> py_in ''ACTION'' v \<and> \<not> py_in ''Confirm'' v)"
    using fills_distinct nr by (auto simp: fill)
  with run st show ?thesis unfolding v_def by blast
qed

theorem mema_status_fill_rule_witness:
  "s_fill (the (style_at (projr (mema_write_data mema_data (new_sheet ''CE Answers''))) (27, 5)))
     = action_fill \<and>
   mema_data ! 25 ! 4 = ''Confirm email'' \<and>
   s_fill (the (style_at (projr (mema_write_data mema_data (new_sheet ''CE Answers''))) (29, 5)))
     = action_fill \<and>
   mema_data ! 27 ! 4 = ''ACTION: Verify both firewalls are ON'' \<and>
   s_fill (the (style_at (projr (mema_write_data mema_data (new_sheet ''CE Answers''))) (14, 5)))
     = default_fill \<and>
   mema_data ! 12 ! 4 = ''N/A''"
proof -
  let ?ws = "new_sheet ''CE Answers''"
  have len: "length mema_data = 88" by (simp add: mema_data_def)
  have r25: "mema_data ! 25 = [''A3 Insurance'', ''A3.3'', ''Insurance contact email'',
      ''info@memaconsultants.com'', ''Confirm email'']"
    by (simp add: mema_data_def)
  have v27: "length (mema_data ! 27) = 5" "mema_data ! 27 ! 4 = ''ACTION: Verify both firewalls are ON''"
    by (simp_all add: mema_data_def)
  have v12: "length (mema_data ! 12) = 5" "mema_data ! 12 ! 4 = ''N/A''"
    by (simp_all add: mema_data_def)
  have e: "cells ?ws rc = None" for rc by (simp add: new_sheet_def)
  from mema_status_fill_rule [of 25 mema_data ?ws] len r25 e
  obtain w s where a: "mema_write_data mema_data ?ws = Inr w" "style_at w (27, 5) = Some s"
     "s_fill s = action_fill"
    by auto
  from mema_status_fill_rule [of 27 mema_data ?ws] len v27 e
  obtain w' s' where b: "mema_write_data mema_data ?ws = Inr w'" "style_at w' (29, 5) = Some s'"
     "s_fill s' = action_fill"
    by auto
  from mema_status_fill_rule [of 12 mema_data ?ws] len v12 e
  obtain w'' s'' where c: "mema_write_data mema_data ?ws = Inr w''" "style_at w'' (14, 5) = Some s''"
     "s_fill s'' = default_fill"
    by auto
  show ?thesis using a b c r25 v27 v12 by simp
qed

section \<open>Claims about sheets and charts\<close>




end
